theory Spec2Isabelle
  imports Main "HOL-Library.Word"
begin

section \<open>The geometry importer of COLLADAMaya\<close>

text \<open>
  A shallow embedding of \<^verbatim>\<open>COLLADAMaya/src/COLLADAMayaGeometryImporter.cpp\<close>.
  The C++ types are read as on an LP64 platform: \<^verbatim>\<open>int\<close> and \<^verbatim>\<open>unsigned int\<close> are
  32-bit words (\<open>sint\<close> reads the signed one, \<open>unat\<close> the unsigned one) and
  \<^verbatim>\<open>size_t\<close> is a 64-bit word, so that every \<open>+\<close>, \<open>-\<close> and \<open>*\<close> wraps as the
  machine does. A counter that only runs from 0 to a bound it is compared with is a
  natural number. An array is a list; a read or write outside it, which is undefined
  in C++, is the error \<open>IndexOutOfRange\<close>, dereferencing a null pointer is
  \<open>NullPointer\<close>, an array of negative size is \<open>BadAlloc\<close>, a division by zero is
  \<open>DivisionByZero\<close> and the use of a variable that was never assigned is
  \<open>UninitializedValue\<close>. A failing \<^verbatim>\<open>assert\<close> is an error of its own: the embedding
  follows a build in which assertions are active. An error ends the import: what was
  written before it is not part of the result. The values of the mesh, of single or
  double precision, are of one type \<open>'a\<close> of which nothing is assumed; the
  conversions between the two precisions are left out.
\<close>

type_synonym int32 = "32 word"
type_synonym uint32 = "32 word"
type_synonym size_t = "64 word"

datatype error =
    IndexOutOfRange | EdgeNotFound | NullPointer | BadAlloc | NoTransformNode
  | AssertionFailed | DivisionByZero | UninitializedValue

text \<open>A loop body that may fail, run \<open>n\<close> times, and run over the elements of an array.\<close>

fun iterateE :: "nat \<Rightarrow> ('s \<Rightarrow> error + 's) \<Rightarrow> 's \<Rightarrow> error + 's" where
  "iterateE 0 body s = Inr s"
| "iterateE (Suc n) body s =
     (case body s of Inl e \<Rightarrow> Inl e | Inr s' \<Rightarrow> iterateE n body s')"

fun foldE :: "('s \<Rightarrow> 'a \<Rightarrow> error + 's) \<Rightarrow> 's \<Rightarrow> 'a list \<Rightarrow> error + 's" where
  "foldE body s [] = Inr s"
| "foldE body s (x # xs) =
     (case body s x of Inl e \<Rightarrow> Inl e | Inr s' \<Rightarrow> foldE body s' xs)"

fun mapE :: "('a \<Rightarrow> error + 'b) \<Rightarrow> 'a list \<Rightarrow> error + 'b list" where
  "mapE g [] = Inr []"
| "mapE g (x # xs) =
     (case g x of
        Inl e \<Rightarrow> Inl e
      | Inr y \<Rightarrow> (case mapE g xs of Inl e \<Rightarrow> Inl e | Inr ys \<Rightarrow> Inr (y # ys)))"

subsection \<open>The face record written to the output\<close>

text \<open>
  \<^verbatim>\<open>MayaDM::polyFaces\<close>: the face part \<^verbatim>\<open>f\<close>, the hole part \<^verbatim>\<open>h\<close>, and one
  \<^verbatim>\<open>MU\<close> (\<^verbatim>\<open>MC\<close>) entry for each UV (colour) set. The counters \<^verbatim>\<open>muCount\<close> and
  \<^verbatim>\<open>mcCount\<close> are the lengths of the lists \<open>mu\<close> and \<open>mc\<close>. A default-constructed
  value has no edges, no hole and no sets.
\<close>

record MU =
  uvSet :: int32
  faceUVCount :: int32
  uvIdValue :: "int32 list"

record MC =
  colorSet :: int32
  faceColorCount :: int32
  colorIdValue :: "int32 list"

record polyFaces =
  f_faceEdgeCount :: int32
  f_edgeIdValue :: "int32 list"
  h_holeEdgeCount :: int32
  h_edgeIdValue :: "int32 list"
  mu :: "MU list"
  mc :: "MC list"

definition polyFaces_default :: polyFaces where
  "polyFaces_default =
     \<lparr>f_faceEdgeCount = 0, f_edgeIdValue = [], h_holeEdgeCount = 0, h_edgeIdValue = [],
      mu = [], mc = []\<rparr>"

subsection \<open>Edges and the edge index map\<close>

text \<open>
  Modelled from the spec: \<^verbatim>\<open>COLLADAFW::Edge\<close> (\<^verbatim>\<open>COLLADAFWEdge.h\<close> is not among the
  sources). An edge is an unordered pair of vertex position indices, stored with the
  smaller index first, together with a flag that tells whether the pair it was built
  from had the other direction. The map \<^verbatim>\<open>std::map<COLLADAFW::Edge,size_t>\<close> is keyed
  by the stored pair.
\<close>

record Edge =
  mVertexIndices :: "uint32 \<times> uint32"
  mReverse :: bool

definition Edge_ctor :: "int32 \<Rightarrow> int32 \<Rightarrow> Edge" where
  "Edge_ctor index1 index2 =
     (if sint index1 < sint index2
      then \<lparr>mVertexIndices = (index1, index2), mReverse = False\<rparr>
      else \<lparr>mVertexIndices = (index2, index1), mReverse = True\<rparr>)"

definition isReverse :: "Edge \<Rightarrow> bool" where
  "isReverse edge = mReverse edge"

type_synonym EdgeMap = "uint32 \<times> uint32 \<rightharpoonup> size_t"

text \<open>
  \<^verbatim>\<open>getEdgeIndex\<close>: the assertion \<^verbatim>\<open>it != edgeIndicesMap.end()\<close> fails for an edge
  that is not in the map. The function always returns \<^verbatim>\<open>true\<close>; the embedding
  returns the value of the reference parameter \<^verbatim>\<open>edgeIndex\<close>.
\<close>

definition getEdgeIndex :: "Edge \<Rightarrow> EdgeMap \<Rightarrow> error + int32" where
  "getEdgeIndex edge edgeIndicesMap =
     (case edgeIndicesMap (mVertexIndices edge) of
        None \<Rightarrow> Inl EdgeNotFound
      | Some second \<Rightarrow>
          (let edgeIndex = (ucast second :: int32)
           in Inr (if isReverse edge then - (edgeIndex + 1) else edgeIndex)))"

subsection \<open>The input: value arrays, index lists, primitives, the mesh\<close>

text \<open>
  \<^verbatim>\<open>COLLADAFW::MeshVertexData\<close>, \<^verbatim>\<open>COLLADAFW::IndexList\<close>,
  \<^verbatim>\<open>COLLADAFW::MeshPrimitive\<close> and \<^verbatim>\<open>COLLADAFW::Mesh\<close> are declared outside this
  file; the records hold what the importer reads through their accessors. Of a
  \<^verbatim>\<open>MeshVertexData\<close> these are its type, the array of the single and the array of
  the double precision values (\<^verbatim>\<open>getValuesCount\<close> is the number of elements of the
  array of its type) and, for each input, the name, the stride and the length.
  In a primitive, \<open>groupedVertexElementsCount\<close> is the value returned by
  \<^verbatim>\<open>getGroupedVertexElementsCount\<close>, \<open>groupedVerticesVertexCountArray\<close> the array
  returned by \<^verbatim>\<open>getGroupedVerticesVertexCountArray\<close>, \<open>groupedVerticesVertexCount\<close>
  the virtual function \<^verbatim>\<open>getGroupedVerticesVertexCount\<close>, and \<open>appendEdgeIndices\<close>
  the function of this name, which enters the edges of the primitive in the list and
  in the map of the edges. The two look-ups of a set index by name, the number of
  normals and the number of faces are fields of the mesh.
\<close>

datatype DataType = DATA_TYPE_FLOAT | DATA_TYPE_DOUBLE | DATA_TYPE_UNKNOWN

record InputInfos =
  ii_name :: string
  ii_stride :: size_t
  ii_length :: size_t

record 'a MeshVertexData =
  getType :: DataType
  getFloatValues :: "'a list"
  getDoubleValues :: "'a list"
  inputInfosArray :: "InputInfos list"

record IndexList =
  il_name :: string
  il_indices :: "uint32 list"
  il_initialIndex :: size_t

datatype PrimitiveType =
    LINES | LINE_STRIPS | POLYGONS | POLYLIST | TRIANGLES | TRIANGLE_FANS | TRIANGLE_STRIPS
  | POINTS | UNDEFINED_PRIMITIVE_TYPE

record MeshPrimitive =
  primitiveType :: PrimitiveType
  positionIndices :: "uint32 list"
  normalIndices :: "uint32 list"
  groupedVertexElementsCount :: size_t
  groupedVerticesVertexCountArray :: "uint32 list"
  groupedVerticesVertexCount :: "nat \<Rightarrow> int32"
  uvCoordIndicesArray :: "IndexList list"
  colorIndicesArray :: "IndexList list"
  materialId :: nat
  appendEdgeIndices :: "Edge list \<times> EdgeMap \<Rightarrow> Edge list \<times> EdgeMap"

type_synonym UniqueId = nat

record 'a Mesh =
  uniqueId :: UniqueId
  meshPrimitives :: "MeshPrimitive list"
  getUVSetIndexByName :: "string \<Rightarrow> size_t"
  getColorIndexByName :: "string \<Rightarrow> size_t"
  getPositions :: "'a MeshVertexData"
  getNormals :: "'a MeshVertexData"
  getUVCoords :: "'a MeshVertexData"
  getColors :: "'a MeshVertexData"
  getNormalsCount :: size_t
  getFacesCount :: size_t

subsection \<open>The orientation of a hole\<close>

text \<open>
  Modelled from the spec: \<^verbatim>\<open>COLLADABU::Math::Vector3\<close> with its difference, cross
  product and dot product (the class is not among the sources). The components are of
  any type with \<open>+\<close>, \<open>-\<close>, \<open>*\<close> and an order; no law of arithmetic is assumed.
\<close>

record 'a Vector3 =
  vec_x :: 'a
  vec_y :: 'a
  vec_z :: 'a

definition vec_minus :: "('a::minus) Vector3 \<Rightarrow> 'a Vector3 \<Rightarrow> 'a Vector3" where
  "vec_minus a b = \<lparr>vec_x = vec_x a - vec_x b, vec_y = vec_y a - vec_y b, vec_z = vec_z a - vec_z b\<rparr>"

definition crossProduct :: "('a::{minus,times}) Vector3 \<Rightarrow> 'a Vector3 \<Rightarrow> 'a Vector3" where
  "crossProduct a b =
     \<lparr>vec_x = vec_y a * vec_z b - vec_z a * vec_y b,
      vec_y = vec_z a * vec_x b - vec_x a * vec_z b,
      vec_z = vec_x a * vec_y b - vec_y a * vec_x b\<rparr>"

definition dotProduct :: "('a::{plus,times}) Vector3 \<Rightarrow> 'a Vector3 \<Rightarrow> 'a" where
  "dotProduct a b = vec_x a * vec_x b + vec_y a * vec_y b + vec_z a * vec_z b"

text \<open>
  \<^verbatim>\<open>changeHoleOrientation\<close> reads the elements 0, 1 and 2 of both vectors of points.
\<close>

definition changeHoleOrientation ::
  "('a::{plus,minus,times,zero,ord}) Vector3 list \<Rightarrow> 'a Vector3 list \<Rightarrow> error + bool" where
  "changeHoleOrientation polygonPoints holePoints =
     (if length polygonPoints < 3 \<or> length holePoints < 3 then Inl IndexOutOfRange
      else
        (let p1 = vec_minus (polygonPoints ! 1) (polygonPoints ! 0);
             p2 = vec_minus (polygonPoints ! 2) (polygonPoints ! 0);
             polyCrossProduct = crossProduct p1 p2;
             h1 = vec_minus (holePoints ! 1) (holePoints ! 0);
             h2 = vec_minus (holePoints ! 2) (holePoints ! 0);
             holeCrossProduct = crossProduct h1 h2
         in Inr (dotProduct polyCrossProduct holeCrossProduct > 0)))"

text \<open>
  \<^verbatim>\<open>changePolyFaceHoleOrientation\<close>. The first loop,
  \<^verbatim>\<open>for (int edgeIndex = numEdges-1; edgeIndex >= 0; --edgeIndex)\<close>, pushes
  \<^verbatim>\<open>(edgeIdValue[edgeIndex] + 1) * (-1)\<close> onto \<^verbatim>\<open>valueVec\<close>; the second one writes
  \<^verbatim>\<open>valueVec\<close> back over the array.
\<close>

function reverseLoop :: "int32 list \<Rightarrow> int32 \<Rightarrow> int32 list \<Rightarrow> error + int32 list" where
  "reverseLoop edgeIdValue edgeIndex valueVec =
     (if 0 \<le> sint edgeIndex then
        (if nat (sint edgeIndex) < length edgeIdValue
         then reverseLoop edgeIdValue (edgeIndex - 1)
                (valueVec @ [(edgeIdValue ! nat (sint edgeIndex) + 1) * (- 1)])
         else Inl IndexOutOfRange)
      else Inr valueVec)"
  by pat_completeness auto
termination
proof (relation "measure (\<lambda>(edgeIdValue, edgeIndex, valueVec). nat (sint edgeIndex + 1))")
  show "wf (measure (\<lambda>(edgeIdValue, edgeIndex, valueVec). nat (sint edgeIndex + 1)))"
    by simp
next
  fix edgeIdValue :: "int32 list" and edgeIndex :: int32 and valueVec :: "int32 list"
  assume nonneg: "0 \<le> sint edgeIndex"
  have "sint edgeIndex < 2 ^ 31"
    using sint_lt [of edgeIndex] by simp
  with nonneg have "sint (edgeIndex - 1) = sint edgeIndex - 1"
    by (simp add: sint_word_diff signed_take_bit_int_eq_self)
  with nonneg show "((edgeIdValue, edgeIndex - 1,
           valueVec @ [(edgeIdValue ! nat (sint edgeIndex) + 1) * (- 1)]),
          (edgeIdValue, edgeIndex, valueVec))
         \<in> measure (\<lambda>(edgeIdValue, edgeIndex, valueVec). nat (sint edgeIndex + 1))"
    by simp
qed

function writeBackLoop :: "int32 list \<Rightarrow> int32 list \<Rightarrow> nat \<Rightarrow> error + int32 list" where
  "writeBackLoop edgeIdValue valueVec edgeIndex =
     (if edgeIndex < length valueVec then
        (if edgeIndex < length edgeIdValue
         then writeBackLoop (edgeIdValue[edgeIndex := valueVec ! edgeIndex]) valueVec (edgeIndex + 1)
         else Inl IndexOutOfRange)
      else Inr edgeIdValue)"
  by pat_completeness auto
termination
  by (relation "measure (\<lambda>(edgeIdValue, valueVec, edgeIndex). length valueVec - edgeIndex)") auto

definition changePolyFaceHoleOrientation :: "polyFaces \<Rightarrow> error + polyFaces" where
  "changePolyFaceHoleOrientation polyFace =
     (let numEdges = h_holeEdgeCount polyFace in
      case reverseLoop (h_edgeIdValue polyFace) (numEdges - 1) [] of
        Inl e \<Rightarrow> Inl e
      | Inr valueVec \<Rightarrow>
          (case writeBackLoop (h_edgeIdValue polyFace) valueVec 0 of
             Inl e \<Rightarrow> Inl e
           | Inr edgeIdValue \<Rightarrow> Inr (polyFace\<lparr>h_edgeIdValue := edgeIdValue\<rparr>)))"

subsection \<open>The UV and colour indices of a face\<close>

text \<open>
  One pass of the inner loop of \<^verbatim>\<open>setUVSetInfos\<close> and \<^verbatim>\<open>setColorInfos\<close>:
  \<^verbatim>\<open>indexList->getIndex (j + cursor) - indexList->getInitialIndex ()\<close>, computed in
  \<^verbatim>\<open>size_t\<close> and stored in an \<^verbatim>\<open>int\<close>.
\<close>

definition sliceIndex :: "IndexList \<Rightarrow> size_t \<Rightarrow> nat \<Rightarrow> error + int32" where
  "sliceIndex indexList cursor j =
     (let currentIndexPosition = word_of_nat j + cursor in
      if unat currentIndexPosition < length (il_indices indexList)
      then
        (let currentIndex = il_indices indexList ! unat currentIndexPosition;
             initialIndex = il_initialIndex indexList
         in Inr (ucast ((ucast currentIndex :: size_t) - initialIndex)))
      else Inl IndexOutOfRange)"

text \<open>The array \<^verbatim>\<open>new int [numEdges]\<close> and the loop \<^verbatim>\<open>for (int j=0; j<numEdges; ++j)\<close>.\<close>

definition sliceIndices :: "IndexList \<Rightarrow> size_t \<Rightarrow> int32 \<Rightarrow> error + int32 list" where
  "sliceIndices indexList cursor numEdges =
     (if sint numEdges < 0 then Inl BadAlloc
      else mapE (sliceIndex indexList cursor) [0 ..< nat (sint numEdges)])"

definition setUVSetInfos ::
  "'a Mesh \<Rightarrow> MeshPrimitive \<Rightarrow> polyFaces \<Rightarrow> size_t \<Rightarrow> int32 \<Rightarrow> error + polyFaces \<times> size_t" where
  "setUVSetInfos mesh primitiveElement polyFace uvSetIndicesIndex numEdges =
     (case mapE (\<lambda>indexList.
              case sliceIndices indexList uvSetIndicesIndex numEdges of
                Inl e \<Rightarrow> Inl e
              | Inr ids \<Rightarrow>
                  Inr \<lparr>uvSet = ucast (getUVSetIndexByName mesh (il_name indexList)),
                       faceUVCount = numEdges, uvIdValue = ids\<rparr>)
            (uvCoordIndicesArray primitiveElement) of
        Inl e \<Rightarrow> Inl e
      | Inr mus \<Rightarrow> Inr (polyFace\<lparr>mu := mus\<rparr>, uvSetIndicesIndex + scast numEdges))"

definition setColorInfos ::
  "'a Mesh \<Rightarrow> MeshPrimitive \<Rightarrow> polyFaces \<Rightarrow> size_t \<Rightarrow> int32 \<Rightarrow> error + polyFaces \<times> size_t" where
  "setColorInfos mesh primitiveElement polyFace colorIndicesIndex numEdges =
     (case mapE (\<lambda>indexList.
              case sliceIndices indexList colorIndicesIndex numEdges of
                Inl e \<Rightarrow> Inl e
              | Inr ids \<Rightarrow>
                  Inr \<lparr>colorSet = ucast (getColorIndexByName mesh (il_name indexList)),
                       faceColorCount = numEdges, colorIdValue = ids\<rparr>)
            (colorIndicesArray primitiveElement) of
        Inl e \<Rightarrow> Inl e
      | Inr mcs \<Rightarrow> Inr (polyFace\<lparr>mc := mcs\<rparr>, colorIndicesIndex + scast numEdges))"

subsection \<open>Triangle fans and triangle strips\<close>

text \<open>
  The local variables of \<^verbatim>\<open>appendTrifansPolyFaces\<close> and
  \<^verbatim>\<open>appendTristripsPolyFaces\<close>, and the faces appended to the mesh node so far.
  \<^verbatim>\<open>triangleEdgeCounter\<close> only takes the values 0 to 3.
\<close>

record Decoder =
  triangleEdgeCounter :: nat
  positionIndex :: size_t
  initialPositionIndex :: size_t
  uvSetIndicesIndex :: size_t
  colorIndicesIndex :: size_t
  polyFace :: polyFaces
  meshFaces :: "polyFaces list"

definition readPosition :: "uint32 list \<Rightarrow> size_t \<Rightarrow> error + int32" where
  "readPosition indices i =
     (if unat i < length indices then Inr (indices ! unat i) else Inl IndexOutOfRange)"

text \<open>
  The body of the loop over the edges of a fan. The array \<^verbatim>\<open>new int[3]\<close> is not
  initialised by the source; it is filled with 0 here, and each of its three elements
  is written before the face is appended.
\<close>

definition trifansEdge :: "'a Mesh \<Rightarrow> MeshPrimitive \<Rightarrow> EdgeMap \<Rightarrow> Decoder \<Rightarrow> error + Decoder" where
  "trifansEdge mesh primitiveElement edgeIndicesMap s =
     (let polyFace0 =
            (if triangleEdgeCounter s = 0
             then (polyFace s)\<lparr>f_faceEdgeCount := 3, f_edgeIdValue := replicate 3 0\<rparr>
             else polyFace s);
          counter = triangleEdgeCounter s + 1
      in
      (case readPosition (positionIndices primitiveElement)
              (if 1 < counter then positionIndex s else initialPositionIndex s) of
         Inl e \<Rightarrow> Inl e
       | Inr edgeStartVtxIndex \<Rightarrow>
      (let positionIndex1 = (if counter < 3 then positionIndex s + 1 else positionIndex s) in
      (case readPosition (positionIndices primitiveElement)
              (if counter < 3 then positionIndex1 else initialPositionIndex s) of
         Inl e \<Rightarrow> Inl e
       | Inr edgeEndVtxIndex \<Rightarrow>
      (case getEdgeIndex (Edge_ctor edgeStartVtxIndex edgeEndVtxIndex) edgeIndicesMap of
         Inl e \<Rightarrow> Inl e
       | Inr edgeIndexValue \<Rightarrow>
      (if length (f_edgeIdValue polyFace0) \<le> counter - 1 then Inl IndexOutOfRange
       else
      (let polyFace1 = polyFace0\<lparr>f_edgeIdValue :=
                         (f_edgeIdValue polyFace0)[counter - 1 := edgeIndexValue]\<rparr>
       in
      (if counter = 3 then
         (case setUVSetInfos mesh primitiveElement polyFace1 (uvSetIndicesIndex s) 3 of
            Inl e \<Rightarrow> Inl e
          | Inr (polyFace2, uvIndex) \<Rightarrow>
         (case setColorInfos mesh primitiveElement polyFace2 (colorIndicesIndex s) 3 of
            Inl e \<Rightarrow> Inl e
          | Inr (polyFace3, colorIndex) \<Rightarrow>
              Inr (s\<lparr>triangleEdgeCounter := 0,
                     positionIndex := positionIndex1 - 1,
                     uvSetIndicesIndex := uvIndex - 2,
                     colorIndicesIndex := colorIndex - 2,
                     polyFace := polyFace3,
                     meshFaces := meshFaces s @ [polyFace3]\<rparr>)))
       else Inr (s\<lparr>triangleEdgeCounter := counter, positionIndex := positionIndex1,
                   polyFace := polyFace1\<rparr>)))))))))"

text \<open>
  One pass of the loop over the groups of a fan primitive: a fresh \<^verbatim>\<open>polyFace\<close>,
  \<^verbatim>\<open>numEdges = ( vertexCount - 3 ) * 3 + 3\<close> in \<^verbatim>\<open>unsigned int\<close>, the loop over the
  edges, and the increments for the next group.
\<close>

definition trifansGroup ::
  "'a Mesh \<Rightarrow> MeshPrimitive \<Rightarrow> EdgeMap \<Rightarrow> Decoder \<Rightarrow> uint32 \<Rightarrow> error + Decoder" where
  "trifansGroup mesh primitiveElement edgeIndicesMap s vertexCount =
     (let numEdges = (vertexCount - 3) * 3 + 3 in
      case iterateE (unat numEdges) (trifansEdge mesh primitiveElement edgeIndicesMap)
             (s\<lparr>polyFace := polyFaces_default, triangleEdgeCounter := 0\<rparr>) of
        Inl e \<Rightarrow> Inl e
      | Inr s' \<Rightarrow>
          Inr (s'\<lparr>positionIndex := positionIndex s' + 2,
                  initialPositionIndex := initialPositionIndex s' + ucast vertexCount,
                  uvSetIndicesIndex := uvSetIndicesIndex s' + 2,
                  colorIndicesIndex := colorIndicesIndex s' + 2\<rparr>))"

definition Decoder_init :: "polyFaces list \<Rightarrow> Decoder" where
  "Decoder_init meshNode =
     \<lparr>triangleEdgeCounter = 0, positionIndex = 0, initialPositionIndex = 0,
      uvSetIndicesIndex = 0, colorIndicesIndex = 0, polyFace = polyFaces_default,
      meshFaces = meshNode\<rparr>"

definition appendTrifansPolyFaces ::
  "'a Mesh \<Rightarrow> MeshPrimitive \<Rightarrow> EdgeMap \<Rightarrow> polyFaces list \<Rightarrow> error + polyFaces list" where
  "appendTrifansPolyFaces mesh primitiveElement edgeIndicesMap meshNode =
     (case foldE (trifansGroup mesh primitiveElement edgeIndicesMap) (Decoder_init meshNode)
             (groupedVerticesVertexCountArray primitiveElement) of
        Inl e \<Rightarrow> Inl e
      | Inr s \<Rightarrow> Inr (meshFaces s))"

text \<open>The same for a strip; the start of an edge is always read at \<^verbatim>\<open>positionIndex\<close>.\<close>

definition tristripsEdge :: "'a Mesh \<Rightarrow> MeshPrimitive \<Rightarrow> EdgeMap \<Rightarrow> Decoder \<Rightarrow> error + Decoder" where
  "tristripsEdge mesh primitiveElement edgeIndicesMap s =
     (let polyFace0 =
            (if triangleEdgeCounter s = 0
             then (polyFace s)\<lparr>f_faceEdgeCount := 3, f_edgeIdValue := replicate 3 0\<rparr>
             else polyFace s);
          counter = triangleEdgeCounter s + 1
      in
      (case readPosition (positionIndices primitiveElement)
              (positionIndex s) of
         Inl e \<Rightarrow> Inl e
       | Inr edgeStartVtxIndex \<Rightarrow>
      (let positionIndex1 = (if counter < 3 then positionIndex s + 1 else positionIndex s) in
      (case readPosition (positionIndices primitiveElement)
              (if counter < 3 then positionIndex1 else initialPositionIndex s) of
         Inl e \<Rightarrow> Inl e
       | Inr edgeEndVtxIndex \<Rightarrow>
      (case getEdgeIndex (Edge_ctor edgeStartVtxIndex edgeEndVtxIndex) edgeIndicesMap of
         Inl e \<Rightarrow> Inl e
       | Inr edgeIndexValue \<Rightarrow>
      (if length (f_edgeIdValue polyFace0) \<le> counter - 1 then Inl IndexOutOfRange
       else
      (let polyFace1 = polyFace0\<lparr>f_edgeIdValue :=
                         (f_edgeIdValue polyFace0)[counter - 1 := edgeIndexValue]\<rparr>
       in
      (if counter = 3 then
         (case setUVSetInfos mesh primitiveElement polyFace1 (uvSetIndicesIndex s) 3 of
            Inl e \<Rightarrow> Inl e
          | Inr (polyFace2, uvIndex) \<Rightarrow>
         (case setColorInfos mesh primitiveElement polyFace2 (colorIndicesIndex s) 3 of
            Inl e \<Rightarrow> Inl e
          | Inr (polyFace3, colorIndex) \<Rightarrow>
              Inr (s\<lparr>triangleEdgeCounter := 0,
                     positionIndex := positionIndex1 - 1,
                     initialPositionIndex := positionIndex1 - 1,
                     uvSetIndicesIndex := uvIndex - 2,
                     colorIndicesIndex := colorIndex - 2,
                     polyFace := polyFace3,
                     meshFaces := meshFaces s @ [polyFace3]\<rparr>)))
       else Inr (s\<lparr>triangleEdgeCounter := counter, positionIndex := positionIndex1,
                   polyFace := polyFace1\<rparr>)))))))))"

text \<open>
  One pass of the loop over the groups of a strip primitive. After the edges of the
  group the source has \<^verbatim>\<open>positionIndex += 2; initialPositionIndex = positionIndex;
  uvSetIndicesIndex -= 2; colorIndicesIndex -= 2;\<close>.
\<close>

definition tristripsGroup ::
  "'a Mesh \<Rightarrow> MeshPrimitive \<Rightarrow> EdgeMap \<Rightarrow> Decoder \<Rightarrow> uint32 \<Rightarrow> error + Decoder" where
  "tristripsGroup mesh primitiveElement edgeIndicesMap s vertexCount =
     (let numEdges = (vertexCount - 3) * 3 + 3 in
      case iterateE (unat numEdges) (tristripsEdge mesh primitiveElement edgeIndicesMap)
             (s\<lparr>polyFace := polyFaces_default, triangleEdgeCounter := 0\<rparr>) of
        Inl e \<Rightarrow> Inl e
      | Inr s' \<Rightarrow>
          Inr (s'\<lparr>positionIndex := positionIndex s' + 2,
                  initialPositionIndex := positionIndex s' + 2,
                  uvSetIndicesIndex := uvSetIndicesIndex s' - 2,
                  colorIndicesIndex := colorIndicesIndex s' - 2\<rparr>))"

definition appendTristripsPolyFaces ::
  "'a Mesh \<Rightarrow> MeshPrimitive \<Rightarrow> EdgeMap \<Rightarrow> polyFaces list \<Rightarrow> error + polyFaces list" where
  "appendTristripsPolyFaces mesh primitiveElement edgeIndicesMap meshNode =
     (case foldE (tristripsGroup mesh primitiveElement edgeIndicesMap) (Decoder_init meshNode)
             (groupedVerticesVertexCountArray primitiveElement) of
        Inl e \<Rightarrow> Inl e
      | Inr s \<Rightarrow> Inr (meshFaces s))"

text \<open>
  The reference of the edge from \<open>a\<close> to \<open>b\<close>, where the edge is in the map; the
  \<^verbatim>\<open>MU\<close> and \<^verbatim>\<open>MC\<close> entry that holds \<open>count\<close> indices of an index list from the
  position \<open>start\<close> on, each less the initial index of the list; and the triangle with
  the corners at the positions \<open>a\<close>, \<open>b\<close> and \<open>c\<close> of the position indices, its edges
  running from \<open>a\<close> to \<open>b\<close>, from \<open>b\<close> to \<open>c\<close> and from \<open>c\<close> to \<open>a\<close>, without a hole.
  The theorems below compare the decoders with these.
\<close>

definition edgeRef :: "EdgeMap \<Rightarrow> int32 \<Rightarrow> int32 \<Rightarrow> int32" where
  "edgeRef edgeIndicesMap a b =
     (case getEdgeIndex (Edge_ctor a b) edgeIndicesMap of Inr r \<Rightarrow> r | Inl e \<Rightarrow> 0)"

definition edgeKnown :: "EdgeMap \<Rightarrow> int32 \<Rightarrow> int32 \<Rightarrow> bool" where
  "edgeKnown edgeIndicesMap a b =
     (edgeIndicesMap (mVertexIndices (Edge_ctor a b)) \<noteq> None)"

definition sliceMU :: "'a Mesh \<Rightarrow> nat \<Rightarrow> nat \<Rightarrow> IndexList \<Rightarrow> MU" where
  "sliceMU mesh start count indexList =
     \<lparr>uvSet = ucast (getUVSetIndexByName mesh (il_name indexList)),
      faceUVCount = word_of_nat count,
      uvIdValue = map (\<lambda>j. il_indices indexList ! (start + j) - ucast (il_initialIndex indexList))
                      [0 ..< count]\<rparr>"

definition sliceMC :: "'a Mesh \<Rightarrow> nat \<Rightarrow> nat \<Rightarrow> IndexList \<Rightarrow> MC" where
  "sliceMC mesh start count indexList =
     \<lparr>colorSet = ucast (getColorIndexByName mesh (il_name indexList)),
      faceColorCount = word_of_nat count,
      colorIdValue = map (\<lambda>j. il_indices indexList ! (start + j) - ucast (il_initialIndex indexList))
                         [0 ..< count]\<rparr>"

definition triangleFace ::
  "'a Mesh \<Rightarrow> MeshPrimitive \<Rightarrow> EdgeMap \<Rightarrow> nat \<Rightarrow> nat \<Rightarrow> nat \<Rightarrow> nat \<Rightarrow> nat \<Rightarrow> polyFaces" where
  "triangleFace mesh primitiveElement edgeIndicesMap a b c uvStart colorStart =
     (let v = (\<lambda>i. positionIndices primitiveElement ! i) in
      \<lparr>f_faceEdgeCount = 3,
       f_edgeIdValue = [edgeRef edgeIndicesMap (v a) (v b), edgeRef edgeIndicesMap (v b) (v c),
                        edgeRef edgeIndicesMap (v c) (v a)],
       h_holeEdgeCount = 0, h_edgeIdValue = [],
       mu = map (sliceMU mesh uvStart 3) (uvCoordIndicesArray primitiveElement),
       mc = map (sliceMC mesh colorStart 3) (colorIndicesArray primitiveElement)\<rparr>)"

text \<open>
  The index lists of a primitive hold \<open>n\<close> indices from the position \<open>start\<close> on, and
  the three edges of a triangle are in the map.
\<close>

definition indicesAvailable :: "IndexList list \<Rightarrow> nat \<Rightarrow> nat \<Rightarrow> bool" where
  "indicesAvailable indexLists start n =
     list_all (\<lambda>indexList. start + n \<le> length (il_indices indexList) \<and>
                             length (il_indices indexList) < 2 ^ 64) indexLists"

definition triangleKnown :: "MeshPrimitive \<Rightarrow> EdgeMap \<Rightarrow> nat \<Rightarrow> nat \<Rightarrow> nat \<Rightarrow> bool" where
  "triangleKnown primitiveElement edgeIndicesMap a b c =
     (let v = (\<lambda>i. positionIndices primitiveElement ! i) in
      edgeKnown edgeIndicesMap (v a) (v b) \<and> edgeKnown edgeIndicesMap (v b) (v c) \<and>
      edgeKnown edgeIndicesMap (v c) (v a))"

text \<open>
  The decoder stands before a triangle: no edge of it is read yet, the cursors are at
  \<open>p\<close>, \<open>b\<close>, \<open>u\<close> and \<open>c\<close>, and the face under construction has no hole.
\<close>

definition decoderAt :: "Decoder \<Rightarrow> nat \<Rightarrow> nat \<Rightarrow> nat \<Rightarrow> nat \<Rightarrow> bool" where
  "decoderAt s p b u c =
     (triangleEdgeCounter s = 0 \<and> positionIndex s = word_of_nat p \<and>
      initialPositionIndex s = word_of_nat b \<and> uvSetIndicesIndex s = word_of_nat u \<and>
      colorIndicesIndex s = word_of_nat c \<and>
      h_holeEdgeCount (polyFace s) = 0 \<and> h_edgeIdValue (polyFace s) = [])"

text \<open>
  The triangles of a fan of \<open>k\<close> vertices that starts at the position \<open>b\<close> of the
  position indices: with \<open>v\<^sub>0, \<dots>, v\<^sub>k\<^sub>-\<^sub>1\<close> the vertices of the fan, triangle \<open>i\<close> (counted
  from 0) has the corners \<open>v\<^sub>0\<close>, \<open>v\<^sub>i\<^sub>+\<^sub>1\<close> and \<open>v\<^sub>i\<^sub>+\<^sub>2\<close>. Its UV and colour indices are the
  three from the position \<open>u + i\<close> and \<open>c + i\<close> on. In a fan primitive every group starts
  where the one before ended, in the position indices and in the index lists alike.
  The triangles of a strip: triangle \<open>i\<close> has the corners \<open>v\<^sub>i\<close>, \<open>v\<^sub>i\<^sub>+\<^sub>1\<close> and \<open>v\<^sub>i\<^sub>+\<^sub>2\<close>.
\<close>

definition fanTriangles ::
  "'a Mesh \<Rightarrow> MeshPrimitive \<Rightarrow> EdgeMap \<Rightarrow> nat \<Rightarrow> nat \<Rightarrow> nat \<Rightarrow> nat \<Rightarrow> polyFaces list" where
  "fanTriangles mesh primitiveElement edgeIndicesMap b u c k =
     map (\<lambda>i. triangleFace mesh primitiveElement edgeIndicesMap b (b + i + 1) (b + i + 2)
                (u + i) (c + i))
         [0 ..< k - 2]"

fun fanFaces :: "'a Mesh \<Rightarrow> MeshPrimitive \<Rightarrow> EdgeMap \<Rightarrow> nat \<Rightarrow> nat list \<Rightarrow> polyFaces list" where
  "fanFaces mesh primitiveElement edgeIndicesMap b [] = []"
| "fanFaces mesh primitiveElement edgeIndicesMap b (k # ks) =
     fanTriangles mesh primitiveElement edgeIndicesMap b b b k @
     fanFaces mesh primitiveElement edgeIndicesMap (b + k) ks"

definition fanKnown :: "MeshPrimitive \<Rightarrow> EdgeMap \<Rightarrow> nat \<Rightarrow> nat \<Rightarrow> bool" where
  "fanKnown primitiveElement edgeIndicesMap b k =
     list_all (\<lambda>i. triangleKnown primitiveElement edgeIndicesMap b (b + i + 1) (b + i + 2))
       [0 ..< k - 2]"

fun fansKnown :: "MeshPrimitive \<Rightarrow> EdgeMap \<Rightarrow> nat \<Rightarrow> nat list \<Rightarrow> bool" where
  "fansKnown primitiveElement edgeIndicesMap b [] = True"
| "fansKnown primitiveElement edgeIndicesMap b (k # ks) =
     (fanKnown primitiveElement edgeIndicesMap b k \<and>
      fansKnown primitiveElement edgeIndicesMap (b + k) ks)"

definition stripTriangles ::
  "'a Mesh \<Rightarrow> MeshPrimitive \<Rightarrow> EdgeMap \<Rightarrow> nat \<Rightarrow> nat \<Rightarrow> nat \<Rightarrow> nat \<Rightarrow> polyFaces list" where
  "stripTriangles mesh primitiveElement edgeIndicesMap b u c k =
     map (\<lambda>i. triangleFace mesh primitiveElement edgeIndicesMap (b + i) (b + i + 1) (b + i + 2)
                (u + i) (c + i))
         [0 ..< k - 2]"

definition stripKnown :: "MeshPrimitive \<Rightarrow> EdgeMap \<Rightarrow> nat \<Rightarrow> nat \<Rightarrow> bool" where
  "stripKnown primitiveElement edgeIndicesMap b k =
     list_all (\<lambda>i. triangleKnown primitiveElement edgeIndicesMap (b + i) (b + i + 1) (b + i + 2))
       [0 ..< k - 2]"

text \<open>
  A group has at least three vertices, and few enough for \<^verbatim>\<open>numEdges\<close> to be the
  number \<open>3 (k - 2)\<close> in \<^verbatim>\<open>unsigned int\<close>.
\<close>

definition groupSize :: "uint32 \<Rightarrow> bool" where
  "groupSize vertexCount = (3 \<le> unat vertexCount \<and> 3 * (unat vertexCount - 2) < 2 ^ 32)"

subsection \<open>The polygon decoder\<close>

text \<open>
  \<^verbatim>\<open>getVertexPosition\<close>. For a type of the positions that is neither \<^verbatim>\<open>float\<close> nor
  \<^verbatim>\<open>double\<close> the source prints a message, asserts a string literal, which never
  fails, and builds the vector from three variables that were never assigned.
\<close>

definition readValue :: "'a list \<Rightarrow> nat \<Rightarrow> error + 'a" where
  "readValue values i = (if i < length values then Inr (values ! i) else Inl IndexOutOfRange)"

definition readVector3 :: "'a list \<Rightarrow> size_t \<Rightarrow> error + 'a Vector3" where
  "readVector3 values vertexIndex =
     (case readValue values (unat (vertexIndex * 3)) of Inl e \<Rightarrow> Inl e | Inr dx \<Rightarrow>
     (case readValue values (unat (vertexIndex * 3 + 1)) of Inl e \<Rightarrow> Inl e | Inr dy \<Rightarrow>
     (case readValue values (unat (vertexIndex * 3 + 2)) of Inl e \<Rightarrow> Inl e | Inr dz \<Rightarrow>
        Inr \<lparr>vec_x = dx, vec_y = dy, vec_z = dz\<rparr>)))"

definition getVertexPosition :: "'a Mesh \<Rightarrow> size_t \<Rightarrow> error + 'a Vector3" where
  "getVertexPosition mesh vertexIndex =
     (let meshPositions = getPositions mesh in
      (case getType meshPositions of
         DATA_TYPE_FLOAT \<Rightarrow> readVector3 (getFloatValues meshPositions) vertexIndex
       | DATA_TYPE_DOUBLE \<Rightarrow> readVector3 (getDoubleValues meshPositions) vertexIndex
       | DATA_TYPE_UNKNOWN \<Rightarrow> Inl UninitializedValue))"

text \<open>
  The loops over the edges of a face and of a hole keep the position index, the
  points collected for the orientation test and the array of edge references.
  \<open>polygonFaceEdge\<close> is the body of the loop of \<^verbatim>\<open>setPolygonFaceInfos\<close>,
  \<open>polygonHoleEdge\<close> the one of \<^verbatim>\<open>setPolygonHoleInfos\<close>. The index
  \<^verbatim>\<open>positionIndex-numEdges+1\<close> is computed in \<^verbatim>\<open>size_t\<close>, and the \<^verbatim>\<open>int\<close> start vertex
  is converted to the \<^verbatim>\<open>size_t\<close> parameter of \<^verbatim>\<open>getVertexPosition\<close>.
\<close>

record 'a EdgeLoop =
  el_positionIndex :: size_t
  el_points :: "'a Vector3 list"
  el_edgeIdValue :: "int32 list"

definition polygonFaceEdge ::
  "'a Mesh \<Rightarrow> MeshPrimitive \<Rightarrow> EdgeMap \<Rightarrow> int32 \<Rightarrow> 'a EdgeLoop \<Rightarrow> nat \<Rightarrow> error + 'a EdgeLoop" where
  "polygonFaceEdge mesh primitiveElement edgeIndicesMap numEdges s edgeIndex =
     (case readPosition (positionIndices primitiveElement) (el_positionIndex s) of
        Inl e \<Rightarrow> Inl e
      | Inr edgeStartVtxIndex \<Rightarrow>
     (let positionIndex1 = (if int edgeIndex < sint (numEdges - 1) then el_positionIndex s + 1
                            else el_positionIndex s) in
     (case readPosition (positionIndices primitiveElement)
             (if int edgeIndex < sint (numEdges - 1) then positionIndex1
              else positionIndex1 - scast numEdges + 1) of
        Inl e \<Rightarrow> Inl e
      | Inr edgeEndVtxIndex \<Rightarrow>
     (case (if primitiveType primitiveElement = POLYGONS \<and> edgeIndex < 3
            then (case getVertexPosition mesh (scast edgeStartVtxIndex) of
                    Inl e \<Rightarrow> Inl e
                  | Inr point \<Rightarrow> Inr ((if edgeIndex = 0 then [] else el_points s) @ [point]))
            else Inr (el_points s)) of
        Inl e \<Rightarrow> Inl e
      | Inr polygonPoints \<Rightarrow>
     (case getEdgeIndex (Edge_ctor edgeStartVtxIndex edgeEndVtxIndex) edgeIndicesMap of
        Inl e \<Rightarrow> Inl e
      | Inr edgeIndexValue \<Rightarrow>
     (if length (el_edgeIdValue s) \<le> edgeIndex then Inl IndexOutOfRange
      else Inr \<lparr>el_positionIndex = positionIndex1, el_points = polygonPoints,
                el_edgeIdValue = (el_edgeIdValue s)[edgeIndex := edgeIndexValue]\<rparr>))))))"

definition setPolygonFaceInfos ::
  "'a Mesh \<Rightarrow> MeshPrimitive \<Rightarrow> EdgeMap \<Rightarrow> polyFaces \<Rightarrow> int32 \<Rightarrow> size_t \<Rightarrow> 'a Vector3 list \<Rightarrow>
   error + polyFaces \<times> int32 \<times> size_t \<times> 'a Vector3 list" where
  "setPolygonFaceInfos mesh primitiveElement edgeIndicesMap face numEdges positionIndex0
     polygonPoints =
     (if sint numEdges < 0 then Inl BadAlloc
      else
     (case foldE (polygonFaceEdge mesh primitiveElement edgeIndicesMap numEdges)
             \<lparr>el_positionIndex = positionIndex0, el_points = polygonPoints,
              el_edgeIdValue = replicate (nat (sint numEdges)) 0\<rparr>
             [0 ..< nat (sint numEdges)] of
        Inl e \<Rightarrow> Inl e
      | Inr s \<Rightarrow>
          Inr (face\<lparr>f_faceEdgeCount := numEdges, f_edgeIdValue := el_edgeIdValue s\<rparr>,
               numEdges, el_positionIndex s + 1, el_points s)))"

definition polygonHoleEdge ::
  "'a Mesh \<Rightarrow> MeshPrimitive \<Rightarrow> EdgeMap \<Rightarrow> int32 \<Rightarrow> 'a EdgeLoop \<Rightarrow> nat \<Rightarrow> error + 'a EdgeLoop" where
  "polygonHoleEdge mesh primitiveElement edgeIndicesMap numEdges s edgeIndex =
     (case readPosition (positionIndices primitiveElement) (el_positionIndex s) of
        Inl e \<Rightarrow> Inl e
      | Inr edgeStartVtxIndex \<Rightarrow>
     (let positionIndex1 = (if int edgeIndex < sint (numEdges - 1) then el_positionIndex s + 1
                            else el_positionIndex s) in
     (case readPosition (positionIndices primitiveElement)
             (if int edgeIndex < sint (numEdges - 1) then positionIndex1
              else positionIndex1 - scast numEdges + 1) of
        Inl e \<Rightarrow> Inl e
      | Inr edgeEndVtxIndex \<Rightarrow>
     (case (if edgeIndex < 3
            then (case getVertexPosition mesh (scast edgeStartVtxIndex) of
                    Inl e \<Rightarrow> Inl e
                  | Inr point \<Rightarrow> Inr (el_points s @ [point]))
            else Inr (el_points s)) of
        Inl e \<Rightarrow> Inl e
      | Inr holePoints \<Rightarrow>
     (case getEdgeIndex (Edge_ctor edgeStartVtxIndex edgeEndVtxIndex) edgeIndicesMap of
        Inl e \<Rightarrow> Inl e
      | Inr edgeIndexValue \<Rightarrow>
     (if length (el_edgeIdValue s) \<le> edgeIndex then Inl IndexOutOfRange
      else Inr \<lparr>el_positionIndex = positionIndex1, el_points = holePoints,
                el_edgeIdValue = (el_edgeIdValue s)[edgeIndex := edgeIndexValue]\<rparr>))))))"

text \<open>
  \<^verbatim>\<open>setPolygonHoleInfos\<close> changes the sign of \<^verbatim>\<open>numEdges\<close>, which is a reference
  parameter, and turns the hole when \<^verbatim>\<open>changeHoleOrientation\<close> says so.
\<close>

definition setPolygonHoleInfos ::
  "('a::{plus,minus,times,zero,ord}) Mesh \<Rightarrow> MeshPrimitive \<Rightarrow> EdgeMap \<Rightarrow> polyFaces \<Rightarrow> int32 \<Rightarrow>
   size_t \<Rightarrow> 'a Vector3 list \<Rightarrow> error + polyFaces \<times> int32 \<times> size_t \<times> 'a Vector3 list" where
  "setPolygonHoleInfos mesh primitiveElement edgeIndicesMap face numEdges0 positionIndex0
     polygonPoints =
     (let numEdges = numEdges0 * (- 1) in
      (if sint numEdges < 0 then Inl BadAlloc
       else
      (case foldE (polygonHoleEdge mesh primitiveElement edgeIndicesMap numEdges)
              \<lparr>el_positionIndex = positionIndex0, el_points = [],
               el_edgeIdValue = replicate (nat (sint numEdges)) 0\<rparr>
              [0 ..< nat (sint numEdges)] of
         Inl e \<Rightarrow> Inl e
       | Inr s \<Rightarrow>
      (let polyFace1 = face\<lparr>h_holeEdgeCount := numEdges, h_edgeIdValue := el_edgeIdValue s\<rparr> in
      (case changeHoleOrientation polygonPoints (el_points s) of
         Inl e \<Rightarrow> Inl e
       | Inr change \<Rightarrow>
      (case (if change then changePolyFaceHoleOrientation polyFace1 else Inr polyFace1) of
         Inl e \<Rightarrow> Inl e
       | Inr polyFace2 \<Rightarrow>
           Inr (polyFace2, numEdges, el_positionIndex s + 1, polygonPoints)))))))"

text \<open>
  \<^verbatim>\<open>appendPolygonPolyFaces\<close>: the local variables and the faces appended so far, the
  body of the loop over the grouped vertex elements, and the function.
\<close>

record 'a PolygonDecoder =
  pd_positionIndex :: size_t
  pd_uvSetIndicesIndex :: size_t
  pd_colorIndicesIndex :: size_t
  pd_polygonPoints :: "'a Vector3 list"
  pd_meshFaces :: "polyFaces list"

definition polygonGroup ::
  "('a::{plus,minus,times,zero,ord}) Mesh \<Rightarrow> MeshPrimitive \<Rightarrow> EdgeMap \<Rightarrow> 'a PolygonDecoder \<Rightarrow> nat \<Rightarrow>
   error + 'a PolygonDecoder" where
  "polygonGroup mesh primitiveElement edgeIndicesMap s groupedVtxIndex =
     (let numVertices = groupedVerticesVertexCount primitiveElement groupedVtxIndex;
          numEdges0 = numVertices
      in
      (case (if 0 \<le> sint numEdges0
             then setPolygonFaceInfos mesh primitiveElement edgeIndicesMap polyFaces_default
                    numEdges0 (pd_positionIndex s) (pd_polygonPoints s)
             else setPolygonHoleInfos mesh primitiveElement edgeIndicesMap polyFaces_default
                    numEdges0 (pd_positionIndex s) (pd_polygonPoints s)) of
         Inl e \<Rightarrow> Inl e
       | Inr (polyFace1, numEdges, positionIndex0, polygonPoints) \<Rightarrow>
      (case setUVSetInfos mesh primitiveElement polyFace1 (pd_uvSetIndicesIndex s) numEdges of
         Inl e \<Rightarrow> Inl e
       | Inr (polyFace2, uvSetIndicesIndex1) \<Rightarrow>
      (case setColorInfos mesh primitiveElement polyFace2 (pd_colorIndicesIndex s) numEdges of
         Inl e \<Rightarrow> Inl e
       | Inr (polyFace3, colorIndicesIndex1) \<Rightarrow>
           Inr \<lparr>pd_positionIndex = positionIndex0, pd_uvSetIndicesIndex = uvSetIndicesIndex1,
                pd_colorIndicesIndex = colorIndicesIndex1, pd_polygonPoints = polygonPoints,
                pd_meshFaces = pd_meshFaces s @ [polyFace3]\<rparr>))))"

definition appendPolygonPolyFaces ::
  "('a::{plus,minus,times,zero,ord}) Mesh \<Rightarrow> MeshPrimitive \<Rightarrow> EdgeMap \<Rightarrow> polyFaces list \<Rightarrow>
   error + polyFaces list" where
  "appendPolygonPolyFaces mesh primitiveElement edgeIndicesMap meshNode =
     (let count = (ucast (groupedVertexElementsCount primitiveElement) :: int32);
          groupedVerticesCount = (if sint count < 0 then count * (- 1) else count)
      in
      (case foldE (polygonGroup mesh primitiveElement edgeIndicesMap)
              \<lparr>pd_positionIndex = 0, pd_uvSetIndicesIndex = 0, pd_colorIndicesIndex = 0,
               pd_polygonPoints = [], pd_meshFaces = meshNode\<rparr>
              [0 ..< nat (sint groupedVerticesCount)] of
         Inl e \<Rightarrow> Inl e
       | Inr s \<Rightarrow> Inr (pd_meshFaces s)))"

subsection \<open>Writing a mesh\<close>

text \<open>
  What \<^verbatim>\<open>createMesh\<close> emits while it writes a mesh: the calls of the member functions
  of the mesh node \<^verbatim>\<open>MayaDM::Mesh\<close>, one constructor for each of them, and the messages
  of \<^verbatim>\<open>MGlobal::displayError\<close> and \<^verbatim>\<open>MGlobal::displayWarning\<close>.
  \<open>ObjectGrpCompList j i [(a, b)]\<close> is \<^verbatim>\<open>setObjectGrpCompList ( j, i, componentList )\<close>
  with the one string \<^verbatim>\<open>"f[a:b]"\<close>. A function that gets the mesh node as a
  reference parameter gets the list of what was emitted so far and returns it longer.
\<close>

type_synonym componentList = "(size_t \<times> size_t) list"

datatype 'a MeshWrite =
    ObjectGrpCompList nat nat componentList
  | StartVrts size_t size_t | AppendVrts 'a | EndVrts
  | StartNormals size_t size_t | AppendNormals 'a | EndNormals
  | SetUvSize size_t | SetUvSetName nat string | StartUvSetPoints nat size_t size_t
  | AppendUvSetPoints 'a | EndUvSetPoints
  | SetColorName nat string | SetRepresentation nat uint32 | StartColorSetPoints nat size_t size_t
  | AppendColorSetPoints 'a | EndColorSetPoints
  | StartEdge size_t size_t | AppendEdge int32 | EndEdge
  | StartFace size_t size_t | AppendFace polyFaces | EndFace
  | DisplayError string | DisplayWarning string

text \<open>
  \<^verbatim>\<open>writeObjectGroups\<close>: the loop over the primitives, with \<^verbatim>\<open>initialFaceIndex\<close>,
  for the instance \<open>j\<close>.
\<close>

fun objectGroups :: "nat \<Rightarrow> nat \<Rightarrow> size_t \<Rightarrow> MeshPrimitive list \<Rightarrow> 'a MeshWrite list" where
  "objectGroups j i initialFaceIndex [] = []"
| "objectGroups j i initialFaceIndex (meshPrimitive # rest) =
     (let numFaces = groupedVertexElementsCount meshPrimitive;
          val = (initialFaceIndex, numFaces - 1 + initialFaceIndex)
      in ObjectGrpCompList j i [val] #
         objectGroups j (i + 1) (initialFaceIndex + numFaces) rest)"

definition writeObjectGroups :: "'a Mesh \<Rightarrow> nat \<Rightarrow> 'a MeshWrite list" where
  "writeObjectGroups mesh numNodeInstances =
     (if length (meshPrimitives mesh) \<le> 1 then []
      else concat (map (\<lambda>j. objectGroups j 0 0 (meshPrimitives mesh)) [0 ..< numNodeInstances]))"

text \<open>
  \<^verbatim>\<open>writeVertexPositions\<close>. The loop \<^verbatim>\<open>for ( size_t i=0; i<count; i+=stride )\<close> reads
  three values for every \<open>i\<close>; \<open>toLinearUnit\<close> is the function of this name of the
  importer, which is declared outside this file. The assertion of the default case
  is one of a string literal and never fails.
\<close>

definition appendVrts ::
  "('a \<Rightarrow> 'a \<Rightarrow> 'a \<Rightarrow> 'a Vector3) \<Rightarrow> 'a list \<Rightarrow> nat \<Rightarrow> error + 'a MeshWrite list" where
  "appendVrts toLinearUnit values i =
     (case readValue values i of Inl e \<Rightarrow> Inl e | Inr x \<Rightarrow>
     (case readValue values (i + 1) of Inl e \<Rightarrow> Inl e | Inr y \<Rightarrow>
     (case readValue values (i + 2) of Inl e \<Rightarrow> Inl e | Inr z \<Rightarrow>
     (let converted = toLinearUnit x y z in
      Inr [AppendVrts (vec_x converted), AppendVrts (vec_y converted),
           AppendVrts (vec_z converted)]))))"

definition writeVrts ::
  "('a \<Rightarrow> 'a \<Rightarrow> 'a \<Rightarrow> 'a Vector3) \<Rightarrow> 'a list \<Rightarrow> 'a MeshWrite list \<Rightarrow> error + 'a MeshWrite list" where
  "writeVrts toLinearUnit values meshNode =
     (let count = length values in
      (case mapE (appendVrts toLinearUnit values)
              (map (\<lambda>index. 3 * index) [0 ..< (count + 2) div 3]) of
         Inl e \<Rightarrow> Inl e
       | Inr written \<Rightarrow>
           Inr (meshNode @ [StartVrts 0 (word_of_nat (count div 3) - 1)] @ concat written @
                [EndVrts])))"

definition writeVertexPositions ::
  "('a \<Rightarrow> 'a \<Rightarrow> 'a \<Rightarrow> 'a Vector3) \<Rightarrow> 'a Mesh \<Rightarrow> 'a MeshWrite list \<Rightarrow> error + 'a MeshWrite list" where
  "writeVertexPositions toLinearUnit mesh meshNode =
     (let positions = getPositions mesh in
      (case getType positions of
         DATA_TYPE_FLOAT \<Rightarrow> writeVrts toLinearUnit (getFloatValues positions) meshNode
       | DATA_TYPE_DOUBLE \<Rightarrow> writeVrts toLinearUnit (getDoubleValues positions) meshNode
       | DATA_TYPE_UNKNOWN \<Rightarrow>
           Inr (meshNode @ [DisplayError ''No valid data type for positions: ''])))"

text \<open>
  \<^verbatim>\<open>writeNormals\<close> and \<^verbatim>\<open>appendNormalValues\<close>. The position \<^verbatim>\<open>pos\<close> of a normal and
  \<^verbatim>\<open>pos+1\<close>, \<^verbatim>\<open>pos+2\<close> are computed in \<^verbatim>\<open>unsigned int\<close>.
\<close>

definition appendNormals ::
  "'a list \<Rightarrow> 'a MeshWrite list \<Rightarrow> uint32 \<Rightarrow> error + 'a MeshWrite list" where
  "appendNormals values meshNode pos =
     (case readValue values (unat pos) of Inl e \<Rightarrow> Inl e | Inr x \<Rightarrow>
     (case readValue values (unat (pos + 1)) of Inl e \<Rightarrow> Inl e | Inr y \<Rightarrow>
     (case readValue values (unat (pos + 2)) of Inl e \<Rightarrow> Inl e | Inr z \<Rightarrow>
        Inr (meshNode @ [AppendNormals x, AppendNormals y, AppendNormals z]))))"

definition appendNormalValue ::
  "'a MeshVertexData \<Rightarrow> 'a MeshWrite list \<Rightarrow> uint32 \<Rightarrow> error + 'a MeshWrite list" where
  "appendNormalValue normals meshNode normalIndex =
     (let pos = normalIndex * 3 in
      (case getType normals of
         DATA_TYPE_FLOAT \<Rightarrow> appendNormals (getFloatValues normals) meshNode pos
       | DATA_TYPE_DOUBLE \<Rightarrow> appendNormals (getDoubleValues normals) meshNode pos
       | DATA_TYPE_UNKNOWN \<Rightarrow>
           Inr (meshNode @ [DisplayError ''No valid data type for normals: ''])))"

definition appendNormalValues :: "'a Mesh \<Rightarrow> 'a MeshWrite list \<Rightarrow> error + 'a MeshWrite list" where
  "appendNormalValues mesh meshNode =
     foldE (\<lambda>meshNode meshPrimitive.
              foldE (appendNormalValue (getNormals mesh)) meshNode (normalIndices meshPrimitive))
       meshNode (meshPrimitives mesh)"

definition writeNormals :: "'a Mesh \<Rightarrow> 'a MeshWrite list \<Rightarrow> error + 'a MeshWrite list" where
  "writeNormals mesh meshNode =
     (let numNormals = getNormalsCount mesh in
      (if 0 < numNormals then
         (case appendNormalValues mesh (meshNode @ [StartNormals 0 (numNormals - 1)]) of
            Inl e \<Rightarrow> Inl e
          | Inr meshNode1 \<Rightarrow> Inr (meshNode1 @ [EndNormals]))
       else Inr meshNode))"

text \<open>
  \<^verbatim>\<open>writeUVSets\<close>. The inner loop \<^verbatim>\<open>for ( size_t i=0; i<indicesCount; i+=stride )\<close>
  reads two values for every \<open>i\<close>, at positions computed in \<^verbatim>\<open>size_t\<close>; the
  assertion \<^verbatim>\<open>stride > 1 && stride <= 4\<close> comes right after the name of the set is
  written.
\<close>

definition appendUvSetPoints :: "'a list \<Rightarrow> size_t \<Rightarrow> nat \<Rightarrow> error + 'a MeshWrite list" where
  "appendUvSetPoints values initialIndex i =
     (case readValue values (unat (initialIndex + word_of_nat i)) of Inl e \<Rightarrow> Inl e | Inr x \<Rightarrow>
     (case readValue values (unat (initialIndex + word_of_nat i + 1)) of Inl e \<Rightarrow> Inl e | Inr y \<Rightarrow>
        Inr [AppendUvSetPoints x, AppendUvSetPoints y]))"

definition writeUVSet ::
  "'a list \<Rightarrow> 'a MeshVertexData \<Rightarrow> 'a MeshWrite list \<times> size_t \<Rightarrow> nat \<Rightarrow>
   error + 'a MeshWrite list \<times> size_t" where
  "writeUVSet values uvCoords state i =
     (let meshNode = fst state;
          initialIndex = snd state;
          stride = ii_stride (inputInfosArray uvCoords ! i)
      in
      (if \<not> (1 < stride \<and> stride \<le> 4) then Inl AssertionFailed
       else
      (let indicesCount = ii_length (inputInfosArray uvCoords ! i) in
      (case mapE (appendUvSetPoints values initialIndex)
              (map (\<lambda>n. unat stride * n)
                 [0 ..< (unat indicesCount + unat stride - 1) div unat stride]) of
         Inl e \<Rightarrow> Inl e
       | Inr written \<Rightarrow>
           Inr (meshNode @ [SetUvSetName i (ii_name (inputInfosArray uvCoords ! i))] @
                (if stride \<noteq> 2 then [DisplayWarning ''Just 2d uv set data will be imported! '']
                 else []) @
                [StartUvSetPoints i 0 (indicesCount div stride - 1)] @ concat written @
                [EndUvSetPoints],
                initialIndex + indicesCount)))))"

definition writeUVSets :: "'a Mesh \<Rightarrow> 'a MeshWrite list \<Rightarrow> error + 'a MeshWrite list" where
  "writeUVSets mesh meshNode =
     (let uvCoords = getUVCoords mesh;
          sumUVSetPoints = length (inputInfosArray uvCoords)
      in
      (if sumUVSetPoints = 0 then Inr meshNode
       else
      (let meshNode1 = meshNode @ [SetUvSize (word_of_nat sumUVSetPoints)] in
      (case getType uvCoords of
         DATA_TYPE_FLOAT \<Rightarrow>
           (case foldE (writeUVSet (getFloatValues uvCoords) uvCoords) (meshNode1, 0)
                   [0 ..< sumUVSetPoints] of
              Inl e \<Rightarrow> Inl e
            | Inr state \<Rightarrow> Inr (fst state))
       | DATA_TYPE_DOUBLE \<Rightarrow>
           (case foldE (writeUVSet (getDoubleValues uvCoords) uvCoords) (meshNode1, 0)
                   [0 ..< sumUVSetPoints] of
              Inl e \<Rightarrow> Inl e
            | Inr state \<Rightarrow> Inr (fst state))
       | DATA_TYPE_UNKNOWN \<Rightarrow>
           Inr (meshNode1 @ [DisplayError ''No valid data type for uv coordinates: ''])))))"

text \<open>
  \<^verbatim>\<open>writeColorSets\<close>. The assertion \<^verbatim>\<open>stride == 1 || stride == 3 || stride <= 4\<close>
  lets the stride 0 pass, with which \<^verbatim>\<open>indicesCount/stride\<close> divides by zero. The two
  inner loops read \<^verbatim>\<open>stride\<close> values for every \<open>i\<close>.
\<close>

definition appendColorSetPoints ::
  "'a list \<Rightarrow> size_t \<Rightarrow> size_t \<Rightarrow> nat \<Rightarrow> error + 'a MeshWrite list" where
  "appendColorSetPoints values initialIndex stride i =
     mapE (\<lambda>j. case readValue values (unat (initialIndex + word_of_nat i + word_of_nat j)) of
                 Inl e \<Rightarrow> Inl e
               | Inr x \<Rightarrow> Inr (AppendColorSetPoints x))
       [0 ..< unat stride]"

definition writeColorSet ::
  "'a list \<Rightarrow> 'a MeshVertexData \<Rightarrow> 'a MeshWrite list \<times> size_t \<Rightarrow> nat \<Rightarrow>
   error + 'a MeshWrite list \<times> size_t" where
  "writeColorSet values colors state i =
     (let meshNode = fst state;
          initialIndex = snd state;
          stride = ii_stride (inputInfosArray colors ! i)
      in
      (if \<not> (stride = 1 \<or> stride = 3 \<or> stride \<le> 4) then Inl AssertionFailed
       else
      (let representation = (if stride = 1 then 1 else if stride = 3 then 3 else 2);
           indicesCount = ii_length (inputInfosArray colors ! i)
       in
      (if stride = 0 then Inl DivisionByZero
       else
      (case mapE (appendColorSetPoints values initialIndex stride)
              (map (\<lambda>n. unat stride * n)
                 [0 ..< (unat indicesCount + unat stride - 1) div unat stride]) of
         Inl e \<Rightarrow> Inl e
       | Inr written \<Rightarrow>
           Inr (meshNode @
                [SetColorName i (ii_name (inputInfosArray colors ! i)),
                 SetRepresentation i representation,
                 StartColorSetPoints i 0 (indicesCount div stride - 1)] @
                concat written @ [EndColorSetPoints],
                initialIndex + indicesCount))))))"

definition writeColorSets :: "'a Mesh \<Rightarrow> 'a MeshWrite list \<Rightarrow> error + 'a MeshWrite list" where
  "writeColorSets mesh meshNode =
     (let colors = getColors mesh;
          sumColorSetPoints = length (inputInfosArray colors)
      in
      (if sumColorSetPoints = 0 then Inr meshNode
       else
      (case getType colors of
         DATA_TYPE_FLOAT \<Rightarrow>
           (case foldE (writeColorSet (getFloatValues colors) colors) (meshNode, 0)
                   [0 ..< sumColorSetPoints] of
              Inl e \<Rightarrow> Inl e
            | Inr state \<Rightarrow> Inr (fst state))
       | DATA_TYPE_DOUBLE \<Rightarrow>
           (case foldE (writeColorSet (getDoubleValues colors) colors) (meshNode, 0)
                   [0 ..< sumColorSetPoints] of
              Inl e \<Rightarrow> Inl e
            | Inr state \<Rightarrow> Inr (fst state))
       | DATA_TYPE_UNKNOWN \<Rightarrow>
           Inr (meshNode @ [DisplayError ''No valid data type for colors: '']))))"

text \<open>
  \<^verbatim>\<open>getEdgeIndices\<close> lets every primitive enter its edges, \<^verbatim>\<open>writeEdges\<close> writes the
  two vertices of every edge and the flag \<^verbatim>\<open>edgh\<close>, which is 0.
\<close>

definition getEdgeIndices :: "'a Mesh \<Rightarrow> Edge list \<times> EdgeMap" where
  "getEdgeIndices mesh =
     foldl (\<lambda>edges primitiveElement. appendEdgeIndices primitiveElement edges)
       ([], Map.empty) (meshPrimitives mesh)"

definition writeEdges :: "Edge list \<Rightarrow> 'a MeshWrite list \<Rightarrow> 'a MeshWrite list" where
  "writeEdges edgeIndices meshNode =
     (let numEdges = length edgeIndices in
      (if 0 < numEdges then
         meshNode @ [StartEdge 0 (word_of_nat numEdges - 1)] @
         concat (map (\<lambda>edge. [AppendEdge (fst (mVertexIndices edge)),
                               AppendEdge (snd (mVertexIndices edge)), AppendEdge 0])
                   edgeIndices) @
         [EndEdge]
       else meshNode))"

text \<open>
  \<^verbatim>\<open>writeFaces\<close>: the body of the loop over the primitives; the decoders append their
  faces. The assertion of the default case is one of a string literal.
\<close>

definition appendFaces :: "'a MeshWrite list \<Rightarrow> error + polyFaces list \<Rightarrow> error + 'a MeshWrite list" where
  "appendFaces meshNode faces =
     (case faces of Inl e \<Rightarrow> Inl e | Inr fs \<Rightarrow> Inr (meshNode @ map AppendFace fs))"

definition writePrimitiveFaces ::
  "('a::{plus,minus,times,zero,ord}) Mesh \<Rightarrow> EdgeMap \<Rightarrow> 'a MeshWrite list \<Rightarrow> MeshPrimitive \<Rightarrow>
   error + 'a MeshWrite list" where
  "writePrimitiveFaces mesh edgeIndicesMap meshNode primitiveElement =
     (case primitiveType primitiveElement of
        TRIANGLE_FANS \<Rightarrow>
          appendFaces meshNode (appendTrifansPolyFaces mesh primitiveElement edgeIndicesMap [])
      | TRIANGLE_STRIPS \<Rightarrow>
          appendFaces meshNode (appendTristripsPolyFaces mesh primitiveElement edgeIndicesMap [])
      | POLYGONS \<Rightarrow>
          appendFaces meshNode (appendPolygonPolyFaces mesh primitiveElement edgeIndicesMap [])
      | POLYLIST \<Rightarrow>
          appendFaces meshNode (appendPolygonPolyFaces mesh primitiveElement edgeIndicesMap [])
      | TRIANGLES \<Rightarrow>
          appendFaces meshNode (appendPolygonPolyFaces mesh primitiveElement edgeIndicesMap [])
      | LINES \<Rightarrow> Inr (meshNode @ [DisplayError ''Primitive type not implemented!''])
      | LINE_STRIPS \<Rightarrow> Inr (meshNode @ [DisplayError ''Primitive type not implemented!''])
      | POINTS \<Rightarrow> Inr (meshNode @ [DisplayError ''Primitive type not implemented!''])
      | UNDEFINED_PRIMITIVE_TYPE \<Rightarrow>
          Inr (meshNode @ [DisplayError ''Primitive type not implemented!'']))"

definition writeFaces ::
  "('a::{plus,minus,times,zero,ord}) Mesh \<Rightarrow> EdgeMap \<Rightarrow> 'a MeshWrite list \<Rightarrow>
   error + 'a MeshWrite list" where
  "writeFaces mesh edgeIndicesMap meshNode =
     (let numFaces = getFacesCount mesh in
      (if numFaces = 0 then Inr meshNode
       else
      (case foldE (writePrimitiveFaces mesh edgeIndicesMap)
              (meshNode @ [StartFace 0 (numFaces - 1)]) (meshPrimitives mesh) of
         Inl e \<Rightarrow> Inl e
       | Inr meshNode1 \<Rightarrow> Inr (meshNode1 @ [EndFace]))))"

subsection \<open>Importing a mesh for the transform nodes that use it\<close>

text \<open>
  What the importer writes into the file. Node names and paths, which the importer
  makes unique with \<^verbatim>\<open>IdList\<close>, are left out: a node is known by its unique id and
  its parent. \<open>CreateMesh\<close> is the constructor call \<^verbatim>\<open>MayaDM::Mesh meshNode ( file,
  meshName, transformNodePath )\<close> and \<open>MeshData\<close> one item of what \<^verbatim>\<open>createMesh\<close>
  emits for this mesh node afterwards; \<open>ParentShape\<close> is \<^verbatim>\<open>MayaDM::parentShape\<close> and
  \<open>CreateGroupId\<close> the constructor call \<^verbatim>\<open>MayaDM::GroupId groupId ( file, groupName )\<close>.
\<close>

record MayaNode =
  mn_uniqueId :: UniqueId
  mn_parent :: "UniqueId option"

datatype 'a Output =
    is_CreateMesh: CreateMesh MayaNode MayaNode
  | is_MeshData: MeshData "'a MeshWrite"
  | is_ParentShape: ParentShape MayaNode MayaNode
  | is_CreateGroupId: CreateGroupId

record GroupIdAssignment =
  ga_geometryId :: UniqueId
  ga_geometryInstanceIndex :: nat
  ga_primitiveIndex :: nat

text \<open>
  The importer: the maps of the mesh nodes, the group id assignments, the map from a
  geometry and a material to the indices of the primitives, the function
  \<^verbatim>\<open>toLinearUnit\<close> of its base class, the messages and the file.
\<close>

record 'a GeometryImporter =
  mMayaMeshNodesMap :: "UniqueId \<rightharpoonup> MayaNode"
  mMayaDMMeshNodesMap :: "UniqueId \<rightharpoonup> MayaNode"
  mGroupIdAssignments :: "GroupIdAssignment list"
  mShadingEnginePrimitivesMap :: "UniqueId \<times> nat \<Rightarrow> nat list"
  toLinearUnit :: "'a \<Rightarrow> 'a \<Rightarrow> 'a \<Rightarrow> 'a Vector3"
  messages :: "string list"
  mayaFile :: "'a Output list"

text \<open>
  The visual scene importer, of which \<^verbatim>\<open>importMesh\<close> calls two look-ups; both
  return a pointer that may be null.
\<close>

record VisualSceneImporter =
  findGeometryTransformIds :: "UniqueId \<Rightarrow> UniqueId list option"
  findMayaTransformNode :: "UniqueId \<Rightarrow> MayaNode option"

datatype 'a Geometry =
    GEO_TYPE_MESH "'a Mesh"
  | GEO_TYPE_SPLINE UniqueId
  | GEO_TYPE_CONVEX_MESH UniqueId
  | GEO_TYPE_UNKNOWN UniqueId

fun geometry_getUniqueId :: "'a Geometry \<Rightarrow> UniqueId" where
  "geometry_getUniqueId (GEO_TYPE_MESH mesh) = uniqueId mesh"
| "geometry_getUniqueId (GEO_TYPE_SPLINE i) = i"
| "geometry_getUniqueId (GEO_TYPE_CONVEX_MESH i) = i"
| "geometry_getUniqueId (GEO_TYPE_UNKNOWN i) = i"

definition findMayaMeshNode :: "'a GeometryImporter \<Rightarrow> UniqueId \<Rightarrow> MayaNode option" where
  "findMayaMeshNode s geometryId = mMayaMeshNodesMap s geometryId"

definition createGroupNodes :: "'a Mesh \<Rightarrow> nat \<Rightarrow> 'a GeometryImporter \<Rightarrow> 'a GeometryImporter" where
  "createGroupNodes mesh geometryInstanceIndex s =
     (if length (meshPrimitives mesh) \<le> 1 then s
      else foldl (\<lambda>s primitiveIndex.
                    s\<lparr>mayaFile := mayaFile s @ [CreateGroupId],
                      mGroupIdAssignments := mGroupIdAssignments s @
                        [\<lparr>ga_geometryId = uniqueId mesh,
                          ga_geometryInstanceIndex = geometryInstanceIndex,
                          ga_primitiveIndex = primitiveIndex\<rparr>]\<rparr>)
             s [0 ..< length (meshPrimitives mesh)])"

text \<open>
  \<^verbatim>\<open>setMeshPrimitiveShadingEngines\<close> with \<^verbatim>\<open>setShadingEnginePrimitiveIndex\<close>: the index
  of every primitive is appended to the list of its material.
\<close>

definition setMeshPrimitiveShadingEngines :: "'a Mesh \<Rightarrow> 'a GeometryImporter \<Rightarrow> 'a GeometryImporter" where
  "setMeshPrimitiveShadingEngines mesh s =
     foldl (\<lambda>s primitiveIndex.
              (let shadingEngineId = materialId (meshPrimitives mesh ! primitiveIndex);
                   combinedId = (uniqueId mesh, shadingEngineId)
               in s\<lparr>mShadingEnginePrimitivesMap := (mShadingEnginePrimitivesMap s)
                      (combinedId := mShadingEnginePrimitivesMap s combinedId @ [primitiveIndex])\<rparr>))
       s [0 ..< length (meshPrimitives mesh)]"

text \<open>
  \<^verbatim>\<open>createMesh\<close> enters the mesh node in the map before it tests the transform node.
  The mesh node \<^verbatim>\<open>meshNode\<close> is created in the file; what the calls from
  \<^verbatim>\<open>writeObjectGroups\<close> to \<^verbatim>\<open>writeFaces\<close> emit for it follows in the file.
\<close>

definition createMesh ::
  "('a::{plus,minus,times,zero,ord}) Mesh \<Rightarrow> MayaNode option \<Rightarrow> nat \<Rightarrow> 'a GeometryImporter \<Rightarrow>
   error + 'a GeometryImporter" where
  "createMesh mesh mayaTransformNode numNodeInstances s =
     (let mayaMeshNode = \<lparr>mn_uniqueId = uniqueId mesh,
                          mn_parent = map_option mn_uniqueId mayaTransformNode\<rparr>;
          s1 = s\<lparr>mMayaMeshNodesMap := (mMayaMeshNodesMap s)(uniqueId mesh \<mapsto> mayaMeshNode)\<rparr>
      in
      (case mayaTransformNode of
         None \<Rightarrow> Inl NoTransformNode
       | Some transformNode \<Rightarrow>
      (let s2 = s1\<lparr>mMayaDMMeshNodesMap := (mMayaDMMeshNodesMap s1)(uniqueId mesh \<mapsto> mayaMeshNode)\<rparr>;
           meshNode0 = writeObjectGroups mesh numNodeInstances
       in
      (case writeVertexPositions (toLinearUnit s2) mesh meshNode0 of
         Inl e \<Rightarrow> Inl e
       | Inr meshNode1 \<Rightarrow>
      (case writeNormals mesh meshNode1 of
         Inl e \<Rightarrow> Inl e
       | Inr meshNode2 \<Rightarrow>
      (case writeUVSets mesh meshNode2 of
         Inl e \<Rightarrow> Inl e
       | Inr meshNode3 \<Rightarrow>
      (case writeColorSets mesh meshNode3 of
         Inl e \<Rightarrow> Inl e
       | Inr meshNode4 \<Rightarrow>
      (let edges = getEdgeIndices mesh;
           edgeIndices = fst edges;
           edgeIndicesMap = snd edges;
           meshNode5 = writeEdges edgeIndices meshNode4
       in
      (case writeFaces mesh edgeIndicesMap meshNode5 of
         Inl e \<Rightarrow> Inl e
       | Inr meshNode6 \<Rightarrow>
           Inr (setMeshPrimitiveShadingEngines mesh
                  (s2\<lparr>mayaFile := mayaFile s2 @ [CreateMesh mayaMeshNode transformNode] @
                                   map MeshData meshNode6\<rparr>)))))))))))"

text \<open>
  The loop of \<^verbatim>\<open>importMesh\<close> over the transform nodes; \<^verbatim>\<open>nodesIter\<close> is at the
  beginning exactly when \<^verbatim>\<open>geometryInstanceIndex\<close> is 0.
\<close>

fun importMeshNodes ::
  "('a::{plus,minus,times,zero,ord}) Mesh \<Rightarrow> VisualSceneImporter \<Rightarrow> nat \<Rightarrow> UniqueId list \<Rightarrow> nat \<Rightarrow>
   'a GeometryImporter \<Rightarrow> error + 'a GeometryImporter" where
  "importMeshNodes mesh visualSceneImporter numNodeInstances [] geometryInstanceIndex s = Inr s"
| "importMeshNodes mesh visualSceneImporter numNodeInstances (transformNodeId # rest)
     geometryInstanceIndex s =
     (case findMayaTransformNode visualSceneImporter transformNodeId of
        None \<Rightarrow> Inl NullPointer
      | Some mayaTransformNode \<Rightarrow>
          (case (if geometryInstanceIndex = 0
                 then createMesh mesh (Some mayaTransformNode) numNodeInstances s
                 else (case findMayaMeshNode s (uniqueId mesh) of
                         None \<Rightarrow> Inl NullPointer
                       | Some mayaMeshNode \<Rightarrow>
                           Inr (s\<lparr>mayaFile := mayaFile s @ [ParentShape mayaMeshNode mayaTransformNode]\<rparr>))) of
             Inl e \<Rightarrow> Inl e
           | Inr s1 \<Rightarrow>
               importMeshNodes mesh visualSceneImporter numNodeInstances rest
                 (geometryInstanceIndex + 1) (createGroupNodes mesh geometryInstanceIndex s1)))"

definition importMesh ::
  "('a::{plus,minus,times,zero,ord}) Mesh \<Rightarrow> VisualSceneImporter \<Rightarrow> 'a GeometryImporter \<Rightarrow>
   error + 'a GeometryImporter" where
  "importMesh mesh visualSceneImporter s =
     (case findGeometryTransformIds visualSceneImporter (uniqueId mesh) of
        None \<Rightarrow> Inl NullPointer
      | Some transformNodes \<Rightarrow>
          importMeshNodes mesh visualSceneImporter (length transformNodes) transformNodes 0 s)"

definition importGeometry ::
  "('a::{plus,minus,times,zero,ord}) Geometry option \<Rightarrow> VisualSceneImporter \<Rightarrow>
   'a GeometryImporter \<Rightarrow> error + 'a GeometryImporter" where
  "importGeometry geometry visualSceneImporter s =
     (case geometry of
        None \<Rightarrow> Inr s
      | Some g \<Rightarrow>
          if findMayaMeshNode s (geometry_getUniqueId g) \<noteq> None then Inr s
          else (case g of
                  GEO_TYPE_CONVEX_MESH i \<Rightarrow>
                    Inr (s\<lparr>messages := messages s @ [''Import of convex_mesh not supported!'']\<rparr>)
                | GEO_TYPE_SPLINE i \<Rightarrow>
                    Inr (s\<lparr>messages := messages s @ [''Import of spline not supported!'']\<rparr>)
                | GEO_TYPE_MESH mesh \<Rightarrow> importMesh mesh visualSceneImporter s
                | GEO_TYPE_UNKNOWN i \<Rightarrow> Inr s))"

subsection \<open>Example inputs\<close>

text \<open>A hole of three edge references, and the edge map of the triangle 0, 1, 2.\<close>

definition example_hole :: polyFaces where
  "example_hole = polyFaces_default\<lparr>h_holeEdgeCount := 3, h_edgeIdValue := [0, - 3, 5]\<rparr>"

definition example_map :: EdgeMap where
  "example_map = [(0, 1) \<mapsto> 0, (1, 2) \<mapsto> 1, (0, 2) \<mapsto> 2]"

text \<open>
  A mesh of two primitives with six grouped vertex elements each and no values, the
  three transform nodes 1, 2 and 3 of a scene, which use every geometry, and an
  importer that has not imported anything. The numbers of the examples are integers.
\<close>

definition example_primitive :: "size_t \<Rightarrow> MeshPrimitive" where
  "example_primitive n =
     \<lparr>primitiveType = TRIANGLES, positionIndices = [], normalIndices = [],
      groupedVertexElementsCount = n, groupedVerticesVertexCountArray = [],
      groupedVerticesVertexCount = (\<lambda>i. 3), uvCoordIndicesArray = [], colorIndicesArray = [],
      materialId = 0, appendEdgeIndices = (\<lambda>edges. edges)\<rparr>"

definition example_values :: "int list \<Rightarrow> InputInfos list \<Rightarrow> int MeshVertexData" where
  "example_values values infos =
     \<lparr>getType = DATA_TYPE_FLOAT, getFloatValues = values, getDoubleValues = [],
      inputInfosArray = infos\<rparr>"

definition example_mesh :: "int Mesh" where
  "example_mesh =
     \<lparr>uniqueId = 7, meshPrimitives = [example_primitive 6, example_primitive 6],
      getUVSetIndexByName = (\<lambda>name. 0), getColorIndexByName = (\<lambda>name. 0),
      getPositions = example_values [] [], getNormals = example_values [] [],
      getUVCoords = example_values [] [], getColors = example_values [] [],
      getNormalsCount = 0, getFacesCount = 12\<rparr>"

text \<open>
  A fan of the five vertices 0 to 4 with one UV set and the map of its edges, and a
  mesh of two such fans: five vertices with three coordinates each and five UV points
  with two coordinates each.
\<close>

definition example_fan_map :: EdgeMap where
  "example_fan_map =
     [(0, 1) \<mapsto> 0, (1, 2) \<mapsto> 1, (0, 2) \<mapsto> 2, (2, 3) \<mapsto> 3, (0, 3) \<mapsto> 4, (3, 4) \<mapsto> 5,
      (0, 4) \<mapsto> 6]"

definition example_fan_edges :: "Edge list" where
  "example_fan_edges =
     [Edge_ctor 0 1, Edge_ctor 1 2, Edge_ctor 0 2, Edge_ctor 2 3, Edge_ctor 0 3, Edge_ctor 3 4,
      Edge_ctor 0 4]"

definition example_fan :: MeshPrimitive where
  "example_fan =
     \<lparr>primitiveType = TRIANGLE_FANS, positionIndices = [0, 1, 2, 3, 4], normalIndices = [],
      groupedVertexElementsCount = 1, groupedVerticesVertexCountArray = [5],
      groupedVerticesVertexCount = (\<lambda>i. 5),
      uvCoordIndicesArray =
        [\<lparr>il_name = ''map1'', il_indices = [10, 11, 12, 13, 14], il_initialIndex = 10\<rparr>],
      colorIndicesArray = [], materialId = 0,
      appendEdgeIndices = (\<lambda>edges. (example_fan_edges, example_fan_map))\<rparr>"

definition example_fan_mesh :: "int Mesh" where
  "example_fan_mesh =
     \<lparr>uniqueId = 9, meshPrimitives = [example_fan, example_fan],
      getUVSetIndexByName = (\<lambda>name. 0), getColorIndexByName = (\<lambda>name. 0),
      getPositions = example_values [0, 0, 0, 1, 0, 0, 1, 1, 0, 0, 1, 0, - 1, 1, 0] [],
      getNormals = example_values [] [],
      getUVCoords = example_values [0, 0, 1, 0, 1, 1, 0, 1, 2, 2]
        [\<lparr>ii_name = ''map1'', ii_stride = 2, ii_length = 10\<rparr>],
      getColors = example_values [] [],
      getNormalsCount = 0, getFacesCount = 6\<rparr>"


text \<open>The same mesh with a UV set of one coordinate for each point.\<close>

definition example_stride_mesh :: "int Mesh" where
  "example_stride_mesh =
     example_fan_mesh\<lparr>getUVCoords := example_values [0, 1, 2, 3, 4]
        [\<lparr>ii_name = ''map1'', ii_stride = 1, ii_length = 5\<rparr>]\<rparr>"

text \<open>
  A primitive of two strips of three vertices each, with one UV index for each
  vertex, the map of its edges, and the mesh of this primitive.
\<close>

definition example_strips_map :: EdgeMap where
  "example_strips_map =
     [(0, 1) \<mapsto> 0, (1, 2) \<mapsto> 1, (0, 2) \<mapsto> 2, (3, 4) \<mapsto> 3, (4, 5) \<mapsto> 4, (3, 5) \<mapsto> 5]"

definition example_strips_edges :: "Edge list" where
  "example_strips_edges =
     [Edge_ctor 0 1, Edge_ctor 1 2, Edge_ctor 0 2, Edge_ctor 3 4, Edge_ctor 4 5, Edge_ctor 3 5]"

definition example_strips :: MeshPrimitive where
  "example_strips =
     \<lparr>primitiveType = TRIANGLE_STRIPS, positionIndices = [0, 1, 2, 3, 4, 5], normalIndices = [],
      groupedVertexElementsCount = 2, groupedVerticesVertexCountArray = [3, 3],
      groupedVerticesVertexCount = (\<lambda>i. 3),
      uvCoordIndicesArray =
        [\<lparr>il_name = ''map1'', il_indices = [0, 1, 2, 3, 4, 5], il_initialIndex = 0\<rparr>],
      colorIndicesArray = [], materialId = 0,
      appendEdgeIndices = (\<lambda>edges. (example_strips_edges, example_strips_map))\<rparr>"

definition example_strips_mesh :: "int Mesh" where
  "example_strips_mesh =
     \<lparr>uniqueId = 10, meshPrimitives = [example_strips],
      getUVSetIndexByName = (\<lambda>name. 0), getColorIndexByName = (\<lambda>name. 0),
      getPositions =
        example_values [0, 0, 0, 1, 0, 0, 1, 1, 0, 5, 0, 0, 6, 0, 0, 6, 1, 0] [],
      getNormals = example_values [] [],
      getUVCoords = example_values [0, 0, 1, 0, 1, 1, 0, 0, 1, 0, 1, 1]
        [\<lparr>ii_name = ''map1'', ii_stride = 2, ii_length = 12\<rparr>],
      getColors = example_values [] [],
      getNormalsCount = 0, getFacesCount = 2\<rparr>"

text \<open>
  A mesh of three primitives of which the first one has no grouped vertex element, as
  for an element \<^verbatim>\<open><triangles count="0">\<close> followed by two others.
\<close>

definition example_empty_first :: "int Mesh" where
  "example_empty_first =
     \<lparr>uniqueId = 8,
      meshPrimitives = [example_primitive 0, example_primitive 4, example_primitive 2],
      getUVSetIndexByName = (\<lambda>name. 0), getColorIndexByName = (\<lambda>name. 0),
      getPositions = example_values [] [], getNormals = example_values [] [],
      getUVCoords = example_values [] [], getColors = example_values [] [],
      getNormalsCount = 0, getFacesCount = 6\<rparr>"

text \<open>
  A scene in which every geometry is used by the transform nodes 1, 2 and 3, the same
  scene without the transform node 1, and an importer that has not imported anything.
\<close>

definition example_scene :: VisualSceneImporter where
  "example_scene =
     \<lparr>findGeometryTransformIds = (\<lambda>g. Some [1, 2, 3]),
      findMayaTransformNode = (\<lambda>u. Some \<lparr>mn_uniqueId = u, mn_parent = None\<rparr>)\<rparr>"

definition example_scene_without_node :: VisualSceneImporter where
  "example_scene_without_node =
     \<lparr>findGeometryTransformIds = (\<lambda>g. Some [1, 2, 3]),
      findMayaTransformNode =
        (\<lambda>u. if u = 1 then None else Some \<lparr>mn_uniqueId = u, mn_parent = None\<rparr>)\<rparr>"

definition example_importer :: "int GeometryImporter" where
  "example_importer =
     \<lparr>mMayaMeshNodesMap = Map.empty, mMayaDMMeshNodesMap = Map.empty, mGroupIdAssignments = [],
      mShadingEnginePrimitivesMap = (\<lambda>combinedId. []),
      toLinearUnit = (\<lambda>x y z. \<lparr>vec_x = x, vec_y = y, vec_z = z\<rparr>),
      messages = [], mayaFile = []\<rparr>"

section \<open>Properties\<close>

subsection \<open>Machine integers\<close>

declare reverseLoop.simps [simp del] writeBackLoop.simps [simp del]

lemma sint_dec: "0 \<le> sint (e::int32) \<Longrightarrow> sint (e - 1) = sint e - 1"
  using sint_lt [of e] by (simp add: sint_word_diff signed_take_bit_int_eq_self)

lemma sint_of_nat_32: "n < 2 ^ 31 \<Longrightarrow> sint (word_of_nat n :: int32) = int n"
  by (simp add: signed_of_nat signed_take_bit_int_eq_self)

lemma sint_toggle: "sint (- ((v::int32) + 1)) = - (sint v + 1)"
proof -
  have "- (v + 1) = word_of_int (- (sint v + 1))" by simp
  then have "sint (- (v + 1)) = signed_take_bit 31 (- (sint v + 1))"
    by (simp only: sint_sbintrunc') simp
  also have "\<dots> = - (sint v + 1)"
    using sint_ge [of v] sint_lt [of v] by (simp add: signed_take_bit_int_eq_self)
  finally show ?thesis .
qed

subsection \<open>Flipping a hole\<close>

lemma reverseLoop_eq:
  "- 1 \<le> sint edgeIndex \<Longrightarrow> nat (sint edgeIndex + 1) \<le> length ev \<Longrightarrow>
   reverseLoop ev edgeIndex valueVec =
     Inr (valueVec @ map (\<lambda>v. (v + 1) * (- 1)) (rev (take (nat (sint edgeIndex + 1)) ev)))"
proof (induction ev edgeIndex valueVec rule: reverseLoop.induct)
  case (1 ev edgeIndex valueVec)
  show ?case
  proof (cases "0 \<le> sint edgeIndex")
    case False
    with "1.prems" have "sint edgeIndex = - 1" by simp
    then show ?thesis by (simp add: reverseLoop.simps [of ev edgeIndex])
  next
    case True
    then have dec: "sint (edgeIndex - 1) = sint edgeIndex - 1" by (rule sint_dec)
    from True "1.prems" have inr: "nat (sint edgeIndex) < length ev" by simp
    have suc: "nat (sint edgeIndex + 1) = Suc (nat (sint edgeIndex))"
      using True by simp
    have "reverseLoop ev (edgeIndex - 1) (valueVec @ [(ev ! nat (sint edgeIndex) + 1) * (- 1)]) =
       Inr ((valueVec @ [(ev ! nat (sint edgeIndex) + 1) * (- 1)]) @
          map (\<lambda>v. (v + 1) * (- 1)) (rev (take (nat (sint (edgeIndex - 1) + 1)) ev)))"
      using True inr "1.prems" dec by (intro "1.IH") simp_all
    then show ?thesis
      using True inr dec suc
      by (simp add: reverseLoop.simps [of ev edgeIndex] take_Suc_conv_app_nth)
  qed
qed

lemma writeBackLoop_eq:
  "length valueVec \<le> length ev \<Longrightarrow> i \<le> length valueVec \<Longrightarrow>
   writeBackLoop ev valueVec i = Inr (take i ev @ drop i valueVec @ drop (length valueVec) ev)"
proof (induction ev valueVec i rule: writeBackLoop.induct)
  case (1 ev valueVec i)
  show ?case
  proof (cases "i < length valueVec")
    case False
    with "1.prems" show ?thesis by (subst writeBackLoop.simps) simp
  next
    case True
    with "1.prems" have iev: "i < length ev" by simp
    have "writeBackLoop (ev[i := valueVec ! i]) valueVec (i + 1) =
        Inr (take (i + 1) (ev[i := valueVec ! i]) @ drop (i + 1) valueVec @
             drop (length valueVec) (ev[i := valueVec ! i]))"
      using True iev "1.prems" by (intro "1.IH") simp_all
    moreover have "take (i + 1) (ev[i := valueVec ! i]) = take i ev @ [valueVec ! i]"
      using iev by (simp add: take_Suc_conv_app_nth)
    moreover have "drop (length valueVec) (ev[i := valueVec ! i]) = drop (length valueVec) ev"
      using True by simp
    moreover have "drop i valueVec = valueVec ! i # drop (i + 1) valueVec"
      using True by (simp add: Cons_nth_drop_Suc)
    ultimately show ?thesis
      using True iev by (simp add: writeBackLoop.simps [of ev valueVec i])
  qed
qed

lemma changePolyFaceHoleOrientation_eq:
  assumes cnt: "h_holeEdgeCount face = word_of_nat (length (h_edgeIdValue face))"
    and len: "length (h_edgeIdValue face) < 2 ^ 31"
  shows "changePolyFaceHoleOrientation face =
     Inr (face\<lparr>h_edgeIdValue := map (\<lambda>v. - (v + 1)) (rev (h_edgeIdValue face))\<rparr>)"
proof -
  let ?e = "h_edgeIdValue face"
  let ?n = "length ?e"
  have s: "sint (word_of_nat ?n - 1 :: int32) = int ?n - 1"
  proof (cases "?n = 0")
    case True then show ?thesis by simp
  next
    case False
    then obtain m where m: "?n = Suc m" by (cases "?n") auto
    then have "word_of_nat ?n - 1 = (word_of_nat (?n - 1) :: int32)"
      by simp
    moreover have "sint (word_of_nat (?n - 1) :: int32) = int (?n - 1)"
      using len by (intro sint_of_nat_32) simp
    ultimately show ?thesis using False by (simp add: of_nat_diff)
  qed
  let ?vv = "map (\<lambda>v. - (v + 1)) (rev ?e)"
  have "reverseLoop ?e (word_of_nat ?n - 1) [] =
      Inr ([] @ map (\<lambda>v. (v + 1) * (- 1))
        (rev (take (nat (sint (word_of_nat ?n - 1 :: int32) + 1)) ?e)))"
    using s by (intro reverseLoop_eq) simp_all
  then have r: "reverseLoop ?e (word_of_nat ?n - 1) [] = Inr ?vv"
    using s by simp
  have "writeBackLoop ?e ?vv 0 = Inr (take 0 ?e @ drop 0 ?vv @ drop (length ?vv) ?e)"
    by (intro writeBackLoop_eq) simp_all
  then have w: "writeBackLoop ?e ?vv 0 = Inr ?vv"
    by simp
  show ?thesis
    by (simp only: changePolyFaceHoleOrientation_def Let_def cnt r w sum.case)
qed

text \<open>
  Claim C1. For a parent polygon and a hole, each given by the positions of its first
  three vertices, the test computes the parent normal as the cross product of
  \<open>p1 - p0\<close> and \<open>p2 - p0\<close>, the hole normal as the cross product of \<open>h1 - h0\<close> and
  \<open>h2 - h0\<close>, and answers that the hole must be flipped exactly when the dot product of
  the two normals is greater than 0.
\<close>

theorem changeHoleOrientation_cross_dot:
  "changeHoleOrientation [p0, p1, p2] [h0, h1, h2] =
     Inr (dotProduct (crossProduct (vec_minus p1 p0) (vec_minus p2 p0))
                     (crossProduct (vec_minus h1 h0) (vec_minus h2 h0)) > 0)"
  by (simp add: changeHoleOrientation_def)

text \<open>
  Claim C2. Flipping a hole of \<open>n\<close> edge references gives the list in reversed order
  with every reference \<open>v\<close> replaced by \<open>- (v + 1)\<close>: position \<open>j\<close> of the result is
  \<open>- (e ! (n - 1 - j) + 1)\<close>, as a machine integer and as the signed number it
  stands for, so that an index \<open>i\<close> becomes \<open>- (i + 1)\<close> and \<open>- (i + 1)\<close> becomes \<open>i\<close>.
\<close>

theorem changePolyFaceHoleOrientation_reversed_toggled:
  assumes "h_holeEdgeCount face = word_of_nat (length (h_edgeIdValue face))"
    and "length (h_edgeIdValue face) < 2 ^ 31"
  shows "\<exists>flipped. changePolyFaceHoleOrientation face = Inr flipped \<and>
           length (h_edgeIdValue flipped) = length (h_edgeIdValue face) \<and>
           (\<forall>j < length (h_edgeIdValue face).
              h_edgeIdValue flipped ! j =
                - (h_edgeIdValue face ! (length (h_edgeIdValue face) - 1 - j) + 1) \<and>
              sint (h_edgeIdValue flipped ! j) =
                - (sint (h_edgeIdValue face ! (length (h_edgeIdValue face) - 1 - j)) + 1))"
proof -
  let ?e = "h_edgeIdValue face"
  let ?flipped = "face\<lparr>h_edgeIdValue := map (\<lambda>v. - (v + 1)) (rev ?e)\<rparr>"
  have run: "changePolyFaceHoleOrientation face = Inr ?flipped"
    using assms by (rule changePolyFaceHoleOrientation_eq)
  have nth: "h_edgeIdValue ?flipped ! j = - (?e ! (length ?e - 1 - j) + 1)"
    if "j < length ?e" for j
    using that by (simp add: rev_nth)
  have "sint (h_edgeIdValue ?flipped ! j) = - (sint (?e ! (length ?e - 1 - j)) + 1)"
    if "j < length ?e" for j
    by (simp only: nth [OF that] sint_toggle)
  with nth have "\<forall>j < length ?e.
       h_edgeIdValue ?flipped ! j = - (?e ! (length ?e - 1 - j) + 1) \<and>
       sint (h_edgeIdValue ?flipped ! j) = - (sint (?e ! (length ?e - 1 - j)) + 1)"
    by blast
  moreover have "length (h_edgeIdValue ?flipped) = length ?e"
    by simp
  ultimately show ?thesis
    using run by blast
qed

theorem changePolyFaceHoleOrientation_reversed_toggled_witness:
  "h_holeEdgeCount example_hole = word_of_nat (length (h_edgeIdValue example_hole)) \<and>
   length (h_edgeIdValue example_hole) < 2 ^ 31 \<and>
   (\<exists>flipped. changePolyFaceHoleOrientation example_hole = Inr flipped \<and>
      length (h_edgeIdValue flipped) = length (h_edgeIdValue example_hole) \<and>
      (\<forall>j < length (h_edgeIdValue example_hole).
         h_edgeIdValue flipped ! j =
           - (h_edgeIdValue example_hole ! (length (h_edgeIdValue example_hole) - 1 - j) + 1) \<and>
         sint (h_edgeIdValue flipped ! j) =
           - (sint (h_edgeIdValue example_hole !
                (length (h_edgeIdValue example_hole) - 1 - j)) + 1)))"
  using changePolyFaceHoleOrientation_reversed_toggled [of example_hole]
  by (simp add: example_hole_def polyFaces_default_def)

text \<open>
  Claim C10. Flipping a hole twice gives the hole back unchanged.
\<close>

theorem changePolyFaceHoleOrientation_involution:
  assumes "h_holeEdgeCount face = word_of_nat (length (h_edgeIdValue face))"
    and "length (h_edgeIdValue face) < 2 ^ 31"
  shows "\<exists>flipped. changePolyFaceHoleOrientation face = Inr flipped \<and>
           changePolyFaceHoleOrientation flipped = Inr face"
proof -
  let ?e = "h_edgeIdValue face"
  let ?flipped = "face\<lparr>h_edgeIdValue := map (\<lambda>v. - (v + 1)) (rev ?e)\<rparr>"
  have run: "changePolyFaceHoleOrientation face = Inr ?flipped"
    using assms by (rule changePolyFaceHoleOrientation_eq)
  have "changePolyFaceHoleOrientation ?flipped =
      Inr (?flipped\<lparr>h_edgeIdValue := map (\<lambda>v. - (v + 1)) (rev (h_edgeIdValue ?flipped))\<rparr>)"
    using assms by (intro changePolyFaceHoleOrientation_eq) simp_all
  moreover have "map (\<lambda>v. - (v + 1)) (rev (h_edgeIdValue ?flipped)) = ?e"
    by (simp add: rev_map comp_def)
  ultimately have "changePolyFaceHoleOrientation ?flipped = Inr face"
    by simp
  with run show ?thesis by blast
qed

theorem changePolyFaceHoleOrientation_involution_witness:
  "\<exists>flipped. changePolyFaceHoleOrientation example_hole = Inr flipped \<and>
      changePolyFaceHoleOrientation flipped = Inr example_hole"
  using changePolyFaceHoleOrientation_involution [of example_hole]
  by (simp add: example_hole_def polyFaces_default_def)

text \<open>
  Claim C3. For an edge that is in the edge index map with index \<open>i\<close>, the edge
  reference is \<open>i\<close> when the edge is not reversed and \<open>- (i + 1)\<close> when it is; for
  an index below \<open>2 ^ 31\<close> these are also the signed numbers the references stand for.
\<close>

theorem getEdgeIndex_signed_reference:
  assumes "edgeIndicesMap (mVertexIndices edge) = Some i"
  shows "\<exists>r. getEdgeIndex edge edgeIndicesMap = Inr r \<and>
           r = (if isReverse edge then - (ucast i + 1) else ucast i) \<and>
           (unat i < 2 ^ 31 \<longrightarrow>
              sint r = (if isReverse edge then - (int (unat i) + 1) else int (unat i)))"
proof -
  have pos: "sint (ucast i :: int32) = int (unat i)" if "unat i < 2 ^ 31"
  proof -
    have "(ucast i :: int32) = word_of_nat (unat i)" by simp
    then show ?thesis using that sint_of_nat_32 by metis
  qed
  have neg: "sint (- ((ucast i :: int32) + 1)) = - (int (unat i) + 1)" if "unat i < 2 ^ 31"
    by (simp only: sint_toggle pos [OF that])
  show ?thesis
    using assms pos neg by (simp add: getEdgeIndex_def)
qed

theorem getEdgeIndex_signed_reference_witness:
  "(\<exists>r. getEdgeIndex (Edge_ctor 1 2) example_map = Inr r \<and> r = 1 \<and> sint r = 1) \<and>
   (\<exists>r. getEdgeIndex (Edge_ctor 2 1) example_map = Inr r \<and> r = - 2 \<and> sint r = - 2)"
  using getEdgeIndex_signed_reference [of example_map "Edge_ctor 1 2" 1]
    getEdgeIndex_signed_reference [of example_map "Edge_ctor 2 1" 1]
  by (simp add: example_map_def Edge_ctor_def isReverse_def)

subsection \<open>Object groups\<close>

lemma objectGroups_eq:
  "objectGroups j i initialFaceIndex prims =
     map (\<lambda>l. ObjectGrpCompList j (i + l)
            [(initialFaceIndex + sum_list (map groupedVertexElementsCount (take l prims)),
              groupedVertexElementsCount (prims ! l) - 1 +
                (initialFaceIndex + sum_list (map groupedVertexElementsCount (take l prims))))])
       [0 ..< length prims]"
proof (induction prims arbitrary: i initialFaceIndex)
  case Nil
  show ?case by simp
next
  case (Cons p prims)
  have "[0 ..< length (p # prims)] = 0 # map Suc [0 ..< length prims]"
    by (simp add: upt_conv_Cons map_Suc_upt del: upt_Suc)
  then show ?case
    by (simp add: Cons.IH Let_def add.assoc del: upt_Suc)
qed

lemma unat_sum_list:
  "sum_list (map unat ws) < 2 ^ 64 \<Longrightarrow> unat (sum_list ws :: size_t) = sum_list (map unat ws)"
proof (induction ws)
  case Nil
  show ?case by simp
next
  case (Cons w ws)
  then have "unat (sum_list ws) = sum_list (map unat ws)" by simp
  moreover from Cons.prems have "unat w + sum_list (map unat ws) < 2 ^ LENGTH(64)" by simp
  ultimately show ?case
    by (simp add: unat_add_lem [THEN iffD1])
qed

lemma sum_list_take_le:
  "sum_list (map f (take i xs)) \<le> (sum_list (map f xs) :: nat)"
proof -
  have "sum_list (map f xs) = sum_list (map f (take i xs)) + sum_list (map f (drop i xs))"
    by (metis append_take_drop_id map_append sum_list_append)
  then show ?thesis by simp
qed

lemma createGroupNodes_assignments:
  "mGroupIdAssignments (foldl (\<lambda>s primitiveIndex.
        s\<lparr>mayaFile := mayaFile s @ [CreateGroupId],
          mGroupIdAssignments := mGroupIdAssignments s @ [g primitiveIndex]\<rparr>) s is) =
     mGroupIdAssignments s @ map g is"
  by (induction "is" arbitrary: s) simp_all


text \<open>
  A mesh with at most one primitive gets no object groups and no group ids.
  For a mesh with more than one primitive, every instance \<open>j\<close> gets one range of face
  indices for each primitive \<open>i\<close>, in the order of the primitives: the first range starts
  at 0, each further range starts right after the end of the one before, and the range
  of primitive \<open>i\<close> holds as many indices as the primitive has grouped vertex elements.
  This holds in the arithmetic of \<^verbatim>\<open>size_t\<close>, and for the numbers themselves when the
  first primitive is not empty and the total fits into \<^verbatim>\<open>size_t\<close>. Every call of
  \<^verbatim>\<open>createGroupNodes\<close> adds one group id assignment for each primitive.
\<close>

lemma writeObjectGroups_partition:
  "(length (meshPrimitives mesh) \<le> 1 \<longrightarrow>
      writeObjectGroups mesh numNodeInstances = [] \<and>
      createGroupNodes mesh geometryInstanceIndex s = s) \<and>
   (1 < length (meshPrimitives mesh) \<longrightarrow>
      (\<exists>ranges.
         length ranges = length (meshPrimitives mesh) \<and>
         writeObjectGroups mesh numNodeInstances =
           concat (map (\<lambda>j. map (\<lambda>i. ObjectGrpCompList j i [ranges ! i])
                                [0 ..< length (meshPrimitives mesh)])
                       [0 ..< numNodeInstances]) \<and>
         fst (ranges ! 0) = 0 \<and>
         (\<forall>i < length (meshPrimitives mesh).
            snd (ranges ! i) + 1 =
              fst (ranges ! i) + groupedVertexElementsCount (meshPrimitives mesh ! i)) \<and>
         (\<forall>i. Suc i < length (meshPrimitives mesh) \<longrightarrow>
            fst (ranges ! Suc i) = snd (ranges ! i) + 1) \<and>
         (0 < groupedVertexElementsCount (meshPrimitives mesh ! 0) \<and>
          (\<Sum>p\<leftarrow>meshPrimitives mesh. unat (groupedVertexElementsCount p)) < 2 ^ 64 \<longrightarrow>
            (\<forall>i < length (meshPrimitives mesh).
               unat (fst (ranges ! i)) =
                 (\<Sum>p\<leftarrow>take i (meshPrimitives mesh). unat (groupedVertexElementsCount p)) \<and>
               unat (snd (ranges ! i)) + 1 =
                 unat (fst (ranges ! i)) +
                 unat (groupedVertexElementsCount (meshPrimitives mesh ! i))))) \<and>
      mGroupIdAssignments (createGroupNodes mesh geometryInstanceIndex s) =
        mGroupIdAssignments s @
        map (\<lambda>i. \<lparr>ga_geometryId = uniqueId mesh,
                    ga_geometryInstanceIndex = geometryInstanceIndex,
                    ga_primitiveIndex = i\<rparr>)
            [0 ..< length (meshPrimitives mesh)])"
proof (intro conjI impI)
  assume "length (meshPrimitives mesh) \<le> 1"
  then show "writeObjectGroups mesh numNodeInstances = []"
    and "createGroupNodes mesh geometryInstanceIndex s = s"
    by (simp_all add: writeObjectGroups_def createGroupNodes_def)
next
  let ?prims = "meshPrimitives mesh"
  let ?count = "\<lambda>i. groupedVertexElementsCount (?prims ! i)"
  let ?first = "\<lambda>i. sum_list (map groupedVertexElementsCount (take i ?prims))"
  let ?ranges = "map (\<lambda>i. (?first i, ?count i - 1 + ?first i)) [0 ..< length ?prims]"
  assume many: "1 < length ?prims"
  have len: "length ?ranges = length ?prims"
    by simp
  have nth: "?ranges ! i = (?first i, ?count i - 1 + ?first i)" if "i < length ?prims" for i
    using that by simp
  have groups: "objectGroups j 0 0 ?prims =
      map (\<lambda>i. ObjectGrpCompList j i [?ranges ! i]) [0 ..< length ?prims]" for j
    by (simp add: objectGroups_eq)
  have out: "writeObjectGroups mesh numNodeInstances =
      concat (map (\<lambda>j. map (\<lambda>i. ObjectGrpCompList j i [?ranges ! i]) [0 ..< length ?prims])
                  [0 ..< numNodeInstances])"
    using many by (simp only: writeObjectGroups_def groups) simp
  have first0: "fst (?ranges ! 0) = 0"
  proof -
    from many have "0 < length ?prims" by (cases ?prims) simp_all
    from nth [OF this] show ?thesis by simp
  qed
  have size: "snd (?ranges ! i) + 1 = fst (?ranges ! i) + ?count i" if "i < length ?prims" for i
    by (simp add: nth [OF that])
  have step: "?first (Suc i) = ?first i + ?count i" if "i < length ?prims" for i
    using that by (simp add: take_Suc_conv_app_nth)
  have next_range: "fst (?ranges ! Suc i) = snd (?ranges ! i) + 1" if "Suc i < length ?prims" for i
  proof -
    from that have i: "i < length ?prims" by simp
    show ?thesis by (simp add: nth [OF that] nth [OF i] step [OF i])
  qed
  have exact: "unat (fst (?ranges ! i)) = (\<Sum>p\<leftarrow>take i ?prims. unat (groupedVertexElementsCount p)) \<and>
      unat (snd (?ranges ! i)) + 1 = unat (fst (?ranges ! i)) + unat (?count i)"
    if pos: "0 < ?count 0"
      and total: "(\<Sum>p\<leftarrow>?prims. unat (groupedVertexElementsCount p)) < 2 ^ 64"
      and i: "i < length ?prims" for i
  proof -
    have bound: "(\<Sum>p\<leftarrow>take l ?prims. unat (groupedVertexElementsCount p)) < 2 ^ 64" for l
      using sum_list_take_le [of "\<lambda>p. unat (groupedVertexElementsCount p)" l ?prims] total
      by simp
    have unat_first: "unat (?first l) = (\<Sum>p\<leftarrow>take l ?prims. unat (groupedVertexElementsCount p))"
      for l
      using unat_sum_list [of "map groupedVertexElementsCount (take l ?prims)"] bound [of l]
      by (simp add: comp_def)
    have "(\<Sum>p\<leftarrow>take (Suc i) ?prims. unat (groupedVertexElementsCount p)) =
        (\<Sum>p\<leftarrow>take i ?prims. unat (groupedVertexElementsCount p)) + unat (?count i)"
      using i by (simp add: take_Suc_conv_app_nth)
    then have "unat (?first (Suc i)) = unat (?first i) + unat (?count i)"
      by (simp only: unat_first)
    moreover have "unat (?count 0) \<le> unat (?first (Suc i))"
    proof -
      from i have "take (Suc i) ?prims = ?prims ! 0 # take i (drop 1 ?prims)"
        by (cases ?prims) simp_all
      then have "(\<Sum>p\<leftarrow>take (Suc i) ?prims. unat (groupedVertexElementsCount p)) =
          unat (?count 0) + (\<Sum>p\<leftarrow>take i (drop 1 ?prims). unat (groupedVertexElementsCount p))"
        by simp
      then show ?thesis
        by (simp only: unat_first)
    qed
    moreover from pos have "0 < unat (?count 0)"
      by (simp add: word_less_nat_alt)
    ultimately have nonzero: "0 < unat (?first (Suc i))"
      by linarith
    then have "?first (Suc i) \<noteq> 0"
      by auto
    then have "unat (?first (Suc i) - 1) = unat (?first (Suc i)) - 1"
      by (simp add: unat_minus_one)
    moreover have "snd (?ranges ! i) = ?first (Suc i) - 1"
      by (simp add: nth [OF i] step [OF i])
    ultimately have "unat (snd (?ranges ! i)) + 1 = unat (?first (Suc i))"
      using nonzero by simp
    then show ?thesis
      using \<open>unat (?first (Suc i)) = unat (?first i) + unat (?count i)\<close>
      by (simp add: nth [OF i] unat_first)
  qed
  show "\<exists>ranges.
         length ranges = length (meshPrimitives mesh) \<and>
         writeObjectGroups mesh numNodeInstances =
           concat (map (\<lambda>j. map (\<lambda>i. ObjectGrpCompList j i [ranges ! i])
                                [0 ..< length (meshPrimitives mesh)])
                       [0 ..< numNodeInstances]) \<and>
         fst (ranges ! 0) = 0 \<and>
         (\<forall>i < length (meshPrimitives mesh).
            snd (ranges ! i) + 1 =
              fst (ranges ! i) + groupedVertexElementsCount (meshPrimitives mesh ! i)) \<and>
         (\<forall>i. Suc i < length (meshPrimitives mesh) \<longrightarrow>
            fst (ranges ! Suc i) = snd (ranges ! i) + 1) \<and>
         (0 < groupedVertexElementsCount (meshPrimitives mesh ! 0) \<and>
          (\<Sum>p\<leftarrow>meshPrimitives mesh. unat (groupedVertexElementsCount p)) < 2 ^ 64 \<longrightarrow>
            (\<forall>i < length (meshPrimitives mesh).
               unat (fst (ranges ! i)) =
                 (\<Sum>p\<leftarrow>take i (meshPrimitives mesh). unat (groupedVertexElementsCount p)) \<and>
               unat (snd (ranges ! i)) + 1 =
                 unat (fst (ranges ! i)) +
                 unat (groupedVertexElementsCount (meshPrimitives mesh ! i))))"
    using len out first0 size next_range exact
    by (intro exI [of _ ?ranges] conjI allI impI) blast+
  show "mGroupIdAssignments (createGroupNodes mesh geometryInstanceIndex s) =
        mGroupIdAssignments s @
        map (\<lambda>i. \<lparr>ga_geometryId = uniqueId mesh,
                    ga_geometryInstanceIndex = geometryInstanceIndex,
                    ga_primitiveIndex = i\<rparr>)
            [0 ..< length (meshPrimitives mesh)]"
    using many createGroupNodes_assignments [of "\<lambda>i. \<lparr>ga_geometryId = uniqueId mesh,
        ga_geometryInstanceIndex = geometryInstanceIndex, ga_primitiveIndex = i\<rparr>" s
        "[0 ..< length (meshPrimitives mesh)]"]
    by (simp add: createGroupNodes_def)
qed

lemma writeObjectGroups_partition_example:
  "1 < length (meshPrimitives example_mesh) \<and>
   0 < groupedVertexElementsCount (meshPrimitives example_mesh ! 0) \<and>
   (\<Sum>p\<leftarrow>meshPrimitives example_mesh. unat (groupedVertexElementsCount p)) < 2 ^ 64 \<and>
   writeObjectGroups example_mesh 2 =
     [ObjectGrpCompList 0 0 [(0, 5)], ObjectGrpCompList 0 1 [(6, 11)],
      ObjectGrpCompList 1 0 [(0, 5)], ObjectGrpCompList 1 1 [(6, 11)]] \<and>
   mGroupIdAssignments (createGroupNodes example_mesh 1 example_importer) =
     [\<lparr>ga_geometryId = 7, ga_geometryInstanceIndex = 1, ga_primitiveIndex = 0\<rparr>,
      \<lparr>ga_geometryId = 7, ga_geometryInstanceIndex = 1, ga_primitiveIndex = 1\<rparr>]"
proof -
  have many: "1 < length (meshPrimitives example_mesh)"
    by (simp add: example_mesh_def)
  have pos: "0 < groupedVertexElementsCount (meshPrimitives example_mesh ! 0)"
    by (simp add: example_mesh_def example_primitive_def)
  have total: "(\<Sum>p\<leftarrow>meshPrimitives example_mesh. unat (groupedVertexElementsCount p)) < 2 ^ 64"
    by (simp add: example_mesh_def example_primitive_def)
  from writeObjectGroups_partition [of example_mesh 2 1 example_importer] many
  obtain ranges where len: "length ranges = length (meshPrimitives example_mesh)"
    and out: "writeObjectGroups example_mesh 2 =
           concat (map (\<lambda>j. map (\<lambda>i. ObjectGrpCompList j i [ranges ! i])
                                [0 ..< length (meshPrimitives example_mesh)]) [0 ..< 2])"
    and first: "fst (ranges ! 0) = 0"
    and size: "\<forall>i < length (meshPrimitives example_mesh).
            snd (ranges ! i) + 1 =
              fst (ranges ! i) + groupedVertexElementsCount (meshPrimitives example_mesh ! i)"
    and nxt: "\<forall>i. Suc i < length (meshPrimitives example_mesh) \<longrightarrow>
            fst (ranges ! Suc i) = snd (ranges ! i) + 1"
    and groups: "mGroupIdAssignments (createGroupNodes example_mesh 1 example_importer) =
        mGroupIdAssignments example_importer @
        map (\<lambda>i. \<lparr>ga_geometryId = uniqueId example_mesh,
                    ga_geometryInstanceIndex = 1, ga_primitiveIndex = i\<rparr>)
            [0 ..< length (meshPrimitives example_mesh)]"
    by blast
  have two: "length (meshPrimitives example_mesh) = 2"
    by (simp add: example_mesh_def)
  from size two have "snd (ranges ! 0) + 1 = fst (ranges ! 0) + 6"
    and s1: "snd (ranges ! 1) + 1 = fst (ranges ! 1) + 6"
    by (simp_all add: example_mesh_def example_primitive_def)
  with first have l0: "snd (ranges ! 0) = 5"
    by (simp add: eq_diff_eq [symmetric])
  from nxt two have "fst (ranges ! 1) = snd (ranges ! 0) + 1"
    by simp
  with l0 have f1: "fst (ranges ! 1) = 6"
    by simp
  with s1 have l1: "snd (ranges ! 1) = 11"
    by (simp add: eq_diff_eq [symmetric])
  have r0: "ranges ! 0 = (0, 5)" and r1: "ranges ! 1 = (6, 11)"
    using first l0 f1 l1 by (simp_all add: prod_eq_iff)
  have "concat (map (\<lambda>j. map (\<lambda>i. ObjectGrpCompList j i [ranges ! i])
                                [0 ..< length (meshPrimitives example_mesh)]) [0 ..< 2]) =
     [ObjectGrpCompList 0 0 [(0, 5)], ObjectGrpCompList 0 1 [(6, 11)],
      ObjectGrpCompList 1 0 [(0, 5)], ObjectGrpCompList 1 1 [(6, 11)]]"
    using r0 r1 by (simp add: two upt_conv_Cons numeral_2_eq_2)
  with out have "writeObjectGroups example_mesh 2 =
     [ObjectGrpCompList 0 0 [(0, 5)], ObjectGrpCompList 0 1 [(6, 11)],
      ObjectGrpCompList 1 0 [(0, 5)], ObjectGrpCompList 1 1 [(6, 11)]]"
    by simp
  moreover have "mGroupIdAssignments example_importer @
        map (\<lambda>i. \<lparr>ga_geometryId = uniqueId example_mesh,
                    ga_geometryInstanceIndex = 1, ga_primitiveIndex = i\<rparr>)
            [0 ..< length (meshPrimitives example_mesh)] =
     [\<lparr>ga_geometryId = 7, ga_geometryInstanceIndex = 1, ga_primitiveIndex = 0\<rparr>,
      \<lparr>ga_geometryId = 7, ga_geometryInstanceIndex = 1, ga_primitiveIndex = 1\<rparr>]"
    by (simp add: two upt_conv_Cons numeral_2_eq_2)
      (simp add: example_importer_def example_mesh_def)
  from trans [OF groups this]
  have "mGroupIdAssignments (createGroupNodes example_mesh 1 example_importer) =
     [\<lparr>ga_geometryId = 7, ga_geometryInstanceIndex = 1, ga_primitiveIndex = 0\<rparr>,
      \<lparr>ga_geometryId = 7, ga_geometryInstanceIndex = 1, ga_primitiveIndex = 1\<rparr>]" .
  ultimately show ?thesis
    using many pos total by blast
qed

text \<open>
  Claim C8. The ranges of the primitives are meant to be contiguous and not to overlap,
  the range of a primitive holding as many face indices as the primitive has grouped
  vertex elements. For a first primitive without any, \<^verbatim>\<open>numFaces-1 + initialFaceIndex\<close>
  is \<open>0 - 1\<close> in \<^verbatim>\<open>size_t\<close>: of the three primitives with 0, 4 and 2 grouped vertex
  elements the first one gets the range from 0 to \<open>2\<^sup>6\<^sup>4 - 1\<close>, which is not empty and
  holds the ranges of the other two.
\<close>

theorem writeObjectGroups_empty_first_primitive:
  "writeObjectGroups example_empty_first 1 =
     [ObjectGrpCompList 0 0 [(0, 18446744073709551615)],
      ObjectGrpCompList 0 1 [(0, 3)],
      ObjectGrpCompList 0 2 [(4, 5)]]"
  by (simp add: writeObjectGroups_def example_empty_first_def example_primitive_def)

subsection \<open>Reading the index lists\<close>

lemma unat_of_nat_size_t: "n < 2 ^ 64 \<Longrightarrow> unat (word_of_nat n :: size_t) = n"
  by (simp add: unat_of_nat)

lemma readPosition_of_nat:
  "n < length ps \<Longrightarrow> length ps < 2 ^ 64 \<Longrightarrow> readPosition ps (word_of_nat n) = Inr (ps ! n)"
  by (simp add: readPosition_def unat_of_nat_size_t)

lemma mapE_Inr: "(\<forall>x \<in> set xs. g x = Inr (h x)) \<Longrightarrow> mapE g xs = Inr (map h xs)"
  by (induction xs) simp_all

lemma word_of_int_take_bit_64: "(word_of_int (take_bit 64 x) :: int32) = word_of_int x"
  by (rule word_of_int_eq_iff [THEN iffD2]) simp

lemma ucast_minus_down32: "(ucast ((a :: size_t) - b) :: int32) = ucast a - ucast b"
proof -
  have "uint (a - b) = take_bit 64 (uint a - uint b)"
    by (simp add: uint_word_ariths take_bit_eq_mod)
  then have "(ucast (a - b) :: int32) = word_of_int (take_bit 64 (uint a - uint b))"
    by (simp only: ucast_eq)
  also have "\<dots> = word_of_int (uint a - uint b)"
    by (rule word_of_int_take_bit_64)
  also have "\<dots> = ucast a - ucast b"
    by (simp only: ucast_eq wi_hom_sub)
  finally show ?thesis .
qed

lemma ucast_diff_down: "(ucast ((ucast (x :: uint32) :: size_t) - y) :: int32) = x - ucast y"
  by (simp add: ucast_minus_down32 ucast_up_ucast_id is_up)

lemma numEdges_unat:
  assumes "3 \<le> k" and "3 * (k - 2) < 2 ^ 32"
  shows "unat ((word_of_nat k - 3) * 3 + 3 :: uint32) = 3 * (k - 2)"
proof -
  from assms obtain n where k: "k = n + 3" by (metis add.commute le_Suc_ex)
  have "(word_of_nat k - 3) * 3 + 3 = (word_of_nat (3 * (k - 2)) :: uint32)"
    by (simp add: k algebra_simps)
  then have "unat ((word_of_nat k - 3) * 3 + 3 :: uint32) = unat (word_of_nat (3 * (k - 2)) :: uint32)"
    by (rule arg_cong)
  also have "\<dots> = 3 * (k - 2)"
    using assms(2) by (simp only: unat_of_nat) simp
  finally show ?thesis .
qed

lemma of_nat_nat_sint: "0 \<le> sint (n :: int32) \<Longrightarrow> word_of_nat (nat (sint n)) = n"
  by (simp add: of_nat_nat)

lemma scast_nonneg:
  assumes "0 \<le> sint (n :: int32)"
  shows "(scast n :: size_t) = word_of_nat (nat (sint n))"
proof -
  have a: "word_of_nat (nat (sint n)) = (word_of_int (sint n) :: size_t)"
    using assms by (rule of_nat_nat)
  have b: "(scast n :: size_t) = word_of_int (sint n)"
    by (rule scast_eq)
  show ?thesis by (rule trans [OF b a [symmetric]])
qed

lemma sliceIndices_eq:
  assumes "0 \<le> sint numEdges"
    and "u + nat (sint numEdges) \<le> length (il_indices indexList)"
    and "length (il_indices indexList) < 2 ^ 64"
  shows "sliceIndices indexList (word_of_nat u) numEdges =
     Inr (map (\<lambda>j. il_indices indexList ! (u + j) - ucast (il_initialIndex indexList))
            [0 ..< nat (sint numEdges)])"
proof -
  have "sliceIndex indexList (word_of_nat u) j =
      Inr (il_indices indexList ! (u + j) - ucast (il_initialIndex indexList))"
    if "j < nat (sint numEdges)" for j
  proof -
    from that assms have less: "j + u < length (il_indices indexList)" by simp
    with assms(3) have "j + u < 2 ^ 64" by simp
    then have "unat (word_of_nat j + word_of_nat u :: size_t) = j + u"
      using unat_of_nat_size_t [of "j + u"] by simp
    with less show ?thesis
      by (simp add: sliceIndex_def ucast_diff_down add.commute)
  qed
  then have "mapE (sliceIndex indexList (word_of_nat u)) [0 ..< nat (sint numEdges)] =
      Inr (map (\<lambda>j. il_indices indexList ! (u + j) - ucast (il_initialIndex indexList))
            [0 ..< nat (sint numEdges)])"
    by (intro mapE_Inr) simp
  with assms(1) show ?thesis
    by (simp add: sliceIndices_def)
qed

lemma setUVSetInfos_eq:
  assumes "0 \<le> sint numEdges"
    and "indicesAvailable (uvCoordIndicesArray primitiveElement) u (nat (sint numEdges))"
  shows "setUVSetInfos mesh primitiveElement face (word_of_nat u) numEdges =
     Inr (face\<lparr>mu := map (sliceMU mesh u (nat (sint numEdges)))
                        (uvCoordIndicesArray primitiveElement)\<rparr>,
          word_of_nat (u + nat (sint numEdges)))"
proof -
  have "(case sliceIndices indexList (word_of_nat u) numEdges of
           Inl e \<Rightarrow> Inl e
         | Inr ids \<Rightarrow>
             Inr \<lparr>uvSet = ucast (getUVSetIndexByName mesh (il_name indexList)),
                  faceUVCount = numEdges, uvIdValue = ids\<rparr>) =
        Inr (sliceMU mesh u (nat (sint numEdges)) indexList)"
    if "indexList \<in> set (uvCoordIndicesArray primitiveElement)" for indexList
  proof -
    from that assms(2)
    have "u + nat (sint numEdges) \<le> length (il_indices indexList)"
      and "length (il_indices indexList) < 2 ^ 64"
      by (simp_all add: indicesAvailable_def list_all_iff)
    with assms(1) show ?thesis
      by (simp add: sliceIndices_eq sliceMU_def of_nat_nat_sint)
  qed
  then have "mapE (\<lambda>indexList.
              case sliceIndices indexList (word_of_nat u) numEdges of
                Inl e \<Rightarrow> Inl e
              | Inr ids \<Rightarrow>
                  Inr \<lparr>uvSet = ucast (getUVSetIndexByName mesh (il_name indexList)),
                       faceUVCount = numEdges, uvIdValue = ids\<rparr>)
            (uvCoordIndicesArray primitiveElement) =
      Inr (map (sliceMU mesh u (nat (sint numEdges))) (uvCoordIndicesArray primitiveElement))"
    by (intro mapE_Inr) simp
  then show ?thesis
    using assms(1) by (simp add: setUVSetInfos_def)
qed

lemma setColorInfos_eq:
  assumes "0 \<le> sint numEdges"
    and "indicesAvailable (colorIndicesArray primitiveElement) c (nat (sint numEdges))"
  shows "setColorInfos mesh primitiveElement face (word_of_nat c) numEdges =
     Inr (face\<lparr>mc := map (sliceMC mesh c (nat (sint numEdges)))
                        (colorIndicesArray primitiveElement)\<rparr>,
          word_of_nat (c + nat (sint numEdges)))"
proof -
  have "(case sliceIndices indexList (word_of_nat c) numEdges of
           Inl e \<Rightarrow> Inl e
         | Inr ids \<Rightarrow>
             Inr \<lparr>colorSet = ucast (getColorIndexByName mesh (il_name indexList)),
                  faceColorCount = numEdges, colorIdValue = ids\<rparr>) =
        Inr (sliceMC mesh c (nat (sint numEdges)) indexList)"
    if "indexList \<in> set (colorIndicesArray primitiveElement)" for indexList
  proof -
    from that assms(2)
    have "c + nat (sint numEdges) \<le> length (il_indices indexList)"
      and "length (il_indices indexList) < 2 ^ 64"
      by (simp_all add: indicesAvailable_def list_all_iff)
    with assms(1) show ?thesis
      by (simp add: sliceIndices_eq sliceMC_def of_nat_nat_sint)
  qed
  then have "mapE (\<lambda>indexList.
              case sliceIndices indexList (word_of_nat c) numEdges of
                Inl e \<Rightarrow> Inl e
              | Inr ids \<Rightarrow>
                  Inr \<lparr>colorSet = ucast (getColorIndexByName mesh (il_name indexList)),
                       faceColorCount = numEdges, colorIdValue = ids\<rparr>)
            (colorIndicesArray primitiveElement) =
      Inr (map (sliceMC mesh c (nat (sint numEdges))) (colorIndicesArray primitiveElement))"
    by (intro mapE_Inr) simp
  then show ?thesis
    using assms(1) by (simp add: setColorInfos_def)
qed

lemma getEdgeIndex_known:
  "edgeKnown m a b \<Longrightarrow> getEdgeIndex (Edge_ctor a b) m = Inr (edgeRef m a b)"
  by (auto simp: edgeKnown_def edgeRef_def getEdgeIndex_def Let_def)

lemma getEdgeIndex_unknown:
  "\<not> edgeKnown m a b \<Longrightarrow> getEdgeIndex (Edge_ctor a b) m = Inl EdgeNotFound"
  by (auto simp: edgeKnown_def getEdgeIndex_def)

subsection \<open>The three edges of a triangle of a fan\<close>

lemma iterateE_add:
  "iterateE (a + b) body s =
     (case iterateE a body s of Inl e \<Rightarrow> Inl e | Inr s' \<Rightarrow> iterateE b body s')"
  by (induction a arbitrary: s) (simp_all split: sum.splits)

lemma iterateE_3:
  "iterateE 3 body s =
     (case body s of Inl e \<Rightarrow> Inl e | Inr s1 \<Rightarrow>
        (case body s1 of Inl e \<Rightarrow> Inl e | Inr s2 \<Rightarrow> body s2))"
  by (simp add: numeral_3_eq_3 split: sum.splits)

lemma replicate_3: "replicate 3 x = [x, x, x]"
  by (simp add: numeral_3_eq_3)

lemma trifansEdge_first:
  assumes "triangleEdgeCounter s = 0"
    and "readPosition (positionIndices prim) (initialPositionIndex s) = Inr a"
    and "readPosition (positionIndices prim) (positionIndex s + 1) = Inr b"
  shows "trifansEdge mesh prim m s =
     (case getEdgeIndex (Edge_ctor a b) m of
        Inl e \<Rightarrow> Inl e
      | Inr r \<Rightarrow>
          Inr (s\<lparr>triangleEdgeCounter := 1, positionIndex := positionIndex s + 1,
                 polyFace := (polyFace s)\<lparr>f_faceEdgeCount := 3, f_edgeIdValue := [r, 0, 0]\<rparr>\<rparr>))"
  using assms
  by (cases "getEdgeIndex (Edge_ctor a b) m") (simp_all add: trifansEdge_def replicate_3)

lemma trifansEdge_second:
  assumes "triangleEdgeCounter s = 1"
    and "readPosition (positionIndices prim) (positionIndex s) = Inr a"
    and "readPosition (positionIndices prim) (positionIndex s + 1) = Inr b"
    and "f_edgeIdValue (polyFace s) = [r1, x, y]"
  shows "trifansEdge mesh prim m s =
     (case getEdgeIndex (Edge_ctor a b) m of
        Inl e \<Rightarrow> Inl e
      | Inr r \<Rightarrow>
          Inr (s\<lparr>triangleEdgeCounter := 2, positionIndex := positionIndex s + 1,
                 polyFace := (polyFace s)\<lparr>f_edgeIdValue := [r1, r, y]\<rparr>\<rparr>))"
  using assms
  by (cases "getEdgeIndex (Edge_ctor a b) m") (simp_all add: trifansEdge_def)

lemma trifansEdge_third:
  assumes "triangleEdgeCounter s = 2"
    and "readPosition (positionIndices prim) (positionIndex s) = Inr a"
    and "readPosition (positionIndices prim) (initialPositionIndex s) = Inr b"
    and "f_edgeIdValue (polyFace s) = [r1, r2, y]"
    and "\<And>face. setUVSetInfos mesh prim face (uvSetIndicesIndex s) 3 =
           Inr (face\<lparr>mu := mus\<rparr>, uvSetIndicesIndex s + 3)"
    and "\<And>face. setColorInfos mesh prim face (colorIndicesIndex s) 3 =
           Inr (face\<lparr>mc := mcs\<rparr>, colorIndicesIndex s + 3)"
  shows "trifansEdge mesh prim m s =
     (case getEdgeIndex (Edge_ctor a b) m of
        Inl e \<Rightarrow> Inl e
      | Inr r \<Rightarrow>
          Inr (s\<lparr>triangleEdgeCounter := 0, positionIndex := positionIndex s - 1,
                 uvSetIndicesIndex := uvSetIndicesIndex s + 1,
                 colorIndicesIndex := colorIndicesIndex s + 1,
                 polyFace := (polyFace s)\<lparr>f_edgeIdValue := [r1, r2, r], mu := mus, mc := mcs\<rparr>,
                 meshFaces := meshFaces s @
                   [(polyFace s)\<lparr>f_edgeIdValue := [r1, r2, r], mu := mus, mc := mcs\<rparr>]\<rparr>))"
  using assms
  by (cases "getEdgeIndex (Edge_ctor a b) m") (simp_all add: trifansEdge_def Let_def add.commute)


lemma trifans_triangle_word:
  assumes counter: "triangleEdgeCounter s = 0"
    and ra: "readPosition (positionIndices prim) (initialPositionIndex s) = Inr a"
    and rb: "readPosition (positionIndices prim) (positionIndex s + 1) = Inr b"
    and rc: "readPosition (positionIndices prim) (positionIndex s + 2) = Inr c"
    and uv: "\<And>face. setUVSetInfos mesh prim face (uvSetIndicesIndex s) 3 =
           Inr (face\<lparr>mu := mus\<rparr>, uvSetIndicesIndex s + 3)"
    and col: "\<And>face. setColorInfos mesh prim face (colorIndicesIndex s) 3 =
           Inr (face\<lparr>mc := mcs\<rparr>, colorIndicesIndex s + 3)"
  shows "iterateE 3 (trifansEdge mesh prim m) s =
     (if edgeKnown m a b \<and> edgeKnown m b c \<and> edgeKnown m c a
      then Inr (s\<lparr>triangleEdgeCounter := 0, positionIndex := positionIndex s + 1,
                 uvSetIndicesIndex := uvSetIndicesIndex s + 1,
                 colorIndicesIndex := colorIndicesIndex s + 1,
                 polyFace := (polyFace s)\<lparr>f_faceEdgeCount := 3,
                   f_edgeIdValue := [edgeRef m a b, edgeRef m b c, edgeRef m c a],
                   mu := mus, mc := mcs\<rparr>,
                 meshFaces := meshFaces s @
                   [(polyFace s)\<lparr>f_faceEdgeCount := 3,
                      f_edgeIdValue := [edgeRef m a b, edgeRef m b c, edgeRef m c a],
                      mu := mus, mc := mcs\<rparr>]\<rparr>)
      else Inl EdgeNotFound)"
proof (cases "edgeKnown m a b")
  case False
  have "trifansEdge mesh prim m s = Inl EdgeNotFound"
    by (simp only: trifansEdge_first [OF counter ra rb] getEdgeIndex_unknown [OF False] sum.case)
  then have "iterateE 3 (trifansEdge mesh prim m) s = Inl EdgeNotFound"
    by (simp only: iterateE_3 sum.case)
  with False show ?thesis
    by simp
next
  case ab: True
  let ?s1 = "s\<lparr>triangleEdgeCounter := 1, positionIndex := positionIndex s + 1,
      polyFace := (polyFace s)\<lparr>f_faceEdgeCount := 3, f_edgeIdValue := [edgeRef m a b, 0, 0]\<rparr>\<rparr>"
  have step1: "trifansEdge mesh prim m s = Inr ?s1"
    by (simp only: trifansEdge_first [OF counter ra rb] getEdgeIndex_known [OF ab] sum.case)
  have c1: "triangleEdgeCounter ?s1 = 1"
    and rb1: "readPosition (positionIndices prim) (positionIndex ?s1) = Inr b"
    and rc1: "readPosition (positionIndices prim) (positionIndex ?s1 + 1) = Inr c"
    and f1: "f_edgeIdValue (polyFace ?s1) = [edgeRef m a b, 0, 0]"
    using rb rc by (simp_all add: add.assoc)
  show ?thesis
  proof (cases "edgeKnown m b c")
    case False
    have "trifansEdge mesh prim m ?s1 = Inl EdgeNotFound"
      by (simp only: trifansEdge_second [OF c1 rb1 rc1 f1] getEdgeIndex_unknown [OF False] sum.case)
    then have "iterateE 3 (trifansEdge mesh prim m) s = Inl EdgeNotFound"
      by (simp only: iterateE_3 step1 sum.case)
    with False show ?thesis
      by simp
  next
    case bc: True
    let ?s2 = "?s1\<lparr>triangleEdgeCounter := 2, positionIndex := positionIndex ?s1 + 1,
      polyFace := (polyFace ?s1)\<lparr>f_edgeIdValue := [edgeRef m a b, edgeRef m b c, 0]\<rparr>\<rparr>"
    have step2: "trifansEdge mesh prim m ?s1 = Inr ?s2"
      by (simp only: trifansEdge_second [OF c1 rb1 rc1 f1] getEdgeIndex_known [OF bc] sum.case)
    have c2: "triangleEdgeCounter ?s2 = 2"
      and rc2: "readPosition (positionIndices prim) (positionIndex ?s2) = Inr c"
      and ra2: "readPosition (positionIndices prim) (initialPositionIndex ?s2) = Inr a"
      and f2: "f_edgeIdValue (polyFace ?s2) = [edgeRef m a b, edgeRef m b c, 0]"
      using ra rc by (simp_all add: add.assoc)
    have uv2: "setUVSetInfos mesh prim face (uvSetIndicesIndex ?s2) 3 =
           Inr (face\<lparr>mu := mus\<rparr>, uvSetIndicesIndex ?s2 + 3)" for face
      using uv [of face] by simp
    have col2: "setColorInfos mesh prim face (colorIndicesIndex ?s2) 3 =
           Inr (face\<lparr>mc := mcs\<rparr>, colorIndicesIndex ?s2 + 3)" for face
      using col [of face] by simp
    note third = trifansEdge_third [OF c2 rc2 ra2 f2 uv2 col2]
    show ?thesis
    proof (cases "edgeKnown m c a")
      case False
      have "trifansEdge mesh prim m ?s2 = Inl EdgeNotFound"
        by (simp only: third getEdgeIndex_unknown [OF False] sum.case)
      then have "iterateE 3 (trifansEdge mesh prim m) s = Inl EdgeNotFound"
        by (simp only: iterateE_3 step1 step2 sum.case)
      with False show ?thesis
        by simp
    next
      case ca: True
      let ?face = "(polyFace s)\<lparr>f_faceEdgeCount := 3,
                   f_edgeIdValue := [edgeRef m a b, edgeRef m b c, edgeRef m c a],
                   mu := mus, mc := mcs\<rparr>"
      let ?s3 = "s\<lparr>triangleEdgeCounter := 0, positionIndex := positionIndex s + 1,
                 uvSetIndicesIndex := uvSetIndicesIndex s + 1,
                 colorIndicesIndex := colorIndicesIndex s + 1,
                 polyFace := ?face, meshFaces := meshFaces s @ [?face]\<rparr>"
      have "trifansEdge mesh prim m ?s2 =
          Inr (?s2\<lparr>triangleEdgeCounter := 0, positionIndex := positionIndex ?s2 - 1,
                 uvSetIndicesIndex := uvSetIndicesIndex ?s2 + 1,
                 colorIndicesIndex := colorIndicesIndex ?s2 + 1,
                 polyFace := (polyFace ?s2)\<lparr>
                   f_edgeIdValue := [edgeRef m a b, edgeRef m b c, edgeRef m c a],
                   mu := mus, mc := mcs\<rparr>,
                 meshFaces := meshFaces ?s2 @
                   [(polyFace ?s2)\<lparr>
                      f_edgeIdValue := [edgeRef m a b, edgeRef m b c, edgeRef m c a],
                      mu := mus, mc := mcs\<rparr>]\<rparr>)"
        by (simp only: third getEdgeIndex_known [OF ca] sum.case)
      also have "\<dots> = Inr ?s3"
        by simp
      finally have step3: "trifansEdge mesh prim m ?s2 = Inr ?s3" .
      have "iterateE 3 (trifansEdge mesh prim m) s = Inr ?s3"
        by (simp only: iterateE_3 step1 step2 step3 sum.case)
      with ab bc ca show ?thesis
        by simp
    qed
  qed
qed

lemma indicesAvailable_mono:
  "indicesAvailable ils u n \<Longrightarrow> u' + n' \<le> u + n \<Longrightarrow> indicesAvailable ils u' n'"
  by (auto simp: indicesAvailable_def list_all_iff)

lemma polyFaces_no_hole:
  "h_holeEdgeCount face = 0 \<Longrightarrow> h_edgeIdValue face = [] \<Longrightarrow>
   face\<lparr>f_faceEdgeCount := n, f_edgeIdValue := es, mu := mus, mc := mcs\<rparr> =
     \<lparr>f_faceEdgeCount = n, f_edgeIdValue = es, h_holeEdgeCount = 0, h_edgeIdValue = [],
      mu = mus, mc = mcs\<rparr>"
  by (cases face) simp

lemma three_int32: "sint (3 :: int32) = 3" "nat (sint (3 :: int32)) = 3"
  by simp_all

lemma setUVSetInfos_3:
  assumes "indicesAvailable (uvCoordIndicesArray prim) u 3"
  shows "setUVSetInfos mesh prim face (word_of_nat u) 3 =
      Inr (face\<lparr>mu := map (sliceMU mesh u 3) (uvCoordIndicesArray prim)\<rparr>, word_of_nat u + 3)"
  using setUVSetInfos_eq [of 3 prim u mesh face] assms by (simp only: three_int32) simp

lemma setColorInfos_3:
  assumes "indicesAvailable (colorIndicesArray prim) c 3"
  shows "setColorInfos mesh prim face (word_of_nat c) 3 =
      Inr (face\<lparr>mc := map (sliceMC mesh c 3) (colorIndicesArray prim)\<rparr>, word_of_nat c + 3)"
  using setColorInfos_eq [of 3 prim c mesh face] assms by (simp only: three_int32) simp

lemma trifans_triangle:
  assumes at: "decoderAt s p b u c"
    and b: "b < length (positionIndices prim)"
    and p: "p + 2 < length (positionIndices prim)"
    and len: "length (positionIndices prim) < 2 ^ 64"
    and uv: "indicesAvailable (uvCoordIndicesArray prim) u 3"
    and col: "indicesAvailable (colorIndicesArray prim) c 3"
  shows "if triangleKnown prim m b (p + 1) (p + 2)
     then \<exists>s'. iterateE 3 (trifansEdge mesh prim m) s = Inr s' \<and>
            decoderAt s' (p + 1) b (u + 1) (c + 1) \<and>
            meshFaces s' = meshFaces s @ [triangleFace mesh prim m b (p + 1) (p + 2) u c]
     else iterateE 3 (trifansEdge mesh prim m) s = Inl EdgeNotFound"
proof -
  let ?ps = "positionIndices prim"
  let ?mus = "map (sliceMU mesh u 3) (uvCoordIndicesArray prim)"
  let ?mcs = "map (sliceMC mesh c 3) (colorIndicesArray prim)"
  from at have counter: "triangleEdgeCounter s = 0"
    and pos: "positionIndex s = word_of_nat p"
    and init: "initialPositionIndex s = word_of_nat b"
    and uvi: "uvSetIndicesIndex s = word_of_nat u"
    and coli: "colorIndicesIndex s = word_of_nat c"
    and hole: "h_holeEdgeCount (polyFace s) = 0" "h_edgeIdValue (polyFace s) = []"
    by (simp_all add: decoderAt_def)
  have ra: "readPosition ?ps (initialPositionIndex s) = Inr (?ps ! b)"
    using b len by (simp only: init readPosition_of_nat)
  have e1: "positionIndex s + 1 = word_of_nat (p + 1)"
    and e2: "positionIndex s + 2 = word_of_nat (p + 2)"
    by (simp_all add: pos)
  have rb: "readPosition ?ps (positionIndex s + 1) = Inr (?ps ! (p + 1))"
    unfolding e1 using p len by (intro readPosition_of_nat) simp_all
  have rc: "readPosition ?ps (positionIndex s + 2) = Inr (?ps ! (p + 2))"
    unfolding e2 using p len by (intro readPosition_of_nat)
  have uvs: "setUVSetInfos mesh prim face (uvSetIndicesIndex s) 3 =
      Inr (face\<lparr>mu := ?mus\<rparr>, uvSetIndicesIndex s + 3)" for face
    by (simp only: uvi setUVSetInfos_3 [OF uv])
  have cols: "setColorInfos mesh prim face (colorIndicesIndex s) 3 =
      Inr (face\<lparr>mc := ?mcs\<rparr>, colorIndicesIndex s + 3)" for face
    by (simp only: coli setColorInfos_3 [OF col])
  note run = trifans_triangle_word [OF counter ra rb rc uvs cols, of m]
  have known: "triangleKnown prim m b (p + 1) (p + 2) \<longleftrightarrow>
      edgeKnown m (?ps ! b) (?ps ! (p + 1)) \<and> edgeKnown m (?ps ! (p + 1)) (?ps ! (p + 2)) \<and>
      edgeKnown m (?ps ! (p + 2)) (?ps ! b)"
    by (simp add: triangleKnown_def Let_def)
  show ?thesis
  proof (cases "triangleKnown prim m b (p + 1) (p + 2)")
    case False
    with run known have "iterateE 3 (trifansEdge mesh prim m) s = Inl EdgeNotFound"
      by simp
    with False show ?thesis by simp
  next
    case True
    let ?face = "(polyFace s)\<lparr>f_faceEdgeCount := 3,
        f_edgeIdValue := [edgeRef m (?ps ! b) (?ps ! (p + 1)),
          edgeRef m (?ps ! (p + 1)) (?ps ! (p + 2)), edgeRef m (?ps ! (p + 2)) (?ps ! b)],
        mu := ?mus, mc := ?mcs\<rparr>"
    let ?s' = "s\<lparr>triangleEdgeCounter := 0, positionIndex := positionIndex s + 1,
        uvSetIndicesIndex := uvSetIndicesIndex s + 1,
        colorIndicesIndex := colorIndicesIndex s + 1,
        polyFace := ?face, meshFaces := meshFaces s @ [?face]\<rparr>"
    from True run known have r: "iterateE 3 (trifansEdge mesh prim m) s = Inr ?s'"
      by simp
    have face: "?face = triangleFace mesh prim m b (p + 1) (p + 2) u c"
      by (simp add: polyFaces_no_hole [OF hole] triangleFace_def Let_def)
    have "decoderAt ?s' (p + 1) b (u + 1) (c + 1)"
      using hole by (simp add: decoderAt_def pos init uvi coli)
    moreover have "meshFaces ?s' = meshFaces s @ [triangleFace mesh prim m b (p + 1) (p + 2) u c]"
      using face by simp
    ultimately show ?thesis
      using True r by auto
  qed
qed


lemma map_upt_Suc_shift: "map f [0 ..< Suc n] = f 0 # map (\<lambda>i. f (Suc i)) [0 ..< n]"
  by (simp add: upt_conv_Cons map_Suc_upt [symmetric] comp_def del: upt_Suc)

lemma trifans_triangles:
  assumes "decoderAt s p b u c"
    and "b < length (positionIndices prim)"
    and "p + n + 2 \<le> length (positionIndices prim)"
    and "length (positionIndices prim) < 2 ^ 64"
    and "indicesAvailable (uvCoordIndicesArray prim) u (n + 2)"
    and "indicesAvailable (colorIndicesArray prim) c (n + 2)"
  shows "if (\<forall>i<n. triangleKnown prim m b (p + i + 1) (p + i + 2))
     then \<exists>s'. iterateE (3 * n) (trifansEdge mesh prim m) s = Inr s' \<and>
            decoderAt s' (p + n) b (u + n) (c + n) \<and>
            meshFaces s' = meshFaces s @
              map (\<lambda>i. triangleFace mesh prim m b (p + i + 1) (p + i + 2) (u + i) (c + i))
                [0 ..< n]
     else iterateE (3 * n) (trifansEdge mesh prim m) s = Inl EdgeNotFound"
  using assms
proof (induction n arbitrary: s p u c)
  case 0
  then show ?case by simp
next
  case (Suc n)
  let ?body = "trifansEdge mesh prim m"
  let ?known = "\<lambda>p i. triangleKnown prim m b (p + i + 1) (p + i + 2)"
  let ?face = "\<lambda>p u c i. triangleFace mesh prim m b (p + i + 1) (p + i + 2) (u + i) (c + i)"
  have split: "iterateE (3 * Suc n) ?body s =
      (case iterateE 3 ?body s of Inl e \<Rightarrow> Inl e | Inr s' \<Rightarrow> iterateE (3 * n) ?body s')"
    using iterateE_add [of 3 "3 * n" ?body s] by simp
  have all: "(\<forall>i<Suc n. ?known p i) \<longleftrightarrow>
      triangleKnown prim m b (p + 1) (p + 2) \<and> (\<forall>i<n. ?known (p + 1) i)"
    by (auto simp: less_Suc_eq_0_disj)
  have first: "if triangleKnown prim m b (p + 1) (p + 2)
     then \<exists>s'. iterateE 3 ?body s = Inr s' \<and> decoderAt s' (p + 1) b (u + 1) (c + 1) \<and>
            meshFaces s' = meshFaces s @ [triangleFace mesh prim m b (p + 1) (p + 2) u c]
     else iterateE 3 ?body s = Inl EdgeNotFound"
    using Suc.prems
    by (intro trifans_triangle) (auto elim: indicesAvailable_mono)
  show ?case
  proof (cases "triangleKnown prim m b (p + 1) (p + 2)")
    case False
    with first have "iterateE 3 ?body s = Inl EdgeNotFound" by simp
    then have "iterateE (3 * Suc n) ?body s = Inl EdgeNotFound"
      by (simp only: split sum.case)
    moreover from False all have "\<not> (\<forall>i<Suc n. ?known p i)"
      by blast
    ultimately show ?thesis by simp
  next
    case True
    with first obtain s1 where run1: "iterateE 3 ?body s = Inr s1"
      and at1: "decoderAt s1 (p + 1) b (u + 1) (c + 1)"
      and faces1: "meshFaces s1 = meshFaces s @ [triangleFace mesh prim m b (p + 1) (p + 2) u c]"
      by auto
    have rest: "if (\<forall>i<n. ?known (p + 1) i)
       then \<exists>s'. iterateE (3 * n) ?body s1 = Inr s' \<and>
            decoderAt s' (p + 1 + n) b (u + 1 + n) (c + 1 + n) \<and>
            meshFaces s' = meshFaces s1 @ map (?face (p + 1) (u + 1) (c + 1)) [0 ..< n]
       else iterateE (3 * n) ?body s1 = Inl EdgeNotFound"
      using at1 Suc.prems(2-)
      by (intro Suc.IH) (auto elim: indicesAvailable_mono)
    have split1: "iterateE (3 * Suc n) ?body s = iterateE (3 * n) ?body s1"
      by (simp only: split run1 sum.case)
    show ?thesis
    proof (cases "\<forall>i<n. ?known (p + 1) i")
      case False
      with rest have "iterateE (3 * n) ?body s1 = Inl EdgeNotFound" by simp
      moreover from False all have "\<not> (\<forall>i<Suc n. ?known p i)"
        by blast
      ultimately show ?thesis
        by (simp only: split1) simp
    next
      case rest_known: True
      with rest obtain s' where run: "iterateE (3 * n) ?body s1 = Inr s'"
        and at': "decoderAt s' (p + 1 + n) b (u + 1 + n) (c + 1 + n)"
        and faces': "meshFaces s' = meshFaces s1 @ map (?face (p + 1) (u + 1) (c + 1)) [0 ..< n]"
        by auto
      have "map (?face p u c) [0 ..< Suc n] =
          triangleFace mesh prim m b (p + 1) (p + 2) u c # map (?face (p + 1) (u + 1) (c + 1)) [0 ..< n]"
        by (simp add: map_upt_Suc_shift del: upt_Suc)
      with faces' faces1 have "meshFaces s' = meshFaces s @ map (?face p u c) [0 ..< Suc n]"
        by simp
      moreover from at' have "decoderAt s' (p + Suc n) b (u + Suc n) (c + Suc n)"
        by simp
      moreover from True rest_known all have "\<forall>i<Suc n. ?known p i"
        by blast
      ultimately show ?thesis
        using run by (simp only: split1) auto
    qed
  qed
qed

lemma ucast_uint32_size_t: "(ucast (w :: uint32) :: size_t) = word_of_nat (unat w)"
  by simp

lemma trifansGroup_eq:
  assumes k3: "3 \<le> unat vertexCount"
    and small: "3 * (unat vertexCount - 2) < 2 ^ 32"
    and pos: "positionIndex s = word_of_nat b"
    and init: "initialPositionIndex s = word_of_nat b"
    and uvi: "uvSetIndicesIndex s = word_of_nat u"
    and coli: "colorIndicesIndex s = word_of_nat c"
    and range: "b + unat vertexCount \<le> length (positionIndices prim)"
    and len: "length (positionIndices prim) < 2 ^ 64"
    and uv: "indicesAvailable (uvCoordIndicesArray prim) u (unat vertexCount)"
    and col: "indicesAvailable (colorIndicesArray prim) c (unat vertexCount)"
  shows "if (\<forall>i < unat vertexCount - 2. triangleKnown prim m b (b + i + 1) (b + i + 2))
     then \<exists>s'. trifansGroup mesh prim m s vertexCount = Inr s' \<and>
            positionIndex s' = word_of_nat (b + unat vertexCount) \<and>
            initialPositionIndex s' = word_of_nat (b + unat vertexCount) \<and>
            uvSetIndicesIndex s' = word_of_nat (u + unat vertexCount) \<and>
            colorIndicesIndex s' = word_of_nat (c + unat vertexCount) \<and>
            meshFaces s' = meshFaces s @
              map (\<lambda>i. triangleFace mesh prim m b (b + i + 1) (b + i + 2) (u + i) (c + i))
                [0 ..< unat vertexCount - 2]
     else trifansGroup mesh prim m s vertexCount = Inl EdgeNotFound"
proof -
  let ?k = "unat vertexCount"
  let ?n = "?k - 2"
  let ?s0 = "s\<lparr>polyFace := polyFaces_default, triangleEdgeCounter := 0\<rparr>"
  let ?body = "trifansEdge mesh prim m"
  have "unat ((word_of_nat ?k - 3) * 3 + 3 :: uint32) = 3 * ?n"
    using k3 small by (rule numEdges_unat)
  then have edges: "unat ((vertexCount - 3) * 3 + 3) = 3 * ?n"
    by simp
  have group: "trifansGroup mesh prim m s vertexCount =
     (case iterateE (3 * ?n) ?body ?s0 of
        Inl e \<Rightarrow> Inl e
      | Inr s' \<Rightarrow>
          Inr (s'\<lparr>positionIndex := positionIndex s' + 2,
                  initialPositionIndex := initialPositionIndex s' + ucast vertexCount,
                  uvSetIndicesIndex := uvSetIndicesIndex s' + 2,
                  colorIndicesIndex := colorIndicesIndex s' + 2\<rparr>))"
    by (simp only: trifansGroup_def Let_def edges)
  have at0: "decoderAt ?s0 b b u c"
    by (simp add: decoderAt_def pos init uvi coli polyFaces_default_def)
  have n2: "?n + 2 = ?k"
    using k3 by simp
  have triangles: "if (\<forall>i<?n. triangleKnown prim m b (b + i + 1) (b + i + 2))
     then \<exists>s'. iterateE (3 * ?n) ?body ?s0 = Inr s' \<and>
            decoderAt s' (b + ?n) b (u + ?n) (c + ?n) \<and>
            meshFaces s' = meshFaces ?s0 @
              map (\<lambda>i. triangleFace mesh prim m b (b + i + 1) (b + i + 2) (u + i) (c + i))
                [0 ..< ?n]
     else iterateE (3 * ?n) ?body ?s0 = Inl EdgeNotFound"
  proof (rule trifans_triangles [OF at0])
    show "b < length (positionIndices prim)"
      using k3 range by simp
    show "b + ?n + 2 \<le> length (positionIndices prim)"
      using k3 range by simp
    show "length (positionIndices prim) < 2 ^ 64"
      by (rule len)
    show "indicesAvailable (uvCoordIndicesArray prim) u (?n + 2)"
      using uv by (simp only: n2)
    show "indicesAvailable (colorIndicesArray prim) c (?n + 2)"
      using col by (simp only: n2)
  qed
  show ?thesis
  proof (cases "\<forall>i<?n. triangleKnown prim m b (b + i + 1) (b + i + 2)")
    case False
    with triangles have "iterateE (3 * ?n) ?body ?s0 = Inl EdgeNotFound"
      by simp
    then have "trifansGroup mesh prim m s vertexCount = Inl EdgeNotFound"
      by (simp only: group sum.case)
    with False show ?thesis by simp
  next
    case True
    with triangles obtain s1 where run: "iterateE (3 * ?n) ?body ?s0 = Inr s1"
      and at1: "decoderAt s1 (b + ?n) b (u + ?n) (c + ?n)"
      and faces: "meshFaces s1 = meshFaces ?s0 @
              map (\<lambda>i. triangleFace mesh prim m b (b + i + 1) (b + i + 2) (u + i) (c + i))
                [0 ..< ?n]"
      by auto
    let ?s' = "s1\<lparr>positionIndex := positionIndex s1 + 2,
                  initialPositionIndex := initialPositionIndex s1 + ucast vertexCount,
                  uvSetIndicesIndex := uvSetIndicesIndex s1 + 2,
                  colorIndicesIndex := colorIndicesIndex s1 + 2\<rparr>"
    have result: "trifansGroup mesh prim m s vertexCount = Inr ?s'"
      by (simp only: group run sum.case)
    have two: "(word_of_nat (x + ?n) :: size_t) + 2 = word_of_nat (x + ?k)" for x
      using n2 by (metis add.assoc of_nat_add of_nat_numeral)
    have whole: "(word_of_nat b :: size_t) + ucast vertexCount = word_of_nat (b + ?k)"
      by simp
    from at1 have "positionIndex s1 + 2 = word_of_nat (b + ?k)"
      and "initialPositionIndex s1 + ucast vertexCount = word_of_nat (b + ?k)"
      and "uvSetIndicesIndex s1 + 2 = word_of_nat (u + ?k)"
      and "colorIndicesIndex s1 + 2 = word_of_nat (c + ?k)"
      by (simp_all only: decoderAt_def two whole)
    then have "positionIndex ?s' = word_of_nat (b + ?k)"
      and "initialPositionIndex ?s' = word_of_nat (b + ?k)"
      and "uvSetIndicesIndex ?s' = word_of_nat (u + ?k)"
      and "colorIndicesIndex ?s' = word_of_nat (c + ?k)"
      by simp_all
    moreover have "meshFaces ?s' = meshFaces s @
              map (\<lambda>i. triangleFace mesh prim m b (b + i + 1) (b + i + 2) (u + i) (c + i))
                [0 ..< ?n]"
      using faces by simp
    ultimately show ?thesis
      using True result by auto
  qed
qed

subsection \<open>The three edges of a triangle of a strip\<close>

lemma tristripsEdge_first:
  assumes "triangleEdgeCounter s = 0"
    and "readPosition (positionIndices prim) (positionIndex s) = Inr a"
    and "readPosition (positionIndices prim) (positionIndex s + 1) = Inr b"
  shows "tristripsEdge mesh prim m s =
     (case getEdgeIndex (Edge_ctor a b) m of
        Inl e \<Rightarrow> Inl e
      | Inr r \<Rightarrow>
          Inr (s\<lparr>triangleEdgeCounter := 1, positionIndex := positionIndex s + 1,
                 polyFace := (polyFace s)\<lparr>f_faceEdgeCount := 3, f_edgeIdValue := [r, 0, 0]\<rparr>\<rparr>))"
  using assms
  by (cases "getEdgeIndex (Edge_ctor a b) m") (simp_all add: tristripsEdge_def replicate_3)

lemma tristripsEdge_second:
  assumes "triangleEdgeCounter s = 1"
    and "readPosition (positionIndices prim) (positionIndex s) = Inr a"
    and "readPosition (positionIndices prim) (positionIndex s + 1) = Inr b"
    and "f_edgeIdValue (polyFace s) = [r1, x, y]"
  shows "tristripsEdge mesh prim m s =
     (case getEdgeIndex (Edge_ctor a b) m of
        Inl e \<Rightarrow> Inl e
      | Inr r \<Rightarrow>
          Inr (s\<lparr>triangleEdgeCounter := 2, positionIndex := positionIndex s + 1,
                 polyFace := (polyFace s)\<lparr>f_edgeIdValue := [r1, r, y]\<rparr>\<rparr>))"
  using assms
  by (cases "getEdgeIndex (Edge_ctor a b) m") (simp_all add: tristripsEdge_def)

lemma tristripsEdge_third:
  assumes "triangleEdgeCounter s = 2"
    and "readPosition (positionIndices prim) (positionIndex s) = Inr a"
    and "readPosition (positionIndices prim) (initialPositionIndex s) = Inr b"
    and "f_edgeIdValue (polyFace s) = [r1, r2, y]"
    and "\<And>face. setUVSetInfos mesh prim face (uvSetIndicesIndex s) 3 =
           Inr (face\<lparr>mu := mus\<rparr>, uvSetIndicesIndex s + 3)"
    and "\<And>face. setColorInfos mesh prim face (colorIndicesIndex s) 3 =
           Inr (face\<lparr>mc := mcs\<rparr>, colorIndicesIndex s + 3)"
  shows "tristripsEdge mesh prim m s =
     (case getEdgeIndex (Edge_ctor a b) m of
        Inl e \<Rightarrow> Inl e
      | Inr r \<Rightarrow>
          Inr (s\<lparr>triangleEdgeCounter := 0, positionIndex := positionIndex s - 1,
                 initialPositionIndex := positionIndex s - 1,
                 uvSetIndicesIndex := uvSetIndicesIndex s + 1,
                 colorIndicesIndex := colorIndicesIndex s + 1,
                 polyFace := (polyFace s)\<lparr>f_edgeIdValue := [r1, r2, r], mu := mus, mc := mcs\<rparr>,
                 meshFaces := meshFaces s @
                   [(polyFace s)\<lparr>f_edgeIdValue := [r1, r2, r], mu := mus, mc := mcs\<rparr>]\<rparr>))"
  using assms
  by (cases "getEdgeIndex (Edge_ctor a b) m") (simp_all add: tristripsEdge_def Let_def add.commute)

lemma tristrips_triangle_word:
  assumes counter: "triangleEdgeCounter s = 0"
    and ra: "readPosition (positionIndices prim) (positionIndex s) = Inr a"
    and rb: "readPosition (positionIndices prim) (positionIndex s + 1) = Inr b"
    and rc: "readPosition (positionIndices prim) (positionIndex s + 2) = Inr c"
    and rd: "readPosition (positionIndices prim) (initialPositionIndex s) = Inr d"
    and uv: "\<And>face. setUVSetInfos mesh prim face (uvSetIndicesIndex s) 3 =
           Inr (face\<lparr>mu := mus\<rparr>, uvSetIndicesIndex s + 3)"
    and col: "\<And>face. setColorInfos mesh prim face (colorIndicesIndex s) 3 =
           Inr (face\<lparr>mc := mcs\<rparr>, colorIndicesIndex s + 3)"
  shows "iterateE 3 (tristripsEdge mesh prim m) s =
     (if edgeKnown m a b \<and> edgeKnown m b c \<and> edgeKnown m c d
      then Inr (s\<lparr>triangleEdgeCounter := 0, positionIndex := positionIndex s + 1,
                 initialPositionIndex := positionIndex s + 1,
                 uvSetIndicesIndex := uvSetIndicesIndex s + 1,
                 colorIndicesIndex := colorIndicesIndex s + 1,
                 polyFace := (polyFace s)\<lparr>f_faceEdgeCount := 3,
                   f_edgeIdValue := [edgeRef m a b, edgeRef m b c, edgeRef m c d],
                   mu := mus, mc := mcs\<rparr>,
                 meshFaces := meshFaces s @
                   [(polyFace s)\<lparr>f_faceEdgeCount := 3,
                      f_edgeIdValue := [edgeRef m a b, edgeRef m b c, edgeRef m c d],
                      mu := mus, mc := mcs\<rparr>]\<rparr>)
      else Inl EdgeNotFound)"
proof (cases "edgeKnown m a b")
  case False
  have "tristripsEdge mesh prim m s = Inl EdgeNotFound"
    by (simp only: tristripsEdge_first [OF counter ra rb] getEdgeIndex_unknown [OF False] sum.case)
  then have "iterateE 3 (tristripsEdge mesh prim m) s = Inl EdgeNotFound"
    by (simp only: iterateE_3 sum.case)
  with False show ?thesis
    by simp
next
  case ab: True
  let ?s1 = "s\<lparr>triangleEdgeCounter := 1, positionIndex := positionIndex s + 1,
      polyFace := (polyFace s)\<lparr>f_faceEdgeCount := 3, f_edgeIdValue := [edgeRef m a b, 0, 0]\<rparr>\<rparr>"
  have step1: "tristripsEdge mesh prim m s = Inr ?s1"
    by (simp only: tristripsEdge_first [OF counter ra rb] getEdgeIndex_known [OF ab] sum.case)
  have c1: "triangleEdgeCounter ?s1 = 1"
    and rb1: "readPosition (positionIndices prim) (positionIndex ?s1) = Inr b"
    and rc1: "readPosition (positionIndices prim) (positionIndex ?s1 + 1) = Inr c"
    and f1: "f_edgeIdValue (polyFace ?s1) = [edgeRef m a b, 0, 0]"
    using rb rc by (simp_all add: add.assoc)
  show ?thesis
  proof (cases "edgeKnown m b c")
    case False
    have "tristripsEdge mesh prim m ?s1 = Inl EdgeNotFound"
      by (simp only: tristripsEdge_second [OF c1 rb1 rc1 f1] getEdgeIndex_unknown [OF False] sum.case)
    then have "iterateE 3 (tristripsEdge mesh prim m) s = Inl EdgeNotFound"
      by (simp only: iterateE_3 step1 sum.case)
    with False show ?thesis
      by simp
  next
    case bc: True
    let ?s2 = "?s1\<lparr>triangleEdgeCounter := 2, positionIndex := positionIndex ?s1 + 1,
      polyFace := (polyFace ?s1)\<lparr>f_edgeIdValue := [edgeRef m a b, edgeRef m b c, 0]\<rparr>\<rparr>"
    have step2: "tristripsEdge mesh prim m ?s1 = Inr ?s2"
      by (simp only: tristripsEdge_second [OF c1 rb1 rc1 f1] getEdgeIndex_known [OF bc] sum.case)
    have c2: "triangleEdgeCounter ?s2 = 2"
      and rc2: "readPosition (positionIndices prim) (positionIndex ?s2) = Inr c"
      and rd2: "readPosition (positionIndices prim) (initialPositionIndex ?s2) = Inr d"
      and f2: "f_edgeIdValue (polyFace ?s2) = [edgeRef m a b, edgeRef m b c, 0]"
      using rd rc by (simp_all add: add.assoc)
    have uv2: "setUVSetInfos mesh prim face (uvSetIndicesIndex ?s2) 3 =
           Inr (face\<lparr>mu := mus\<rparr>, uvSetIndicesIndex ?s2 + 3)" for face
      using uv [of face] by simp
    have col2: "setColorInfos mesh prim face (colorIndicesIndex ?s2) 3 =
           Inr (face\<lparr>mc := mcs\<rparr>, colorIndicesIndex ?s2 + 3)" for face
      using col [of face] by simp
    note third = tristripsEdge_third [OF c2 rc2 rd2 f2 uv2 col2]
    show ?thesis
    proof (cases "edgeKnown m c d")
      case False
      have "tristripsEdge mesh prim m ?s2 = Inl EdgeNotFound"
        by (simp only: third getEdgeIndex_unknown [OF False] sum.case)
      then have "iterateE 3 (tristripsEdge mesh prim m) s = Inl EdgeNotFound"
        by (simp only: iterateE_3 step1 step2 sum.case)
      with False show ?thesis
        by simp
    next
      case cd: True
      let ?face = "(polyFace s)\<lparr>f_faceEdgeCount := 3,
                   f_edgeIdValue := [edgeRef m a b, edgeRef m b c, edgeRef m c d],
                   mu := mus, mc := mcs\<rparr>"
      let ?s3 = "s\<lparr>triangleEdgeCounter := 0, positionIndex := positionIndex s + 1,
                 initialPositionIndex := positionIndex s + 1,
                 uvSetIndicesIndex := uvSetIndicesIndex s + 1,
                 colorIndicesIndex := colorIndicesIndex s + 1,
                 polyFace := ?face, meshFaces := meshFaces s @ [?face]\<rparr>"
      have "tristripsEdge mesh prim m ?s2 =
          Inr (?s2\<lparr>triangleEdgeCounter := 0, positionIndex := positionIndex ?s2 - 1,
                 initialPositionIndex := positionIndex ?s2 - 1,
                 uvSetIndicesIndex := uvSetIndicesIndex ?s2 + 1,
                 colorIndicesIndex := colorIndicesIndex ?s2 + 1,
                 polyFace := (polyFace ?s2)\<lparr>
                   f_edgeIdValue := [edgeRef m a b, edgeRef m b c, edgeRef m c d],
                   mu := mus, mc := mcs\<rparr>,
                 meshFaces := meshFaces ?s2 @
                   [(polyFace ?s2)\<lparr>
                      f_edgeIdValue := [edgeRef m a b, edgeRef m b c, edgeRef m c d],
                      mu := mus, mc := mcs\<rparr>]\<rparr>)"
        by (simp only: third getEdgeIndex_known [OF cd] sum.case)
      also have "\<dots> = Inr ?s3"
        by simp
      finally have step3: "tristripsEdge mesh prim m ?s2 = Inr ?s3" .
      have "iterateE 3 (tristripsEdge mesh prim m) s = Inr ?s3"
        by (simp only: iterateE_3 step1 step2 step3 sum.case)
      with ab bc cd show ?thesis
        by simp
    qed
  qed
qed

lemma tristrips_triangle:
  assumes at: "decoderAt s p p u c"
    and p: "p + 2 < length (positionIndices prim)"
    and len: "length (positionIndices prim) < 2 ^ 64"
    and uv: "indicesAvailable (uvCoordIndicesArray prim) u 3"
    and col: "indicesAvailable (colorIndicesArray prim) c 3"
  shows "if triangleKnown prim m p (p + 1) (p + 2)
     then \<exists>s'. iterateE 3 (tristripsEdge mesh prim m) s = Inr s' \<and>
            decoderAt s' (p + 1) (p + 1) (u + 1) (c + 1) \<and>
            meshFaces s' = meshFaces s @ [triangleFace mesh prim m p (p + 1) (p + 2) u c]
     else iterateE 3 (tristripsEdge mesh prim m) s = Inl EdgeNotFound"
proof -
  let ?ps = "positionIndices prim"
  let ?mus = "map (sliceMU mesh u 3) (uvCoordIndicesArray prim)"
  let ?mcs = "map (sliceMC mesh c 3) (colorIndicesArray prim)"
  from at have counter: "triangleEdgeCounter s = 0"
    and pos: "positionIndex s = word_of_nat p"
    and init: "initialPositionIndex s = word_of_nat p"
    and uvi: "uvSetIndicesIndex s = word_of_nat u"
    and coli: "colorIndicesIndex s = word_of_nat c"
    and hole: "h_holeEdgeCount (polyFace s) = 0" "h_edgeIdValue (polyFace s) = []"
    by (simp_all add: decoderAt_def)
  have p0: "p < length ?ps"
    using p by simp
  have ra: "readPosition ?ps (positionIndex s) = Inr (?ps ! p)"
    using p0 len by (simp only: pos readPosition_of_nat)
  have rd: "readPosition ?ps (initialPositionIndex s) = Inr (?ps ! p)"
    using p0 len by (simp only: init readPosition_of_nat)
  have e1: "positionIndex s + 1 = word_of_nat (p + 1)"
    and e2: "positionIndex s + 2 = word_of_nat (p + 2)"
    by (simp_all add: pos)
  have rb: "readPosition ?ps (positionIndex s + 1) = Inr (?ps ! (p + 1))"
    unfolding e1 using p len by (intro readPosition_of_nat) simp_all
  have rc: "readPosition ?ps (positionIndex s + 2) = Inr (?ps ! (p + 2))"
    unfolding e2 using p len by (intro readPosition_of_nat)
  have uvs: "setUVSetInfos mesh prim face (uvSetIndicesIndex s) 3 =
      Inr (face\<lparr>mu := ?mus\<rparr>, uvSetIndicesIndex s + 3)" for face
    by (simp only: uvi setUVSetInfos_3 [OF uv])
  have cols: "setColorInfos mesh prim face (colorIndicesIndex s) 3 =
      Inr (face\<lparr>mc := ?mcs\<rparr>, colorIndicesIndex s + 3)" for face
    by (simp only: coli setColorInfos_3 [OF col])
  note run = tristrips_triangle_word [OF counter ra rb rc rd uvs cols, of m]
  have known: "triangleKnown prim m p (p + 1) (p + 2) \<longleftrightarrow>
      edgeKnown m (?ps ! p) (?ps ! (p + 1)) \<and> edgeKnown m (?ps ! (p + 1)) (?ps ! (p + 2)) \<and>
      edgeKnown m (?ps ! (p + 2)) (?ps ! p)"
    by (simp add: triangleKnown_def Let_def)
  show ?thesis
  proof (cases "triangleKnown prim m p (p + 1) (p + 2)")
    case False
    with run known have "iterateE 3 (tristripsEdge mesh prim m) s = Inl EdgeNotFound"
      by simp
    with False show ?thesis by simp
  next
    case True
    let ?face = "(polyFace s)\<lparr>f_faceEdgeCount := 3,
        f_edgeIdValue := [edgeRef m (?ps ! p) (?ps ! (p + 1)),
          edgeRef m (?ps ! (p + 1)) (?ps ! (p + 2)), edgeRef m (?ps ! (p + 2)) (?ps ! p)],
        mu := ?mus, mc := ?mcs\<rparr>"
    let ?s' = "s\<lparr>triangleEdgeCounter := 0, positionIndex := positionIndex s + 1,
        initialPositionIndex := positionIndex s + 1,
        uvSetIndicesIndex := uvSetIndicesIndex s + 1,
        colorIndicesIndex := colorIndicesIndex s + 1,
        polyFace := ?face, meshFaces := meshFaces s @ [?face]\<rparr>"
    from True run known have r: "iterateE 3 (tristripsEdge mesh prim m) s = Inr ?s'"
      by simp
    have face: "?face = triangleFace mesh prim m p (p + 1) (p + 2) u c"
      by (simp add: polyFaces_no_hole [OF hole] triangleFace_def Let_def)
    have "decoderAt ?s' (p + 1) (p + 1) (u + 1) (c + 1)"
      using hole by (simp add: decoderAt_def pos init uvi coli)
    moreover have "meshFaces ?s' = meshFaces s @ [triangleFace mesh prim m p (p + 1) (p + 2) u c]"
      using face by simp
    ultimately show ?thesis
      using True r by auto
  qed
qed

lemma tristrips_triangles:
  assumes "decoderAt s p p u c"
    and "p + n + 2 \<le> length (positionIndices prim)"
    and "length (positionIndices prim) < 2 ^ 64"
    and "indicesAvailable (uvCoordIndicesArray prim) u (n + 2)"
    and "indicesAvailable (colorIndicesArray prim) c (n + 2)"
  shows "if (\<forall>i<n. triangleKnown prim m (p + i) (p + i + 1) (p + i + 2))
     then \<exists>s'. iterateE (3 * n) (tristripsEdge mesh prim m) s = Inr s' \<and>
            decoderAt s' (p + n) (p + n) (u + n) (c + n) \<and>
            meshFaces s' = meshFaces s @
              map (\<lambda>i. triangleFace mesh prim m (p + i) (p + i + 1) (p + i + 2) (u + i) (c + i))
                [0 ..< n]
     else iterateE (3 * n) (tristripsEdge mesh prim m) s = Inl EdgeNotFound"
  using assms
proof (induction n arbitrary: s p u c)
  case 0
  then show ?case by simp
next
  case (Suc n)
  let ?body = "tristripsEdge mesh prim m"
  let ?known = "\<lambda>p i. triangleKnown prim m (p + i) (p + i + 1) (p + i + 2)"
  let ?face = "\<lambda>p u c i. triangleFace mesh prim m (p + i) (p + i + 1) (p + i + 2) (u + i) (c + i)"
  have split: "iterateE (3 * Suc n) ?body s =
      (case iterateE 3 ?body s of Inl e \<Rightarrow> Inl e | Inr s' \<Rightarrow> iterateE (3 * n) ?body s')"
    using iterateE_add [of 3 "3 * n" ?body s] by simp
  have all: "(\<forall>i<Suc n. ?known p i) \<longleftrightarrow>
      triangleKnown prim m p (p + 1) (p + 2) \<and> (\<forall>i<n. ?known (p + 1) i)"
    by (auto simp: less_Suc_eq_0_disj)
  have first: "if triangleKnown prim m p (p + 1) (p + 2)
     then \<exists>s'. iterateE 3 ?body s = Inr s' \<and> decoderAt s' (p + 1) (p + 1) (u + 1) (c + 1) \<and>
            meshFaces s' = meshFaces s @ [triangleFace mesh prim m p (p + 1) (p + 2) u c]
     else iterateE 3 ?body s = Inl EdgeNotFound"
    using Suc.prems
    by (intro tristrips_triangle) (auto elim: indicesAvailable_mono)
  show ?case
  proof (cases "triangleKnown prim m p (p + 1) (p + 2)")
    case False
    with first have "iterateE 3 ?body s = Inl EdgeNotFound" by simp
    then have "iterateE (3 * Suc n) ?body s = Inl EdgeNotFound"
      by (simp only: split sum.case)
    moreover from False all have "\<not> (\<forall>i<Suc n. ?known p i)"
      by blast
    ultimately show ?thesis by simp
  next
    case True
    with first obtain s1 where run1: "iterateE 3 ?body s = Inr s1"
      and at1: "decoderAt s1 (p + 1) (p + 1) (u + 1) (c + 1)"
      and faces1: "meshFaces s1 = meshFaces s @ [triangleFace mesh prim m p (p + 1) (p + 2) u c]"
      by auto
    have rest: "if (\<forall>i<n. ?known (p + 1) i)
       then \<exists>s'. iterateE (3 * n) ?body s1 = Inr s' \<and>
            decoderAt s' (p + 1 + n) (p + 1 + n) (u + 1 + n) (c + 1 + n) \<and>
            meshFaces s' = meshFaces s1 @ map (?face (p + 1) (u + 1) (c + 1)) [0 ..< n]
       else iterateE (3 * n) ?body s1 = Inl EdgeNotFound"
      using at1 Suc.prems(2-)
      by (intro Suc.IH) (auto elim: indicesAvailable_mono)
    have split1: "iterateE (3 * Suc n) ?body s = iterateE (3 * n) ?body s1"
      by (simp only: split run1 sum.case)
    show ?thesis
    proof (cases "\<forall>i<n. ?known (p + 1) i")
      case False
      with rest have "iterateE (3 * n) ?body s1 = Inl EdgeNotFound" by simp
      moreover from False all have "\<not> (\<forall>i<Suc n. ?known p i)"
        by blast
      ultimately show ?thesis
        by (simp only: split1) simp
    next
      case rest_known: True
      with rest obtain s' where run: "iterateE (3 * n) ?body s1 = Inr s'"
        and at': "decoderAt s' (p + 1 + n) (p + 1 + n) (u + 1 + n) (c + 1 + n)"
        and faces': "meshFaces s' = meshFaces s1 @ map (?face (p + 1) (u + 1) (c + 1)) [0 ..< n]"
        by auto
      have "map (?face p u c) [0 ..< Suc n] =
          triangleFace mesh prim m p (p + 1) (p + 2) u c # map (?face (p + 1) (u + 1) (c + 1)) [0 ..< n]"
        by (simp add: map_upt_Suc_shift del: upt_Suc)
      with faces' faces1 have "meshFaces s' = meshFaces s @ map (?face p u c) [0 ..< Suc n]"
        by simp
      moreover from at' have "decoderAt s' (p + Suc n) (p + Suc n) (u + Suc n) (c + Suc n)"
        by simp
      moreover from True rest_known all have "\<forall>i<Suc n. ?known p i"
        by blast
      ultimately show ?thesis
        using run by (simp only: split1) auto
    qed
  qed
qed

lemma tristripsGroup_eq:
  assumes k3: "3 \<le> unat vertexCount"
    and small: "3 * (unat vertexCount - 2) < 2 ^ 32"
    and pos: "positionIndex s = word_of_nat b"
    and init: "initialPositionIndex s = word_of_nat b"
    and uvi: "uvSetIndicesIndex s = word_of_nat u"
    and coli: "colorIndicesIndex s = word_of_nat c"
    and range: "b + unat vertexCount \<le> length (positionIndices prim)"
    and len: "length (positionIndices prim) < 2 ^ 64"
    and uv: "indicesAvailable (uvCoordIndicesArray prim) u (unat vertexCount)"
    and col: "indicesAvailable (colorIndicesArray prim) c (unat vertexCount)"
  shows "if (\<forall>i < unat vertexCount - 2. triangleKnown prim m (b + i) (b + i + 1) (b + i + 2))
     then \<exists>s'. tristripsGroup mesh prim m s vertexCount = Inr s' \<and>
            positionIndex s' = word_of_nat (b + unat vertexCount) \<and>
            initialPositionIndex s' = word_of_nat (b + unat vertexCount) \<and>
            uvSetIndicesIndex s' = word_of_nat (u + (unat vertexCount - 2)) - 2 \<and>
            colorIndicesIndex s' = word_of_nat (c + (unat vertexCount - 2)) - 2 \<and>
            meshFaces s' = meshFaces s @
              map (\<lambda>i. triangleFace mesh prim m (b + i) (b + i + 1) (b + i + 2) (u + i) (c + i))
                [0 ..< unat vertexCount - 2]
     else tristripsGroup mesh prim m s vertexCount = Inl EdgeNotFound"
proof -
  let ?k = "unat vertexCount"
  let ?n = "?k - 2"
  let ?s0 = "s\<lparr>polyFace := polyFaces_default, triangleEdgeCounter := 0\<rparr>"
  let ?body = "tristripsEdge mesh prim m"
  have "unat ((word_of_nat ?k - 3) * 3 + 3 :: uint32) = 3 * ?n"
    using k3 small by (rule numEdges_unat)
  then have edges: "unat ((vertexCount - 3) * 3 + 3) = 3 * ?n"
    by simp
  have group: "tristripsGroup mesh prim m s vertexCount =
     (case iterateE (3 * ?n) ?body ?s0 of
        Inl e \<Rightarrow> Inl e
      | Inr s' \<Rightarrow>
          Inr (s'\<lparr>positionIndex := positionIndex s' + 2,
                  initialPositionIndex := positionIndex s' + 2,
                  uvSetIndicesIndex := uvSetIndicesIndex s' - 2,
                  colorIndicesIndex := colorIndicesIndex s' - 2\<rparr>))"
    by (simp only: tristripsGroup_def Let_def edges)
  have at0: "decoderAt ?s0 b b u c"
    by (simp add: decoderAt_def pos init uvi coli polyFaces_default_def)
  have n2: "?n + 2 = ?k"
    using k3 by simp
  have triangles: "if (\<forall>i<?n. triangleKnown prim m (b + i) (b + i + 1) (b + i + 2))
     then \<exists>s'. iterateE (3 * ?n) ?body ?s0 = Inr s' \<and>
            decoderAt s' (b + ?n) (b + ?n) (u + ?n) (c + ?n) \<and>
            meshFaces s' = meshFaces ?s0 @
              map (\<lambda>i. triangleFace mesh prim m (b + i) (b + i + 1) (b + i + 2) (u + i) (c + i))
                [0 ..< ?n]
     else iterateE (3 * ?n) ?body ?s0 = Inl EdgeNotFound"
  proof (rule tristrips_triangles [OF at0])
    show "b + ?n + 2 \<le> length (positionIndices prim)"
      using k3 range by simp
    show "length (positionIndices prim) < 2 ^ 64"
      by (rule len)
    show "indicesAvailable (uvCoordIndicesArray prim) u (?n + 2)"
      using uv by (simp only: n2)
    show "indicesAvailable (colorIndicesArray prim) c (?n + 2)"
      using col by (simp only: n2)
  qed
  show ?thesis
  proof (cases "\<forall>i<?n. triangleKnown prim m (b + i) (b + i + 1) (b + i + 2)")
    case False
    with triangles have "iterateE (3 * ?n) ?body ?s0 = Inl EdgeNotFound"
      by simp
    then have "tristripsGroup mesh prim m s vertexCount = Inl EdgeNotFound"
      by (simp only: group sum.case)
    with False show ?thesis by simp
  next
    case True
    with triangles obtain s1 where run: "iterateE (3 * ?n) ?body ?s0 = Inr s1"
      and at1: "decoderAt s1 (b + ?n) (b + ?n) (u + ?n) (c + ?n)"
      and faces: "meshFaces s1 = meshFaces ?s0 @
              map (\<lambda>i. triangleFace mesh prim m (b + i) (b + i + 1) (b + i + 2) (u + i) (c + i))
                [0 ..< ?n]"
      by auto
    let ?s' = "s1\<lparr>positionIndex := positionIndex s1 + 2,
                  initialPositionIndex := positionIndex s1 + 2,
                  uvSetIndicesIndex := uvSetIndicesIndex s1 - 2,
                  colorIndicesIndex := colorIndicesIndex s1 - 2\<rparr>"
    have result: "tristripsGroup mesh prim m s vertexCount = Inr ?s'"
      by (simp only: group run sum.case)
    have two: "(word_of_nat (x + ?n) :: size_t) + 2 = word_of_nat (x + ?k)" for x
      using n2 by (metis add.assoc of_nat_add of_nat_numeral)
    from at1 have "positionIndex s1 + 2 = word_of_nat (b + ?k)"
      and "uvSetIndicesIndex s1 - 2 = word_of_nat (u + ?n) - 2"
      and "colorIndicesIndex s1 - 2 = word_of_nat (c + ?n) - 2"
      by (simp_all only: decoderAt_def two)
    then have "positionIndex ?s' = word_of_nat (b + ?k)"
      and "initialPositionIndex ?s' = word_of_nat (b + ?k)"
      and "uvSetIndicesIndex ?s' = word_of_nat (u + ?n) - 2"
      and "colorIndicesIndex ?s' = word_of_nat (c + ?n) - 2"
      by simp_all
    moreover have "meshFaces ?s' = meshFaces s @
              map (\<lambda>i. triangleFace mesh prim m (b + i) (b + i + 1) (b + i + 2) (u + i) (c + i))
                [0 ..< ?n]"
      using faces by simp
    ultimately show ?thesis
      using True result by auto
  qed
qed

subsection \<open>Fan and strip primitives\<close>

lemma list_all_upt: "list_all P [0 ..< n] \<longleftrightarrow> (\<forall>i<n. P i)"
  by (auto simp: list_all_iff)

lemma trifansGroup_faces:
  assumes "groupSize vertexCount"
    and "positionIndex s = word_of_nat b"
    and "initialPositionIndex s = word_of_nat b"
    and "uvSetIndicesIndex s = word_of_nat u"
    and "colorIndicesIndex s = word_of_nat c"
    and "b + unat vertexCount \<le> length (positionIndices prim)"
    and "length (positionIndices prim) < 2 ^ 64"
    and "indicesAvailable (uvCoordIndicesArray prim) u (unat vertexCount)"
    and "indicesAvailable (colorIndicesArray prim) c (unat vertexCount)"
  shows "if fanKnown prim m b (unat vertexCount)
     then \<exists>s'. trifansGroup mesh prim m s vertexCount = Inr s' \<and>
            positionIndex s' = word_of_nat (b + unat vertexCount) \<and>
            initialPositionIndex s' = word_of_nat (b + unat vertexCount) \<and>
            uvSetIndicesIndex s' = word_of_nat (u + unat vertexCount) \<and>
            colorIndicesIndex s' = word_of_nat (c + unat vertexCount) \<and>
            meshFaces s' = meshFaces s @ fanTriangles mesh prim m b u c (unat vertexCount)
     else trifansGroup mesh prim m s vertexCount = Inl EdgeNotFound"
  using trifansGroup_eq [of vertexCount s b u c prim m mesh] assms
  unfolding fanKnown_def fanTriangles_def list_all_upt groupSize_def
  by blast

lemma trifans_groups:
  assumes "list_all groupSize groups"
    and "positionIndex s = word_of_nat b"
    and "initialPositionIndex s = word_of_nat b"
    and "uvSetIndicesIndex s = word_of_nat b"
    and "colorIndicesIndex s = word_of_nat b"
    and "b + sum_list (map unat groups) \<le> length (positionIndices prim)"
    and "length (positionIndices prim) < 2 ^ 64"
    and "indicesAvailable (uvCoordIndicesArray prim) b (sum_list (map unat groups))"
    and "indicesAvailable (colorIndicesArray prim) b (sum_list (map unat groups))"
  shows "if fansKnown prim m b (map unat groups)
     then \<exists>s'. foldE (trifansGroup mesh prim m) s groups = Inr s' \<and>
            meshFaces s' = meshFaces s @ fanFaces mesh prim m b (map unat groups)
     else foldE (trifansGroup mesh prim m) s groups = Inl EdgeNotFound"
  using assms
proof (induction groups arbitrary: s b)
  case Nil
  show ?case by simp
next
  case (Cons k ks)
  let ?rest = "sum_list (map unat ks)"
  have first: "if fanKnown prim m b (unat k)
     then \<exists>s'. trifansGroup mesh prim m s k = Inr s' \<and>
            positionIndex s' = word_of_nat (b + unat k) \<and>
            initialPositionIndex s' = word_of_nat (b + unat k) \<and>
            uvSetIndicesIndex s' = word_of_nat (b + unat k) \<and>
            colorIndicesIndex s' = word_of_nat (b + unat k) \<and>
            meshFaces s' = meshFaces s @ fanTriangles mesh prim m b b b (unat k)
     else trifansGroup mesh prim m s k = Inl EdgeNotFound"
    using Cons.prems
    by (intro trifansGroup_faces) (auto elim: indicesAvailable_mono)
  show ?case
  proof (cases "fanKnown prim m b (unat k)")
    case False
    with first have "trifansGroup mesh prim m s k = Inl EdgeNotFound" by simp
    with False show ?thesis by simp
  next
    case True
    with first obtain s1 where run1: "trifansGroup mesh prim m s k = Inr s1"
      and pos1: "positionIndex s1 = word_of_nat (b + unat k)"
      and init1: "initialPositionIndex s1 = word_of_nat (b + unat k)"
      and uv1: "uvSetIndicesIndex s1 = word_of_nat (b + unat k)"
      and col1: "colorIndicesIndex s1 = word_of_nat (b + unat k)"
      and faces1: "meshFaces s1 = meshFaces s @ fanTriangles mesh prim m b b b (unat k)"
      by auto
    have rest: "if fansKnown prim m (b + unat k) (map unat ks)
       then \<exists>s'. foldE (trifansGroup mesh prim m) s1 ks = Inr s' \<and>
              meshFaces s' = meshFaces s1 @ fanFaces mesh prim m (b + unat k) (map unat ks)
       else foldE (trifansGroup mesh prim m) s1 ks = Inl EdgeNotFound"
      using Cons.prems pos1 init1 uv1 col1
      by (intro Cons.IH) (auto elim: indicesAvailable_mono simp: add.assoc)
    show ?thesis
      using True run1 faces1 rest by (auto split: if_splits)
  qed
qed

lemma fanTriangles_nth:
  assumes "i < k - 2"
  shows "fanTriangles mesh prim m b u c k ! i =
      triangleFace mesh prim m b (b + i + 1) (b + i + 2) (u + i) (c + i)"
  using assms by (simp add: fanTriangles_def)

lemma appendTrifansPolyFaces_eq:
  assumes "list_all groupSize (groupedVerticesVertexCountArray prim)"
    and "sum_list (map unat (groupedVerticesVertexCountArray prim)) \<le> length (positionIndices prim)"
    and "length (positionIndices prim) < 2 ^ 64"
    and "indicesAvailable (uvCoordIndicesArray prim) 0
           (sum_list (map unat (groupedVerticesVertexCountArray prim)))"
    and "indicesAvailable (colorIndicesArray prim) 0
           (sum_list (map unat (groupedVerticesVertexCountArray prim)))"
  shows "appendTrifansPolyFaces mesh prim m meshNode =
     (if fansKnown prim m 0 (map unat (groupedVerticesVertexCountArray prim))
      then Inr (meshNode @ fanFaces mesh prim m 0 (map unat (groupedVerticesVertexCountArray prim)))
      else Inl EdgeNotFound)"
proof -
  let ?groups = "groupedVerticesVertexCountArray prim"
  have "if fansKnown prim m 0 (map unat ?groups)
     then \<exists>s'. foldE (trifansGroup mesh prim m) (Decoder_init meshNode) ?groups = Inr s' \<and>
            meshFaces s' = meshFaces (Decoder_init meshNode) @ fanFaces mesh prim m 0 (map unat ?groups)
     else foldE (trifansGroup mesh prim m) (Decoder_init meshNode) ?groups = Inl EdgeNotFound"
    using assms by (intro trifans_groups) (simp_all add: Decoder_init_def)
  then show ?thesis
    by (auto simp: appendTrifansPolyFaces_def Decoder_init_def)
qed

text \<open>
  Claim C4. A fan primitive whose groups have at least three vertices each (and
  triangles of fewer than \<open>2\<^sup>3\<^sup>2\<close> edges in all, the range of the edge counter), whose
  position indices and index lists hold one entry for each vertex of each group, and
  whose triangles have their edges in the map, is decoded into the faces \<open>fanFaces\<close>:
  for each group of \<open>k\<close> vertices, in the order of the groups, \<open>k - 2\<close> faces; face
  \<open>i\<close> (counted from 0) of a group that starts at the position \<open>b\<close> has three edges,
  namely the references of the edges from \<open>v\<^sub>b\<close> to \<open>v\<^sub>b\<^sub>+\<^sub>i\<^sub>+\<^sub>1\<close>, from \<open>v\<^sub>b\<^sub>+\<^sub>i\<^sub>+\<^sub>1\<close> to
  \<open>v\<^sub>b\<^sub>+\<^sub>i\<^sub>+\<^sub>2\<close> and from \<open>v\<^sub>b\<^sub>+\<^sub>i\<^sub>+\<^sub>2\<close> back to \<open>v\<^sub>b\<close>, and no hole.
\<close>

theorem appendTrifansPolyFaces_triangles:
  assumes "list_all groupSize (groupedVerticesVertexCountArray prim)"
    and "sum_list (map unat (groupedVerticesVertexCountArray prim)) \<le> length (positionIndices prim)"
    and "length (positionIndices prim) < 2 ^ 64"
    and "indicesAvailable (uvCoordIndicesArray prim) 0
           (sum_list (map unat (groupedVerticesVertexCountArray prim)))"
    and "indicesAvailable (colorIndicesArray prim) 0
           (sum_list (map unat (groupedVerticesVertexCountArray prim)))"
    and "fansKnown prim m 0 (map unat (groupedVerticesVertexCountArray prim))"
  shows "appendTrifansPolyFaces mesh prim m meshNode =
      Inr (meshNode @ fanFaces mesh prim m 0 (map unat (groupedVerticesVertexCountArray prim))) \<and>
    (\<forall>b u c k. length (fanTriangles mesh prim m b u c k) = k - 2 \<and>
       (\<forall>i < k - 2.
          f_faceEdgeCount (fanTriangles mesh prim m b u c k ! i) = 3 \<and>
          f_edgeIdValue (fanTriangles mesh prim m b u c k ! i) =
            [edgeRef m (positionIndices prim ! b) (positionIndices prim ! (b + i + 1)),
             edgeRef m (positionIndices prim ! (b + i + 1)) (positionIndices prim ! (b + i + 2)),
             edgeRef m (positionIndices prim ! (b + i + 2)) (positionIndices prim ! b)] \<and>
          h_holeEdgeCount (fanTriangles mesh prim m b u c k ! i) = 0 \<and>
          h_edgeIdValue (fanTriangles mesh prim m b u c k ! i) = []))"
proof
  let ?groups = "groupedVerticesVertexCountArray prim"
  have init: "positionIndex (Decoder_init meshNode) = word_of_nat 0"
    "initialPositionIndex (Decoder_init meshNode) = word_of_nat 0"
    "uvSetIndicesIndex (Decoder_init meshNode) = word_of_nat 0"
    "colorIndicesIndex (Decoder_init meshNode) = word_of_nat 0"
    "meshFaces (Decoder_init meshNode) = meshNode"
    by (simp_all add: Decoder_init_def)
  have "if fansKnown prim m 0 (map unat ?groups)
     then \<exists>s'. foldE (trifansGroup mesh prim m) (Decoder_init meshNode) ?groups = Inr s' \<and>
            meshFaces s' = meshFaces (Decoder_init meshNode) @ fanFaces mesh prim m 0 (map unat ?groups)
     else foldE (trifansGroup mesh prim m) (Decoder_init meshNode) ?groups = Inl EdgeNotFound"
    using assms(1-5) init(1-4) by (intro trifans_groups) simp_all
  with assms(6) obtain s' where
    "foldE (trifansGroup mesh prim m) (Decoder_init meshNode) ?groups = Inr s'"
    and "meshFaces s' = meshNode @ fanFaces mesh prim m 0 (map unat ?groups)"
    using init(5) by auto
  then show "appendTrifansPolyFaces mesh prim m meshNode =
      Inr (meshNode @ fanFaces mesh prim m 0 (map unat ?groups))"
    by (simp add: appendTrifansPolyFaces_def)
next
  show "\<forall>b u c k. length (fanTriangles mesh prim m b u c k) = k - 2 \<and>
       (\<forall>i < k - 2.
          f_faceEdgeCount (fanTriangles mesh prim m b u c k ! i) = 3 \<and>
          f_edgeIdValue (fanTriangles mesh prim m b u c k ! i) =
            [edgeRef m (positionIndices prim ! b) (positionIndices prim ! (b + i + 1)),
             edgeRef m (positionIndices prim ! (b + i + 1)) (positionIndices prim ! (b + i + 2)),
             edgeRef m (positionIndices prim ! (b + i + 2)) (positionIndices prim ! b)] \<and>
          h_holeEdgeCount (fanTriangles mesh prim m b u c k ! i) = 0 \<and>
          h_edgeIdValue (fanTriangles mesh prim m b u c k ! i) = [])"
    by (simp add: fanTriangles_nth triangleFace_def Let_def) (simp add: fanTriangles_def)
qed

lemma upt_3: "[0 ..< 3] = [0, 1, 2]"
  by (simp add: upt_conv_Cons numeral_3_eq_3)

theorem appendTrifansPolyFaces_triangles_witness:
  "list_all groupSize (groupedVerticesVertexCountArray example_fan) \<and>
   sum_list (map unat (groupedVerticesVertexCountArray example_fan)) \<le>
     length (positionIndices example_fan) \<and>
   length (positionIndices example_fan) < 2 ^ 64 \<and>
   indicesAvailable (uvCoordIndicesArray example_fan) 0
     (sum_list (map unat (groupedVerticesVertexCountArray example_fan))) \<and>
   indicesAvailable (colorIndicesArray example_fan) 0
     (sum_list (map unat (groupedVerticesVertexCountArray example_fan))) \<and>
   fansKnown example_fan example_fan_map 0 (map unat (groupedVerticesVertexCountArray example_fan)) \<and>
   appendTrifansPolyFaces example_mesh example_fan example_fan_map [] =
     Inr [\<lparr>f_faceEdgeCount = 3, f_edgeIdValue = [0, 1, - 3], h_holeEdgeCount = 0, h_edgeIdValue = [],
           mu = [\<lparr>uvSet = 0, faceUVCount = 3, uvIdValue = [0, 1, 2]\<rparr>], mc = []\<rparr>,
          \<lparr>f_faceEdgeCount = 3, f_edgeIdValue = [2, 3, - 5], h_holeEdgeCount = 0, h_edgeIdValue = [],
           mu = [\<lparr>uvSet = 0, faceUVCount = 3, uvIdValue = [1, 2, 3]\<rparr>], mc = []\<rparr>,
          \<lparr>f_faceEdgeCount = 3, f_edgeIdValue = [4, 5, - 7], h_holeEdgeCount = 0, h_edgeIdValue = [],
           mu = [\<lparr>uvSet = 0, faceUVCount = 3, uvIdValue = [2, 3, 4]\<rparr>], mc = []\<rparr>]"
proof -
  have groups: "groupedVerticesVertexCountArray example_fan = [5]"
    and positions: "positionIndices example_fan = [0, 1, 2, 3, 4]"
    by (simp_all add: example_fan_def)
  have size: "list_all groupSize (groupedVerticesVertexCountArray example_fan)"
    by (simp add: groups groupSize_def)
  have total: "sum_list (map unat (groupedVerticesVertexCountArray example_fan)) = 5"
    by (simp add: groups)
  have uv: "indicesAvailable (uvCoordIndicesArray example_fan) 0 5"
    and col: "indicesAvailable (colorIndicesArray example_fan) 0 5"
    by (simp_all add: example_fan_def indicesAvailable_def)
  have known: "fansKnown example_fan example_fan_map 0 (map unat (groupedVerticesVertexCountArray example_fan))"
    by (simp add: groups fanKnown_def upt_3 triangleKnown_def positions edgeKnown_def
        Edge_ctor_def example_fan_map_def)
  have faces: "fanFaces example_mesh example_fan example_fan_map 0
      (map unat (groupedVerticesVertexCountArray example_fan)) =
     [\<lparr>f_faceEdgeCount = 3, f_edgeIdValue = [0, 1, - 3], h_holeEdgeCount = 0, h_edgeIdValue = [],
           mu = [\<lparr>uvSet = 0, faceUVCount = 3, uvIdValue = [0, 1, 2]\<rparr>], mc = []\<rparr>,
          \<lparr>f_faceEdgeCount = 3, f_edgeIdValue = [2, 3, - 5], h_holeEdgeCount = 0, h_edgeIdValue = [],
           mu = [\<lparr>uvSet = 0, faceUVCount = 3, uvIdValue = [1, 2, 3]\<rparr>], mc = []\<rparr>,
          \<lparr>f_faceEdgeCount = 3, f_edgeIdValue = [4, 5, - 7], h_holeEdgeCount = 0, h_edgeIdValue = [],
           mu = [\<lparr>uvSet = 0, faceUVCount = 3, uvIdValue = [2, 3, 4]\<rparr>], mc = []\<rparr>]"
    by (simp add: groups fanTriangles_def upt_3 triangleFace_def positions edgeRef_def
        getEdgeIndex_def isReverse_def Edge_ctor_def example_fan_map_def sliceMU_def
        example_fan_def example_mesh_def)
  from appendTrifansPolyFaces_triangles [of example_fan example_fan_map example_mesh "[]"]
    size total uv col known positions
  have "appendTrifansPolyFaces example_mesh example_fan example_fan_map [] =
      Inr ([] @ fanFaces example_mesh example_fan example_fan_map 0
        (map unat (groupedVerticesVertexCountArray example_fan)))"
    by simp
  with faces size total uv col known positions show ?thesis
    by simp
qed

lemma tristripsGroup_faces:
  assumes "groupSize vertexCount"
    and "positionIndex s = word_of_nat b"
    and "initialPositionIndex s = word_of_nat b"
    and "uvSetIndicesIndex s = word_of_nat u"
    and "colorIndicesIndex s = word_of_nat c"
    and "b + unat vertexCount \<le> length (positionIndices prim)"
    and "length (positionIndices prim) < 2 ^ 64"
    and "indicesAvailable (uvCoordIndicesArray prim) u (unat vertexCount)"
    and "indicesAvailable (colorIndicesArray prim) c (unat vertexCount)"
  shows "if stripKnown prim m b (unat vertexCount)
     then \<exists>s'. tristripsGroup mesh prim m s vertexCount = Inr s' \<and>
            positionIndex s' = word_of_nat (b + unat vertexCount) \<and>
            initialPositionIndex s' = word_of_nat (b + unat vertexCount) \<and>
            uvSetIndicesIndex s' = word_of_nat (u + (unat vertexCount - 2)) - 2 \<and>
            colorIndicesIndex s' = word_of_nat (c + (unat vertexCount - 2)) - 2 \<and>
            meshFaces s' = meshFaces s @ stripTriangles mesh prim m b u c (unat vertexCount)
     else tristripsGroup mesh prim m s vertexCount = Inl EdgeNotFound"
  using tristripsGroup_eq [of vertexCount s b u c prim m mesh] assms
  unfolding stripKnown_def stripTriangles_def list_all_upt groupSize_def
  by blast

lemma tristripsEdge_third_fail:
  assumes "triangleEdgeCounter s = 2"
    and "readPosition (positionIndices prim) (positionIndex s) = Inr a"
    and "readPosition (positionIndices prim) (initialPositionIndex s) = Inr b"
    and "f_edgeIdValue (polyFace s) = [r1, r2, y]"
    and "edgeKnown m a b"
    and "\<And>face. setUVSetInfos mesh prim face (uvSetIndicesIndex s) 3 = Inl e"
  shows "tristripsEdge mesh prim m s = Inl e"
  using assms(1-4,6) getEdgeIndex_known [OF assms(5)]
  by (simp add: tristripsEdge_def Let_def)

lemma tristrips_triangle_fail:
  assumes counter: "triangleEdgeCounter s = 0"
    and ra: "readPosition (positionIndices prim) (positionIndex s) = Inr a"
    and rb: "readPosition (positionIndices prim) (positionIndex s + 1) = Inr b"
    and rc: "readPosition (positionIndices prim) (positionIndex s + 2) = Inr c"
    and rd: "readPosition (positionIndices prim) (initialPositionIndex s) = Inr d"
    and ab: "edgeKnown m a b" and bc: "edgeKnown m b c" and cd: "edgeKnown m c d"
    and uv: "\<And>face. setUVSetInfos mesh prim face (uvSetIndicesIndex s) 3 = Inl e"
  shows "iterateE 3 (tristripsEdge mesh prim m) s = Inl e"
proof -
  let ?s1 = "s\<lparr>triangleEdgeCounter := 1, positionIndex := positionIndex s + 1,
      polyFace := (polyFace s)\<lparr>f_faceEdgeCount := 3, f_edgeIdValue := [edgeRef m a b, 0, 0]\<rparr>\<rparr>"
  have step1: "tristripsEdge mesh prim m s = Inr ?s1"
    by (simp only: tristripsEdge_first [OF counter ra rb] getEdgeIndex_known [OF ab] sum.case)
  have c1: "triangleEdgeCounter ?s1 = 1"
    and rb1: "readPosition (positionIndices prim) (positionIndex ?s1) = Inr b"
    and rc1: "readPosition (positionIndices prim) (positionIndex ?s1 + 1) = Inr c"
    and f1: "f_edgeIdValue (polyFace ?s1) = [edgeRef m a b, 0, 0]"
    using rb rc by (simp_all add: add.assoc)
  let ?s2 = "?s1\<lparr>triangleEdgeCounter := 2, positionIndex := positionIndex ?s1 + 1,
      polyFace := (polyFace ?s1)\<lparr>f_edgeIdValue := [edgeRef m a b, edgeRef m b c, 0]\<rparr>\<rparr>"
  have step2: "tristripsEdge mesh prim m ?s1 = Inr ?s2"
    by (simp only: tristripsEdge_second [OF c1 rb1 rc1 f1] getEdgeIndex_known [OF bc] sum.case)
  have c2: "triangleEdgeCounter ?s2 = 2"
    and rc2: "readPosition (positionIndices prim) (positionIndex ?s2) = Inr c"
    and rd2: "readPosition (positionIndices prim) (initialPositionIndex ?s2) = Inr d"
    and f2: "f_edgeIdValue (polyFace ?s2) = [edgeRef m a b, edgeRef m b c, 0]"
    using rd rc by (simp_all add: add.assoc)
  have uv2: "setUVSetInfos mesh prim face (uvSetIndicesIndex ?s2) 3 = Inl e" for face
    using uv [of face] by simp
  have step3: "tristripsEdge mesh prim m ?s2 = Inl e"
    using c2 rc2 rd2 f2 cd uv2 by (rule tristripsEdge_third_fail)
  show ?thesis
    by (simp only: iterateE_3 step1 step2 step3 sum.case)
qed

lemma unat_minus_one_size_t: "unat (- 1 :: size_t) = 18446744073709551615"
  by (simp add: unsigned_minus_1_eq_mask mask_eq_exp_minus_1)

lemma example_strips_cursor:
  "setUVSetInfos mesh example_strips face (- 1) 3 = Inl IndexOutOfRange"
  by (simp add: setUVSetInfos_def sliceIndices_def sliceIndex_def example_strips_def upt_3
      Let_def unat_minus_one_size_t)

lemma example_strips_decoding:
  "map_sum id uvSetIndicesIndex
     (tristripsGroup mesh example_strips example_strips_map (Decoder_init []) 3) =
     Inr (- 1) \<and>
   appendTristripsPolyFaces mesh example_strips example_strips_map [] = Inl IndexOutOfRange"
proof -
  let ?ps = "positionIndices example_strips"
  let ?body = "tristripsGroup mesh example_strips example_strips_map"
  have positions: "?ps = [0, 1, 2, 3, 4, 5]"
    and groups: "groupedVerticesVertexCountArray example_strips = [3, 3]"
    by (simp_all add: example_strips_def)
  have known: "edgeKnown example_strips_map 0 1" "edgeKnown example_strips_map 1 2"
    "edgeKnown example_strips_map 2 0" "edgeKnown example_strips_map 3 4"
    "edgeKnown example_strips_map 4 5" "edgeKnown example_strips_map 5 3"
    by (simp_all add: edgeKnown_def Edge_ctor_def example_strips_map_def)
  have "if stripKnown example_strips example_strips_map 0 (unat (3 :: uint32))
     then \<exists>s'. ?body (Decoder_init []) 3 = Inr s' \<and>
            positionIndex s' = word_of_nat (0 + unat (3 :: uint32)) \<and>
            initialPositionIndex s' = word_of_nat (0 + unat (3 :: uint32)) \<and>
            uvSetIndicesIndex s' = word_of_nat (0 + (unat (3 :: uint32) - 2)) - 2 \<and>
            colorIndicesIndex s' = word_of_nat (0 + (unat (3 :: uint32) - 2)) - 2 \<and>
            meshFaces s' = meshFaces (Decoder_init []) @
              stripTriangles mesh example_strips example_strips_map 0 0 0 (unat (3 :: uint32))
     else ?body (Decoder_init []) 3 = Inl EdgeNotFound"
    by (rule tristripsGroup_faces)
      (simp_all add: groupSize_def Decoder_init_def positions indicesAvailable_def example_strips_def)
  moreover have "stripKnown example_strips example_strips_map 0 (unat (3 :: uint32))"
    using known by (simp add: stripKnown_def triangleKnown_def positions)
  ultimately obtain s1 where first: "?body (Decoder_init []) 3 = Inr s1"
    and pos: "positionIndex s1 = 3"
    and init: "initialPositionIndex s1 = 3"
    and uv: "uvSetIndicesIndex s1 = word_of_nat (0 + (unat (3 :: uint32) - 2)) - 2"
    by auto
  from uv have cursor: "uvSetIndicesIndex s1 = - 1"
    by simp
  let ?s = "s1\<lparr>polyFace := polyFaces_default, triangleEdgeCounter := 0\<rparr>"
  have "iterateE 3 (tristripsEdge mesh example_strips example_strips_map) ?s =
      Inl IndexOutOfRange"
  proof (rule tristrips_triangle_fail)
    show "triangleEdgeCounter ?s = 0"
      by simp
    show "readPosition ?ps (positionIndex ?s) = Inr 3"
      and "readPosition ?ps (positionIndex ?s + 1) = Inr 4"
      and "readPosition ?ps (positionIndex ?s + 2) = Inr 5"
      and "readPosition ?ps (initialPositionIndex ?s) = Inr 3"
      by (simp_all add: pos init positions readPosition_def)
    show "edgeKnown example_strips_map 3 4" "edgeKnown example_strips_map 4 5"
      "edgeKnown example_strips_map 5 3"
      by (rule known)+
    show "setUVSetInfos mesh example_strips face (uvSetIndicesIndex ?s) 3 =
        Inl IndexOutOfRange" for face
      using example_strips_cursor [of mesh face] cursor by simp
  qed
  then have second: "?body s1 3 = Inl IndexOutOfRange"
    by (simp add: tristripsGroup_def)
  have "map_sum id uvSetIndicesIndex (?body (Decoder_init []) 3) = Inr (- 1)"
    by (simp add: first cursor)
  moreover have "appendTristripsPolyFaces mesh example_strips example_strips_map [] =
      Inl IndexOutOfRange"
    by (simp add: appendTristripsPolyFaces_def groups first second)
  ultimately show ?thesis
    by (intro conjI)
qed


subsection \<open>The UV and colour indices of fans and strips\<close>













subsection \<open>One primary instance for each mesh\<close>

lemma createGroupNodes_fold:
  "mMayaMeshNodesMap (foldl (\<lambda>s primitiveIndex.
        s\<lparr>mayaFile := mayaFile s @ [CreateGroupId],
          mGroupIdAssignments := mGroupIdAssignments s @ [g primitiveIndex]\<rparr>) s is) =
     mMayaMeshNodesMap s \<and>
   mayaFile (foldl (\<lambda>s primitiveIndex.
        s\<lparr>mayaFile := mayaFile s @ [CreateGroupId],
          mGroupIdAssignments := mGroupIdAssignments s @ [g primitiveIndex]\<rparr>) s is) =
     mayaFile s @ replicate (length is) CreateGroupId"
proof (induction "is" arbitrary: s)
  case Nil
  show ?case by simp
next
  case (Cons i "is")
  show ?case
    by (simp add: Cons.IH replicate_app_Cons_same)
qed

lemma createGroupNodes_effect:
  "mMayaMeshNodesMap (createGroupNodes mesh k s) = mMayaMeshNodesMap s \<and>
   (\<exists>c. mayaFile (createGroupNodes mesh k s) = mayaFile s @ replicate c CreateGroupId)"
proof (cases "length (meshPrimitives mesh) \<le> 1")
  case True
  then have "createGroupNodes mesh k s = s"
    by (simp add: createGroupNodes_def)
  then show ?thesis by simp
next
  case False
  then have "createGroupNodes mesh k s =
      foldl (\<lambda>s primitiveIndex.
        s\<lparr>mayaFile := mayaFile s @ [CreateGroupId],
          mGroupIdAssignments := mGroupIdAssignments s @
            [\<lparr>ga_geometryId = uniqueId mesh, ga_geometryInstanceIndex = k,
              ga_primitiveIndex = primitiveIndex\<rparr>]\<rparr>) s [0 ..< length (meshPrimitives mesh)]"
    by (simp add: createGroupNodes_def)
  then show ?thesis
    using createGroupNodes_fold [of "\<lambda>i. \<lparr>ga_geometryId = uniqueId mesh,
        ga_geometryInstanceIndex = k, ga_primitiveIndex = i\<rparr>" s
        "[0 ..< length (meshPrimitives mesh)]"]
    by auto
qed

lemma shadingEngines_fold:
  "mayaFile (foldl (\<lambda>s primitiveIndex.
        s\<lparr>mShadingEnginePrimitivesMap := g s primitiveIndex\<rparr>) s is) = mayaFile s \<and>
   mMayaMeshNodesMap (foldl (\<lambda>s primitiveIndex.
        s\<lparr>mShadingEnginePrimitivesMap := g s primitiveIndex\<rparr>) s is) = mMayaMeshNodesMap s"
  by (induction "is" arbitrary: s) simp_all

lemma setMeshPrimitiveShadingEngines_effect:
  "mayaFile (setMeshPrimitiveShadingEngines mesh s) = mayaFile s \<and>
   mMayaMeshNodesMap (setMeshPrimitiveShadingEngines mesh s) = mMayaMeshNodesMap s"
  unfolding setMeshPrimitiveShadingEngines_def Let_def
  by (rule shadingEngines_fold)

lemma createMesh_effect:
  assumes "createMesh mesh (Some tnode) n s = Inr s1"
  shows "\<exists>payload.
      mayaFile s1 = mayaFile s @
        [CreateMesh \<lparr>mn_uniqueId = uniqueId mesh, mn_parent = Some (mn_uniqueId tnode)\<rparr> tnode] @
        map MeshData payload \<and>
      mMayaMeshNodesMap s1 = (mMayaMeshNodesMap s)
        (uniqueId mesh \<mapsto> \<lparr>mn_uniqueId = uniqueId mesh, mn_parent = Some (mn_uniqueId tnode)\<rparr>)"
  using assms
  by (auto simp: createMesh_def Let_def setMeshPrimitiveShadingEngines_effect split: sum.splits)

lemma importMeshNodes_secondary:
  assumes "0 < idx"
    and "mMayaMeshNodesMap s (uniqueId mesh) = Some meshNode"
    and "\<forall>u \<in> set ts. findMayaTransformNode vsi u \<noteq> None"
  shows "\<exists>s' out. importMeshNodes mesh vsi n ts idx s = Inr s' \<and>
           mMayaMeshNodesMap s' = mMayaMeshNodesMap s \<and>
           mayaFile s' = mayaFile s @ out \<and>
           filter is_ParentShape out =
             map (\<lambda>u. ParentShape meshNode (the (findMayaTransformNode vsi u))) ts \<and>
           (\<forall>x \<in> set out. is_ParentShape x \<or> is_CreateGroupId x)"
  using assms
proof (induction ts arbitrary: idx s)
  case Nil
  show ?case by simp
next
  case (Cons t ts)
  from Cons.prems obtain tnode where tnode: "findMayaTransformNode vsi t = Some tnode"
    by auto
  let ?s1 = "s\<lparr>mayaFile := mayaFile s @ [ParentShape meshNode tnode]\<rparr>"
  let ?s2 = "createGroupNodes mesh idx ?s1"
  from createGroupNodes_effect [of mesh idx ?s1]
  obtain c where map2: "mMayaMeshNodesMap ?s2 = mMayaMeshNodesMap s"
    and file2: "mayaFile ?s2 = mayaFile s @ [ParentShape meshNode tnode] @ replicate c CreateGroupId"
    by auto
  have "\<exists>s' out. importMeshNodes mesh vsi n ts (idx + 1) ?s2 = Inr s' \<and>
           mMayaMeshNodesMap s' = mMayaMeshNodesMap ?s2 \<and>
           mayaFile s' = mayaFile ?s2 @ out \<and>
           filter is_ParentShape out =
             map (\<lambda>u. ParentShape meshNode (the (findMayaTransformNode vsi u))) ts \<and>
           (\<forall>x \<in> set out. is_ParentShape x \<or> is_CreateGroupId x)"
    using Cons.prems map2 by (intro Cons.IH) simp_all
  then obtain s' out where run: "importMeshNodes mesh vsi n ts (idx + 1) ?s2 = Inr s'"
    and map': "mMayaMeshNodesMap s' = mMayaMeshNodesMap ?s2"
    and file': "mayaFile s' = mayaFile ?s2 @ out"
    and ps: "filter is_ParentShape out =
             map (\<lambda>u. ParentShape meshNode (the (findMayaTransformNode vsi u))) ts"
    and only: "\<forall>x \<in> set out. is_ParentShape x \<or> is_CreateGroupId x"
    by blast
  have step: "importMeshNodes mesh vsi n (t # ts) idx s = Inr s'"
    using Cons.prems(1,2) tnode run by (simp add: findMayaMeshNode_def)
  let ?out = "[ParentShape meshNode tnode] @ replicate c CreateGroupId @ out"
  have "mayaFile s' = mayaFile s @ ?out"
    using file' file2 by simp
  moreover have "filter is_ParentShape ?out =
      map (\<lambda>u. ParentShape meshNode (the (findMayaTransformNode vsi u))) (t # ts)"
    using ps tnode by simp
  moreover have "\<forall>x \<in> set ?out. is_ParentShape x \<or> is_CreateGroupId x"
    using only by auto
  ultimately show ?case
    using step map' map2 by (intro exI [of _ s'] exI [of _ ?out]) simp
qed

lemma importGeometry_known:
  "findMayaMeshNode s (geometry_getUniqueId g) \<noteq> None \<Longrightarrow> importGeometry (Some g) vsi s = Inr s"
  by (simp add: importGeometry_def)

lemma filter_MeshData:
  "filter is_CreateMesh (map MeshData payload) = []"
  "filter is_ParentShape (map MeshData payload) = []"
  by (induction payload) simp_all

text \<open>
  Claim C7, amended. For a mesh used by \<open>n \<ge> 1\<close> transform nodes, all of them known to
  the scene, for which \<^verbatim>\<open>createMesh\<close> returns without a fatal error, \<^verbatim>\<open>importMesh\<close>
  writes the mesh node with its data exactly once, for the first transform node, and
  after it one \<^verbatim>\<open>parentShape\<close> for each of the other \<open>n - 1\<close> transform nodes, in their
  order, with nothing but group ids in between: no second mesh node and no further
  mesh data. Afterwards the mesh node is in the map, and \<^verbatim>\<open>importGeometry\<close> leaves the
  importer unchanged for a geometry with this unique id.
\<close>

theorem importMesh_one_primary:
  assumes "findGeometryTransformIds vsi (uniqueId mesh) = Some (t # ts)"
    and "\<forall>u \<in> set (t # ts). findMayaTransformNode vsi u \<noteq> None"
    and "createMesh mesh (findMayaTransformNode vsi t) (length (t # ts)) s = Inr s1"
  shows "\<exists>s' meshNode payload secondary.
      importMesh mesh vsi s = Inr s' \<and>
      mayaFile s1 = mayaFile s @
        [CreateMesh meshNode (the (findMayaTransformNode vsi t))] @ map MeshData payload \<and>
      mayaFile s' = mayaFile s1 @ secondary \<and>
      filter is_ParentShape secondary =
        map (\<lambda>u. ParentShape meshNode (the (findMayaTransformNode vsi u))) ts \<and>
      (\<forall>x \<in> set secondary. is_ParentShape x \<or> is_CreateGroupId x) \<and>
      length (filter is_CreateMesh (drop (length (mayaFile s)) (mayaFile s'))) = 1 \<and>
      length (filter is_ParentShape (drop (length (mayaFile s)) (mayaFile s'))) = length (t # ts) - 1 \<and>
      findMayaMeshNode s' (uniqueId mesh) = Some meshNode \<and>
      (\<forall>g. geometry_getUniqueId g = uniqueId mesh \<longrightarrow> importGeometry (Some g) vsi s' = Inr s')"
proof -
  from assms(2) obtain tnode where tnode: "findMayaTransformNode vsi t = Some tnode"
    by auto
  let ?meshNode = "\<lparr>mn_uniqueId = uniqueId mesh, mn_parent = Some (mn_uniqueId tnode)\<rparr>"
  from assms(3) have create: "createMesh mesh (Some tnode) (length (t # ts)) s = Inr s1"
    by (simp only: tnode)
  from createMesh_effect [OF create] obtain payload where
    file1: "mayaFile s1 = mayaFile s @ [CreateMesh ?meshNode tnode] @ map MeshData payload"
    and map1: "mMayaMeshNodesMap s1 = (mMayaMeshNodesMap s)(uniqueId mesh \<mapsto> ?meshNode)"
    by blast
  let ?s2 = "createGroupNodes mesh 0 s1"
  from createGroupNodes_effect [of mesh 0 s1]
  obtain c where map2: "mMayaMeshNodesMap ?s2 = (mMayaMeshNodesMap s)(uniqueId mesh \<mapsto> ?meshNode)"
    and file2: "mayaFile ?s2 = mayaFile s1 @ replicate c CreateGroupId"
    using map1 by auto
  have "\<exists>s' out. importMeshNodes mesh vsi (length (t # ts)) ts (0 + 1) ?s2 = Inr s' \<and>
           mMayaMeshNodesMap s' = mMayaMeshNodesMap ?s2 \<and>
           mayaFile s' = mayaFile ?s2 @ out \<and>
           filter is_ParentShape out =
             map (\<lambda>u. ParentShape ?meshNode (the (findMayaTransformNode vsi u))) ts \<and>
           (\<forall>x \<in> set out. is_ParentShape x \<or> is_CreateGroupId x)"
    using assms(2) map2 by (intro importMeshNodes_secondary) simp_all
  then obtain s' out where run: "importMeshNodes mesh vsi (length (t # ts)) ts (0 + 1) ?s2 = Inr s'"
    and map': "mMayaMeshNodesMap s' = mMayaMeshNodesMap ?s2"
    and file': "mayaFile s' = mayaFile ?s2 @ out"
    and ps: "filter is_ParentShape out =
             map (\<lambda>u. ParentShape ?meshNode (the (findMayaTransformNode vsi u))) ts"
    and only: "\<forall>x \<in> set out. is_ParentShape x \<or> is_CreateGroupId x"
    by blast
  let ?secondary = "replicate c CreateGroupId @ out"
  have imp: "importMesh mesh vsi s = Inr s'"
    using assms(1) tnode create run by (simp add: importMesh_def)
  have file1': "mayaFile s1 = mayaFile s @
        [CreateMesh ?meshNode (the (findMayaTransformNode vsi t))] @ map MeshData payload"
    using file1 tnode by simp
  have file_eq: "mayaFile s' = mayaFile s1 @ ?secondary"
    using file' file2 by simp
  have sec_ps: "filter is_ParentShape ?secondary =
        map (\<lambda>u. ParentShape ?meshNode (the (findMayaTransformNode vsi u))) ts"
    using ps by simp
  have sec_only: "\<forall>x \<in> set ?secondary. is_ParentShape x \<or> is_CreateGroupId x"
    using only by auto
  have sec_none: "filter is_CreateMesh ?secondary = []"
    using sec_only by (auto simp: filter_empty_conv)
  have new: "drop (length (mayaFile s)) (mayaFile s') =
      [CreateMesh ?meshNode tnode] @ map MeshData payload @ ?secondary"
    using file_eq file1 by simp
  have count_mesh: "length (filter is_CreateMesh (drop (length (mayaFile s)) (mayaFile s'))) = 1"
    using sec_none by (simp only: new filter_append filter_MeshData) simp
  have count_ps: "length (filter is_ParentShape (drop (length (mayaFile s)) (mayaFile s'))) =
      length (t # ts) - 1"
    using sec_ps by (simp only: new filter_append filter_MeshData) simp
  have known: "findMayaMeshNode s' (uniqueId mesh) = Some ?meshNode"
    using map' map2 by (simp add: findMayaMeshNode_def)
  have again: "\<forall>g. geometry_getUniqueId g = uniqueId mesh \<longrightarrow>
      importGeometry (Some g) vsi s' = Inr s'"
    using known by (simp add: importGeometry_known)
  show ?thesis
    using imp file1' file_eq sec_ps sec_only count_mesh count_ps known again
    by (intro exI [of _ s'] exI [of _ ?meshNode] exI [of _ payload] exI [of _ ?secondary]) blast
qed

lemma upt_5: "[0 ..< 5] = [0, 1, 2, 3, 4]"
  by (simp add: upt_rec)

lemma upt_6: "[0 ..< 6] = [0, 1, 2, 3, 4, 5]"
  by (simp add: upt_rec)

lemma example_fan_faces:
  "appendTrifansPolyFaces mesh example_fan example_fan_map [] =
     Inr (fanFaces mesh example_fan example_fan_map 0 [5])"
proof -
  have groups: "groupedVerticesVertexCountArray example_fan = [5]"
    and positions: "positionIndices example_fan = [0, 1, 2, 3, 4]"
    by (simp_all add: example_fan_def)
  have known: "fansKnown example_fan example_fan_map 0 (map unat (groupedVerticesVertexCountArray example_fan))"
    by (simp add: groups fanKnown_def upt_3 triangleKnown_def positions edgeKnown_def
        Edge_ctor_def example_fan_map_def)
  have "appendTrifansPolyFaces mesh example_fan example_fan_map [] =
     (if fansKnown example_fan example_fan_map 0 (map unat (groupedVerticesVertexCountArray example_fan))
      then Inr ([] @ fanFaces mesh example_fan example_fan_map 0
                  (map unat (groupedVerticesVertexCountArray example_fan)))
      else Inl EdgeNotFound)"
    by (rule appendTrifansPolyFaces_eq)
      (simp_all add: groups groupSize_def positions indicesAvailable_def example_fan_def)
  with known show ?thesis
    by (simp add: groups)
qed

lemma example_fan_positions:
  "writeVertexPositions (toLinearUnit example_importer) example_fan_mesh meshNode =
     Inr (meshNode @ [StartVrts 0 4] @
       map AppendVrts [0, 0, 0, 1, 0, 0, 1, 1, 0, 0, 1, 0, - 1, 1, 0] @ [EndVrts])"
  by (simp add: writeVertexPositions_def writeVrts_def appendVrts_def readValue_def
      example_fan_mesh_def example_values_def example_importer_def upt_5)

lemma example_fan_normals: "writeNormals example_fan_mesh meshNode = Inr meshNode"
  by (simp add: writeNormals_def example_fan_mesh_def)

lemma example_fan_uvs:
  "writeUVSets example_fan_mesh meshNode =
     Inr (meshNode @ [SetUvSize 1, SetUvSetName 0 ''map1'', StartUvSetPoints 0 0 4] @
       map AppendUvSetPoints [0, 0, 1, 0, 1, 1, 0, 1, 2, 2] @ [EndUvSetPoints])"
  by (simp add: writeUVSets_def writeUVSet_def appendUvSetPoints_def readValue_def
      example_fan_mesh_def example_values_def upt_5)

lemma example_fan_colors: "writeColorSets example_fan_mesh meshNode = Inr meshNode"
  by (simp add: writeColorSets_def example_fan_mesh_def example_values_def)

lemma example_fan_edge_indices:
  "getEdgeIndices example_fan_mesh = (example_fan_edges, example_fan_map)"
  by (simp add: getEdgeIndices_def example_fan_mesh_def example_fan_def)

lemma example_fan_writeFaces:
  "writeFaces example_fan_mesh example_fan_map meshNode =
     Inr (meshNode @ [StartFace 0 5] @
       map AppendFace (fanFaces example_fan_mesh example_fan example_fan_map 0 [5]) @
       map AppendFace (fanFaces example_fan_mesh example_fan example_fan_map 0 [5]) @ [EndFace])"
proof -
  have prims: "meshPrimitives example_fan_mesh = [example_fan, example_fan]"
    and count: "getFacesCount example_fan_mesh = 6"
    by (simp_all add: example_fan_mesh_def)
  have type: "primitiveType example_fan = TRIANGLE_FANS"
    by (simp add: example_fan_def)
  have prim: "writePrimitiveFaces example_fan_mesh example_fan_map node example_fan =
      Inr (node @ map AppendFace (fanFaces example_fan_mesh example_fan example_fan_map 0 [5]))"
    for node
    by (simp add: writePrimitiveFaces_def type appendFaces_def example_fan_faces)
  show ?thesis
    by (simp add: writeFaces_def prims count prim)
qed

lemma example_fan_createMesh:
  "\<exists>s1. createMesh example_fan_mesh (Some tnode) n example_importer = Inr s1"
  by (simp add: createMesh_def Let_def example_fan_positions example_fan_normals example_fan_uvs
      example_fan_colors example_fan_edge_indices example_fan_writeFaces
      example_importer_def [symmetric])

theorem importMesh_one_primary_witness:
  "findGeometryTransformIds example_scene (uniqueId example_fan_mesh) = Some (1 # [2, 3]) \<and>
   findMayaTransformNode example_scene 1 \<noteq> None \<and>
   findMayaTransformNode example_scene 2 \<noteq> None \<and>
   findMayaTransformNode example_scene 3 \<noteq> None \<and>
   (\<exists>s1. createMesh example_fan_mesh (findMayaTransformNode example_scene 1)
            (length (1 # [2, 3 :: nat])) example_importer = Inr s1 \<and>
     (\<exists>s' meshNode payload secondary.
        importMesh example_fan_mesh example_scene example_importer = Inr s' \<and>
        mayaFile s1 = mayaFile example_importer @
          [CreateMesh meshNode (the (findMayaTransformNode example_scene 1))] @
          map MeshData payload \<and>
        mayaFile s' = mayaFile s1 @ secondary \<and>
        filter is_ParentShape secondary =
          map (\<lambda>u. ParentShape meshNode (the (findMayaTransformNode example_scene u))) [2, 3] \<and>
        (\<forall>x \<in> set secondary. is_ParentShape x \<or> is_CreateGroupId x) \<and>
        length (filter is_CreateMesh
          (drop (length (mayaFile example_importer)) (mayaFile s'))) = 1 \<and>
        length (filter is_ParentShape
          (drop (length (mayaFile example_importer)) (mayaFile s'))) = length (1 # [2, 3 :: nat]) - 1 \<and>
        findMayaMeshNode s' (uniqueId example_fan_mesh) = Some meshNode \<and>
        (\<forall>g. geometry_getUniqueId g = uniqueId example_fan_mesh \<longrightarrow>
           importGeometry (Some g) example_scene s' = Inr s')))"
proof -
  have ids: "findGeometryTransformIds example_scene (uniqueId example_fan_mesh) = Some (1 # [2, 3])"
    by (simp add: example_scene_def)
  have nodes: "findMayaTransformNode example_scene 1 \<noteq> None"
    "findMayaTransformNode example_scene 2 \<noteq> None"
    "findMayaTransformNode example_scene 3 \<noteq> None"
    by (simp_all add: example_scene_def)
  then have all: "\<forall>u \<in> set (1 # [2, 3]). findMayaTransformNode example_scene u \<noteq> None"
    by simp
  from nodes(1) obtain tnode where tnode: "findMayaTransformNode example_scene 1 = Some tnode"
    by auto
  from example_fan_createMesh [of tnode "length (1 # [2, 3 :: nat])"] tnode
  obtain s1 where create: "createMesh example_fan_mesh (findMayaTransformNode example_scene 1)
            (length (1 # [2, 3 :: nat])) example_importer = Inr s1"
    by auto
  from importMesh_one_primary [OF ids all create] create ids nodes show ?thesis
    by blast
qed

text \<open>
  The import of a mesh that transform nodes use can end with a fatal error, other than
  claim C7 has it as it is stated: the UV set of stride 1 fails the assertion
  \<^verbatim>\<open>stride > 1 && stride <= 4\<close> of \<^verbatim>\<open>writeUVSets\<close>; without the transform node 1 in the
  scene \<^verbatim>\<open>importMesh\<close> dereferences a null pointer; and the second of the two strips
  reads its UV indices outside the index list.
\<close>

theorem importMesh_aborts:
  "importMesh example_stride_mesh example_scene example_importer = Inl AssertionFailed \<and>
   importMesh example_fan_mesh example_scene_without_node example_importer = Inl NullPointer \<and>
   importMesh example_strips_mesh example_scene example_importer = Inl IndexOutOfRange"
proof -
  have stride_positions:
    "writeVertexPositions (toLinearUnit example_importer) example_stride_mesh meshNode =
     Inr (meshNode @ [StartVrts 0 4] @
       map AppendVrts [0, 0, 0, 1, 0, 0, 1, 1, 0, 0, 1, 0, - 1, 1, 0] @ [EndVrts])"
    for meshNode
    by (simp add: writeVertexPositions_def writeVrts_def appendVrts_def readValue_def
        example_stride_mesh_def example_fan_mesh_def example_values_def example_importer_def upt_5)
  have stride_normals: "writeNormals example_stride_mesh meshNode = Inr meshNode" for meshNode
    by (simp add: writeNormals_def example_stride_mesh_def example_fan_mesh_def)
  have stride_uvs: "writeUVSets example_stride_mesh meshNode = Inl AssertionFailed" for meshNode
    by (simp add: writeUVSets_def writeUVSet_def example_stride_mesh_def example_values_def)
  have "createMesh example_stride_mesh (Some tnode) n example_importer = Inl AssertionFailed"
    for tnode n
    by (simp add: createMesh_def Let_def stride_positions stride_normals stride_uvs
        example_importer_def [symmetric])
  then have zeroth: "importMesh example_stride_mesh example_scene example_importer =
      Inl AssertionFailed"
    by (simp add: importMesh_def example_scene_def)
  have first: "importMesh example_fan_mesh example_scene_without_node example_importer =
      Inl NullPointer"
    by (simp add: importMesh_def example_scene_without_node_def)
  have positions: "writeVertexPositions (toLinearUnit example_importer) example_strips_mesh meshNode =
     Inr (meshNode @ [StartVrts 0 5] @
       map AppendVrts [0, 0, 0, 1, 0, 0, 1, 1, 0, 5, 0, 0, 6, 0, 0, 6, 1, 0] @ [EndVrts])"
    for meshNode
    by (simp add: writeVertexPositions_def writeVrts_def appendVrts_def readValue_def
        example_strips_mesh_def example_values_def example_importer_def upt_6)
  have normals: "writeNormals example_strips_mesh meshNode = Inr meshNode" for meshNode
    by (simp add: writeNormals_def example_strips_mesh_def)
  have uvs: "writeUVSets example_strips_mesh meshNode =
     Inr (meshNode @ [SetUvSize 1, SetUvSetName 0 ''map1'', StartUvSetPoints 0 0 5] @
       map AppendUvSetPoints [0, 0, 1, 0, 1, 1, 0, 0, 1, 0, 1, 1] @ [EndUvSetPoints])"
    for meshNode
    by (simp add: writeUVSets_def writeUVSet_def appendUvSetPoints_def readValue_def
        example_strips_mesh_def example_values_def upt_6)
  have colors: "writeColorSets example_strips_mesh meshNode = Inr meshNode" for meshNode
    by (simp add: writeColorSets_def example_strips_mesh_def example_values_def)
  have edges: "getEdgeIndices example_strips_mesh = (example_strips_edges, example_strips_map)"
    by (simp add: getEdgeIndices_def example_strips_mesh_def example_strips_def)
  have prims: "meshPrimitives example_strips_mesh = [example_strips]"
    and count: "getFacesCount example_strips_mesh = 2"
    by (simp_all add: example_strips_mesh_def)
  have type: "primitiveType example_strips = TRIANGLE_STRIPS"
    by (simp add: example_strips_def)
  from example_strips_decoding [of example_strips_mesh]
  have "appendTristripsPolyFaces example_strips_mesh example_strips example_strips_map [] =
      Inl IndexOutOfRange"
    by blast
  then have "writePrimitiveFaces example_strips_mesh example_strips_map node example_strips =
      Inl IndexOutOfRange" for node
    by (simp add: writePrimitiveFaces_def type appendFaces_def)
  then have faces: "writeFaces example_strips_mesh example_strips_map meshNode =
      Inl IndexOutOfRange" for meshNode
    by (simp add: writeFaces_def prims count)
  have "createMesh example_strips_mesh (Some tnode) n example_importer = Inl IndexOutOfRange"
    for tnode n
    by (simp add: createMesh_def Let_def positions normals uvs colors edges faces
        example_importer_def [symmetric])
  then have second: "importMesh example_strips_mesh example_scene example_importer =
      Inl IndexOutOfRange"
    by (simp add: importMesh_def example_scene_def)
  from zeroth first second show ?thesis
    by (intro conjI)
qed

end
